(* ===== verification/Prelude.thy ===== *)
theory Prelude
  imports Complex_Main "HOL-Library.Word"
begin

text \<open>
  Shared vocabulary of the development: the machine integer type of the C source, the
  collections of rewrite rules the component theories fill, and the generic lemmas on
  signed 32-bit arithmetic and on lists that several components use.
\<close>

section \<open>Machine integers of the source\<close>

text \<open>
  The C \<open>int\<close> of the program (\<open>maxRec\<close>, \<open>curRec\<close>, the slider values) and OpenGL's
  \<open>GLint\<close>/\<open>GLsizei\<close> are 32-bit two's complement integers: \<open>32 word\<close> read with
  \<open>sint\<close>. The C comparisons \<open>curRec >= maxRec\<close> are signed: \<open>\<le>s\<close>, \<open><s\<close>.
\<close>

type_synonym cint = "32 word"

named_theorems cint_simps "evaluation of signed comparisons on C ints"
named_theorems glm_simps "unfolding of the glm vector and matrix operations"
named_theorems gl_simps "unfolding of the modelled OpenGL entry points"

declare word_sle_eq [cint_simps] word_sless_alt [cint_simps]

text \<open>
  The increment \<open>curRec + 1\<close> is only executed under \<open>curRec < maxRec\<close>; then it
  cannot pass \<open>INT_MAX\<close>, so the wrapping addition of \<open>32 word\<close> agrees with the
  addition on \<open>int\<close>.
\<close>

lemma sint_incr_below:
  fixes a b :: cint
  assumes "a <s b"
  shows "sint (a + 1) = sint a + 1"
proof -
  from assms have lt: "sint a < sint b" by (simp add: word_sless_alt)
  have "sint b < 2 ^ 31" using sint_lt [of b] by simp
  moreover have "- (2 ^ 31) \<le> sint a" using sint_ge [of a] by simp
  ultimately have r: "- (2 ^ 31) \<le> sint a + 1 \<and> sint a + 1 < 2 ^ 31"
    using lt by linarith
  have "sint (a + 1) = signed_take_bit 31 (sint a + sint (1::cint))"
    by (simp add: sint_word_ariths)
  also have "\<dots> = sint a + 1"
    using r by (simp add: signed_take_bit_int_eq_self)
  finally show ?thesis .
qed

lemma cint_not_le_less: "\<not> (b::cint) \<le>s a \<longleftrightarrow> a <s b"
  by (simp add: word_sle_eq word_sless_alt not_le)

lemma cint_distance_Suc:
  fixes a b :: cint
  assumes "a <s b"
  shows "nat (sint b - sint a) = Suc (nat (sint b - sint (a + 1)))"
  using assms sint_incr_below [OF assms] by (simp add: word_sless_alt)

section \<open>Lists\<close>

lemma length_concat_map_const:
  assumes "\<And>x. x \<in> set xs \<Longrightarrow> length (f x) = k"
  shows "length (concat (map f xs)) = length xs * k"
  using assms by (induction xs) auto

text \<open>
  A loop that, from every state satisfying \<open>P\<close>, keeps \<open>P\<close> and extends an observed
  log \<open>V\<close> by \<open>F i\<close> in iteration \<open>i\<close>, extends it by the concatenation over the whole
  loop.
\<close>

lemma fold_log:
  assumes "\<And>i s. i \<in> set xs \<Longrightarrow> P s \<Longrightarrow> P (g i s) \<and> V (g i s) = V s @ F i"
    and "P s"
  shows "P (fold g xs s) \<and> V (fold g xs s) = V s @ concat (map F xs)"
  using assms by (induction xs arbitrary: s) fastforce+

text \<open>A loop over the concatenation of lists is the nested loop.\<close>

lemma fold_concat_nested: "fold f (concat xss) s = fold (fold f) xss s"
  by (induction xss arbitrary: s) simp_all

end
