(* ===== verification/Glm.thy ===== *)
theory Glm
  imports Prelude
begin

text \<open>
  The part of the glm math library the program calls: \<open>glm::vec3\<close>, \<open>glm::vec4\<close>,
  \<open>glm::mat4\<close> (column-major: \<open>m[i]\<close> is column \<open>i\<close>), \<open>glm::mat4(1.0f)\<close>,
  \<open>glm::scale\<close> and \<open>glm::translate\<close>. glm is a header library outside the repository;
  these definitions follow its \<open>matrix_transform.inl\<close>. Floats are idealised as reals.

  On top of the library operations the theory defines the abstract view of a matrix
  as a map on points (\<open>mat_point\<close>) and the similarity transforms \<open>p \<mapsto> s p + t\<close>
  (\<open>sim_mat\<close>), and proves that scaling then translating, as the fractal generator does,
  refines composition with a similarity.
\<close>

section \<open>Vectors and matrices\<close>

datatype vec3 = Vec3 real real real

datatype vec4 = Vec4 real real real real

datatype mat4 = Mat4 vec4 vec4 vec4 vec4

fun v3_add :: "vec3 \<Rightarrow> vec3 \<Rightarrow> vec3" where
  "v3_add (Vec3 a b c) (Vec3 a' b' c') = Vec3 (a + a') (b + b') (c + c')"

fun v3_smul :: "real \<Rightarrow> vec3 \<Rightarrow> vec3" where
  "v3_smul k (Vec3 a b c) = Vec3 (k * a) (k * b) (k * c)"

fun v4_add :: "vec4 \<Rightarrow> vec4 \<Rightarrow> vec4" where
  "v4_add (Vec4 a b c d) (Vec4 a' b' c' d') = Vec4 (a + a') (b + b') (c + c') (d + d')"

fun v4_smul :: "real \<Rightarrow> vec4 \<Rightarrow> vec4" where
  "v4_smul k (Vec4 a b c d) = Vec4 (k * a) (k * b) (k * c) (k * d)"

declare v3_add.simps [glm_simps] v3_smul.simps [glm_simps]
  v4_add.simps [glm_simps] v4_smul.simps [glm_simps]

text \<open>\<open>glm::mat4(1.0f)\<close>: the identity.\<close>

definition mat4_identity :: mat4 where
  "mat4_identity = Mat4 (Vec4 1 0 0 0) (Vec4 0 1 0 0) (Vec4 0 0 1 0) (Vec4 0 0 0 1)"

text \<open>
  \<open>glm::scale(m, v)\<close>: \<open>Result[0] = m[0] * v[0]; Result[1] = m[1] * v[1];
  Result[2] = m[2] * v[2]; Result[3] = m[3]\<close>.
\<close>

fun glm_scale :: "mat4 \<Rightarrow> vec3 \<Rightarrow> mat4" where
  "glm_scale (Mat4 c0 c1 c2 c3) (Vec3 a b c) =
     Mat4 (v4_smul a c0) (v4_smul b c1) (v4_smul c c2) c3"

text \<open>
  \<open>glm::translate(m, v)\<close>: \<open>Result[3] = m[0] * v[0] + m[1] * v[1] + m[2] * v[2] + m[3]\<close>,
  the other columns unchanged.
\<close>

fun glm_translate :: "mat4 \<Rightarrow> vec3 \<Rightarrow> mat4" where
  "glm_translate (Mat4 c0 c1 c2 c3) (Vec3 a b c) =
     Mat4 c0 c1 c2 (v4_add (v4_add (v4_add (v4_smul a c0) (v4_smul b c1)) (v4_smul c c2)) c3)"

text \<open>\<open>glm::radians(deg)\<close>: \<open>deg * pi / 180\<close>.\<close>

definition glm_radians :: "real \<Rightarrow> real" where
  "glm_radians deg = deg * pi / 180"

text \<open>\<open>glm::normalize(v) = v * inversesqrt(dot(v, v))\<close>.\<close>

fun glm_normalize :: "vec3 \<Rightarrow> vec3" where
  "glm_normalize (Vec3 a b c) = v3_smul (1 / sqrt (a * a + b * b + c * c)) (Vec3 a b c)"

text \<open>
  \<open>glm::rotate(m, angle, v)\<close>: with \<open>axis = normalize(v)\<close>, \<open>temp = (1 - c) * axis\<close>,
  \<open>Rotate[i][j]\<close> the rotation matrix entry of column \<open>i\<close>, row \<open>j\<close>, and
  \<open>Result[i] = m[0] * Rotate[i][0] + m[1] * Rotate[i][1] + m[2] * Rotate[i][2]\<close>,
  \<open>Result[3] = m[3]\<close>.
\<close>

fun glm_rotate :: "mat4 \<Rightarrow> real \<Rightarrow> vec3 \<Rightarrow> mat4" where
  "glm_rotate (Mat4 m0 m1 m2 m3) angle v =
     (let c = cos angle; s = sin angle;
          axis = glm_normalize v;
          x = (case axis of Vec3 x y z \<Rightarrow> x);
          y = (case axis of Vec3 x y z \<Rightarrow> y);
          z = (case axis of Vec3 x y z \<Rightarrow> z);
          t0 = (1 - c) * x; t1 = (1 - c) * y; t2 = (1 - c) * z;
          col = (\<lambda>r0 r1 r2. v4_add (v4_add (v4_smul r0 m0) (v4_smul r1 m1)) (v4_smul r2 m2))
      in Mat4 (col (c + t0 * x) (t0 * y + s * z) (t0 * z - s * y))
              (col (t1 * x - s * z) (c + t1 * y) (t1 * z + s * x))
              (col (t2 * x + s * y) (t2 * y - s * x) (c + t2 * z))
              m3)"

text \<open>
  \<open>glm::perspective(fovy, aspect, zNear, zFar)\<close> (right-handed, depth \<open>-1..1\<close>): all
  entries zero but \<open>Result[0][0] = 1 / (aspect * tanHalfFovy)\<close>,
  \<open>Result[1][1] = 1 / tanHalfFovy\<close>, \<open>Result[2][2] = -(zFar + zNear) / (zFar - zNear)\<close>,
  \<open>Result[2][3] = -1\<close>, \<open>Result[3][2] = -(2 * zFar * zNear) / (zFar - zNear)\<close>.
\<close>

definition glm_perspective :: "real \<Rightarrow> real \<Rightarrow> real \<Rightarrow> real \<Rightarrow> mat4" where
  "glm_perspective fovy aspect zNear zFar =
     (let t = tan (fovy / 2) in
      Mat4 (Vec4 (1 / (aspect * t)) 0 0 0)
           (Vec4 0 (1 / t) 0 0)
           (Vec4 0 0 (- (zFar + zNear) / (zFar - zNear)) (- 1))
           (Vec4 0 0 (- (2 * zFar * zNear) / (zFar - zNear)) 0))"

section \<open>Abstract view: matrices as maps on points\<close>

text \<open>
  A model matrix acts on a mesh point \<open>p\<close> as on the homogeneous vector \<open>(p, 1)\<close>:
  \<open>m * (p, 1) = p.x m[0] + p.y m[1] + p.z m[2] + m[3]\<close>.
\<close>

fun mat_point :: "mat4 \<Rightarrow> vec3 \<Rightarrow> vec4" where
  "mat_point (Mat4 c0 c1 c2 c3) (Vec3 a b c) =
     v4_add (v4_add (v4_add (v4_smul a c0) (v4_smul b c1)) (v4_smul c c2)) c3"

text \<open>
  \<open>sim_mat m s t\<close> is the matrix of \<open>m\<close> composed with the similarity
  \<open>p \<mapsto> s p + t\<close>: its linear columns are those of \<open>m\<close> scaled by \<open>s\<close> and its
  translation column is the image of \<open>t\<close>.
\<close>

fun sim_mat :: "mat4 \<Rightarrow> real \<Rightarrow> vec3 \<Rightarrow> mat4" where
  "sim_mat (Mat4 c0 c1 c2 c3) s t =
     Mat4 (v4_smul s c0) (v4_smul s c1) (v4_smul s c2) (mat_point (Mat4 c0 c1 c2 c3) t)"

text \<open>Squared Euclidean distance of two points.\<close>

fun v3_dist2 :: "vec3 \<Rightarrow> vec3 \<Rightarrow> real" where
  "v3_dist2 (Vec3 a b c) (Vec3 a' b' c') = (a - a')\<^sup>2 + (b - b')\<^sup>2 + (c - c')\<^sup>2"

fun linear_cols :: "mat4 \<Rightarrow> vec4 \<times> vec4 \<times> vec4" where
  "linear_cols (Mat4 c0 c1 c2 c3) = (c0, c1, c2)"

fun translation_col :: "mat4 \<Rightarrow> vec4" where
  "translation_col (Mat4 c0 c1 c2 c3) = c3"

text \<open>The diagonal entries \<open>m[0][0]\<close> and \<open>m[1][1]\<close>: horizontal and vertical scale.\<close>

fun mat_sx :: "mat4 \<Rightarrow> real" where
  "mat_sx (Mat4 (Vec4 a _ _ _) _ _ _) = a"

fun mat_sy :: "mat4 \<Rightarrow> real" where
  "mat_sy (Mat4 _ (Vec4 _ b _ _) _ _) = b"

text \<open>
  Rotations: a matrix whose three linear columns are orthonormal keeps distances. Dot
  product and squared distance of homogeneous vectors.
\<close>

fun v4_dot :: "vec4 \<Rightarrow> vec4 \<Rightarrow> real" where
  "v4_dot (Vec4 a b c d) (Vec4 a' b' c' d') = a * a' + b * b' + c * c' + d * d'"

fun v4_dist2 :: "vec4 \<Rightarrow> vec4 \<Rightarrow> real" where
  "v4_dist2 (Vec4 a b c d) (Vec4 a' b' c' d') =
     (a - a')\<^sup>2 + (b - b')\<^sup>2 + (c - c')\<^sup>2 + (d - d')\<^sup>2"

fun orthonormal :: "mat4 \<Rightarrow> bool" where
  "orthonormal (Mat4 c0 c1 c2 c3) \<longleftrightarrow>
     v4_dot c0 c0 = 1 \<and> v4_dot c1 c1 = 1 \<and> v4_dot c2 c2 = 1 \<and>
     v4_dot c0 c1 = 0 \<and> v4_dot c0 c2 = 0 \<and> v4_dot c1 c2 = 0"

declare glm_radians_def [glm_simps] glm_normalize.simps [glm_simps]
  glm_perspective_def [glm_simps]

declare mat4_identity_def [glm_simps] glm_scale.simps [glm_simps]
  glm_translate.simps [glm_simps] mat_point.simps [glm_simps] sim_mat.simps [glm_simps]
  linear_cols.simps [glm_simps] translation_col.simps [glm_simps]

section \<open>Lemmas\<close>

lemma mat4_cases4 [case_names Mat4]:
  obtains a0 b0 c0 d0 a1 b1 c1 d1 a2 b2 c2 d2 a3 b3 c3 d3 where
    "m = Mat4 (Vec4 a0 b0 c0 d0) (Vec4 a1 b1 c1 d1) (Vec4 a2 b2 c2 d2) (Vec4 a3 b3 c3 d3)"
proof -
  obtain u0 u1 u2 u3 where m: "m = Mat4 u0 u1 u2 u3" by (cases m)
  show ?thesis using that m by (cases u0; cases u1; cases u2; cases u3) blast
qed

lemma scale_translate_sim:
  "glm_translate (glm_scale m (Vec3 h h h)) t = sim_mat m h (v3_smul h t)"
  by (cases m rule: mat4_cases4; cases t) (simp add: algebra_simps)

lemma sim_mat_comp:
  "sim_mat (sim_mat m s t) s' t' = sim_mat m (s * s') (v3_add (v3_smul s t') t)"
  by (cases m rule: mat4_cases4; cases t; cases t') (simp add: algebra_simps)

lemma sim_mat_unit: "sim_mat m 1 (Vec3 0 0 0) = m"
  by (cases m rule: mat4_cases4) simp

lemma mat_point_sim:
  "mat_point (sim_mat m s t) p = mat_point m (v3_add (v3_smul s p) t)"
  by (cases m rule: mat4_cases4; cases t; cases p) (simp add: algebra_simps)

text \<open>Rotation keeps the translation column: a rotated identity has no translation.\<close>

lemma translation_col_rotate: "translation_col (glm_rotate m a v) = translation_col m"
  by (cases m) (simp add: Let_def)

lemma linear_cols_sim:
  "linear_cols (sim_mat m s t) =
     (case linear_cols m of (c0, c1, c2) \<Rightarrow> (v4_smul s c0, v4_smul s c1, v4_smul s c2))"
  by (cases m rule: mat4_cases4) simp

text \<open>An orthonormal matrix keeps the distance of any two points.\<close>

lemma orthonormal_dist:
  assumes "orthonormal m"
  shows "v4_dist2 (mat_point m p) (mat_point m q) = v3_dist2 p q"
proof -
  obtain a0 b0 c0 d0 a1 b1 c1 d1 a2 b2 c2 d2 a3 b3 c3 d3 where
    m: "m = Mat4 (Vec4 a0 b0 c0 d0) (Vec4 a1 b1 c1 d1) (Vec4 a2 b2 c2 d2) (Vec4 a3 b3 c3 d3)"
    by (rule mat4_cases4)
  obtain x y z where p: "p = Vec3 x y z" by (cases p)
  obtain x' y' z' where q: "q = Vec3 x' y' z'" by (cases q)
  let ?u = "x - x'" let ?v = "y - y'" let ?w = "z - z'"
  have "v4_dist2 (mat_point m p) (mat_point m q) =
     ?u\<^sup>2 * (a0 * a0 + b0 * b0 + c0 * c0 + d0 * d0) + ?v\<^sup>2 * (a1 * a1 + b1 * b1 + c1 * c1 + d1 * d1) +
     ?w\<^sup>2 * (a2 * a2 + b2 * b2 + c2 * c2 + d2 * d2) +
     2 * ?u * ?v * (a0 * a1 + b0 * b1 + c0 * c1 + d0 * d1) +
     2 * ?u * ?w * (a0 * a2 + b0 * b2 + c0 * c2 + d0 * d2) +
     2 * ?v * ?w * (a1 * a2 + b1 * b2 + c1 * c2 + d1 * d2)"
    by (simp add: m p q power2_eq_square algebra_simps)
  then show ?thesis using assms by (simp add: m p q)
qed

text \<open>A similarity with ratio \<open>s\<close> multiplies squared distances by \<open>s\<^sup>2\<close>.\<close>

lemma v3_dist2_sim:
  "v3_dist2 (v3_add (v3_smul s p) t) (v3_add (v3_smul s q) t) = s\<^sup>2 * v3_dist2 p q"
  by (cases p; cases q; cases t) (simp add: power2_eq_square algebra_simps)

lemma v3_dist2_smul: "v3_dist2 (v3_smul s p) (v3_smul s q) = s\<^sup>2 * v3_dist2 p q"
  by (cases p; cases q) (simp add: power2_eq_square algebra_simps)

text \<open>
  \<open>glm::rotate\<close> of the identity about the \<open>y\<close> axis, and of any matrix about the
  \<open>x\<close> axis: the unit axes need no normalisation.
\<close>

lemma rotate_identity_y:
  "glm_rotate mat4_identity a (Vec3 0 1 0) =
     Mat4 (Vec4 (cos a) 0 (- sin a) 0) (Vec4 0 1 0 0) (Vec4 (sin a) 0 (cos a) 0) (Vec4 0 0 0 1)"
  by (simp add: mat4_identity_def Let_def)

lemma rotate_x:
  "glm_rotate (Mat4 m0 m1 m2 m3) b (Vec3 1 0 0) =
     Mat4 m0 (v4_add (v4_smul (cos b) m1) (v4_smul (sin b) m2))
       (v4_add (v4_smul (- sin b) m1) (v4_smul (cos b) m2)) m3"
  by (cases m0; cases m1; cases m2) (simp add: Let_def)

text \<open>The rotation by \<open>a\<close> about \<open>y\<close> followed by \<open>b\<close> about \<open>x\<close> is orthonormal.\<close>

lemma rotation_orthonormal:
  fixes a b :: real
  shows "orthonormal (Mat4 (Vec4 (cos a) 0 (- sin a) 0)
              (Vec4 (sin b * sin a) (cos b) (sin b * cos a) 0)
              (Vec4 (cos b * sin a) (- sin b) (cos b * cos a) 0) (Vec4 0 0 0 1))"
proof -
  have sa: "sin a * sin a = 1 - cos a * cos a" and sb: "sin b * sin b = 1 - cos b * cos b"
    using sin_squared_eq [of a] sin_squared_eq [of b] by (simp_all add: power2_eq_square)
  have e1: "sin b * sin a * (sin b * sin a) = (sin b * sin b) * (sin a * sin a)"
    and e2: "sin b * cos a * (sin b * cos a) = (sin b * sin b) * (cos a * cos a)"
    and e3: "cos b * sin a * (cos b * sin a) = (cos b * cos b) * (sin a * sin a)"
    and e4: "cos b * cos a * (cos b * cos a) = (cos b * cos b) * (cos a * cos a)"
    and e5: "sin b * sin a * (cos b * sin a) = (sin b * cos b) * (sin a * sin a)"
    and e6: "sin b * cos a * (cos b * cos a) = (sin b * cos b) * (cos a * cos a)"
    by (simp_all add: algebra_simps)
  show ?thesis
    unfolding orthonormal.simps v4_dot.simps e1 e2 e3 e4 e5 e6 sa sb
    by (simp add: algebra_simps)
qed

end
