(* ===== verification/GL.thy ===== *)
theory GL
  imports Glm
begin

text \<open>
  The OpenGL context as the program uses it: the current program (\<open>glUseProgram\<close>),
  the active uniform locations of each linked program (\<open>glGetUniformLocation\<close>), the
  uniform values of each program (\<open>glUniformMatrix4fv\<close>, \<open>glUniform4f\<close>,
  \<open>glUniform1i\<close>), the sticky error flag, and the ordered log of draw calls
  (\<open>glDrawArrays\<close>) with the uniform values each draw saw. OpenGL is outside the
  repository; the entry points follow the OpenGL 3.3 core specification for the cases
  the program reaches: a uniform call with no current program records
  \<open>GL_INVALID_OPERATION\<close> and has no effect, location \<open>-1\<close> is silently ignored, a
  negative draw count records \<open>GL_INVALID_VALUE\<close>, and only the first error is kept
  until it is read. The objects the set-up creates are kept in stores from names to
  objects: buffer objects with their float data, vertex array objects with their vertex
  attribute pointers, and texture objects with their parameters, whether level 0 has an
  image and whether mipmaps were generated. Object names are the ones the implementation
  returns from \<open>glGen*\<close>, which the caller supplies.
\<close>

section \<open>State\<close>

datatype prim = GL_TRIANGLES

datatype gl_err = GL_INVALID_OPERATION | GL_INVALID_VALUE

datatype gl_cap = GL_DEPTH_TEST

datatype tex_param = GL_TEXTURE_WRAP_S | GL_TEXTURE_WRAP_T | GL_TEXTURE_MIN_FILTER
  | GL_TEXTURE_MAG_FILTER

datatype tex_value = GL_REPEAT | GL_LINEAR | GL_LINEAR_MIPMAP_LINEAR | GL_NEAREST_MIPMAP_LINEAR

text \<open>
  The arguments of \<open>glVertexAttribPointer(index, size, GL_FLOAT, GL_FALSE, stride,
  offset)\<close>, with stride and offset in floats.
\<close>

record attrib =
  attr_index :: nat
  attr_size :: nat
  attr_stride :: nat
  attr_offset :: nat

text \<open>A vertex attribute of a vertex array object: its pointer, source buffer and switch.\<close>

record vattrib =
  va_size :: nat
  va_stride :: nat
  va_offset :: nat
  va_buffer :: nat
  va_enabled :: bool

text \<open>A texture object: its parameters, whether level 0 holds an image, whether mipmaps exist.\<close>

record texobj =
  tex_params :: "tex_param \<Rightarrow> tex_value"
  tex_image :: bool
  tex_mipmaps :: bool

text \<open>A new texture object: repeat wrapping, \<open>GL_NEAREST_MIPMAP_LINEAR\<close> minification.\<close>

definition tex_default :: texobj where
  "tex_default = \<lparr>tex_params = (\<lambda>p. if p = GL_TEXTURE_MIN_FILTER then GL_NEAREST_MIPMAP_LINEAR
       else if p = GL_TEXTURE_MAG_FILTER then GL_LINEAR else GL_REPEAT),
     tex_image = False, tex_mipmaps = False\<rparr>"

text \<open>A uniform value: a matrix, a vector of four floats or an integer (a sampler unit).\<close>

datatype uval = UMat4 mat4 | UVec4 vec4 | UInt int

record draw =
  draw_mode :: prim
  draw_first :: cint
  draw_count :: cint
  draw_program :: nat
  draw_uniforms :: "cint \<Rightarrow> uval option"

text \<open>
  Program names are \<open>GLuint\<close>s, \<open>0\<close> meaning no program. Locations are \<open>GLint\<close>s;
  \<open>gl_uniform_locs st p name = -1\<close> when \<open>name\<close> is no active uniform of \<open>p\<close>.
\<close>

text \<open>
  \<open>gl_draws\<close> holds the draws since the framebuffer was last cleared, so after a frame it
  is what the frame shows. The texture unit, texture and vertex-array bindings, the
  viewport and the clear colour are kept as the names the program binds.
\<close>

record gl_state =
  gl_current_program :: nat
  gl_uniform_locs :: "nat \<Rightarrow> string \<Rightarrow> cint"
  gl_uniforms :: "nat \<Rightarrow> cint \<Rightarrow> uval option"
  gl_draws :: "draw list"
  gl_error :: "gl_err option"
  gl_viewport :: "cint \<times> cint \<times> cint \<times> cint"
  gl_clear_color :: vec4
  gl_active_texture :: nat
  gl_texture_2d :: nat
  gl_vertex_array :: nat
  gl_depth_test :: bool
  gl_array_buffer :: nat
  gl_buffers :: "nat \<Rightarrow> real list option"
  gl_vaos :: "nat \<Rightarrow> (nat \<Rightarrow> vattrib option) option"
  gl_textures :: "nat \<Rightarrow> texobj option"

text \<open>A fresh context whose linked programs have the uniform locations \<open>L\<close>.\<close>

definition gl_fresh :: "(nat \<Rightarrow> string \<Rightarrow> cint) \<Rightarrow> gl_state" where
  "gl_fresh L =
     \<lparr>gl_current_program = 0, gl_uniform_locs = L, gl_uniforms = (\<lambda>_ _. None),
      gl_draws = [], gl_error = None, gl_viewport = (0, 0, 0, 0),
      gl_clear_color = Vec4 0 0 0 0, gl_active_texture = 0, gl_texture_2d = 0,
      gl_vertex_array = 0, gl_depth_test = False, gl_array_buffer = 0,
      gl_buffers = (\<lambda>_. None), gl_vaos = (\<lambda>_. None), gl_textures = (\<lambda>_. None)(0 \<mapsto> tex_default)\<rparr>"

section \<open>Entry points\<close>

definition gl_set_error :: "gl_err \<Rightarrow> gl_state \<Rightarrow> gl_state" where
  "gl_set_error e st = (if gl_error st = None then st\<lparr>gl_error := Some e\<rparr> else st)"

definition glGetUniformLocation :: "gl_state \<Rightarrow> nat \<Rightarrow> string \<Rightarrow> cint" where
  "glGetUniformLocation st p name = gl_uniform_locs st p name"

definition glUseProgram :: "nat \<Rightarrow> gl_state \<Rightarrow> gl_state" where
  "glUseProgram p st = st\<lparr>gl_current_program := p\<rparr>"

text \<open>The common behaviour of the \<open>glUniform*\<close> family on the current program.\<close>

definition gl_uniform_set :: "cint \<Rightarrow> uval \<Rightarrow> gl_state \<Rightarrow> gl_state" where
  "gl_uniform_set loc v st =
     (let p = gl_current_program st in
      if p = 0 then gl_set_error GL_INVALID_OPERATION st
      else if loc = -1 then st
      else st\<lparr>gl_uniforms := (gl_uniforms st)(p := (gl_uniforms st p)(loc \<mapsto> v))\<rparr>)"

definition glUniformMatrix4fv :: "cint \<Rightarrow> mat4 \<Rightarrow> gl_state \<Rightarrow> gl_state" where
  "glUniformMatrix4fv loc m st = gl_uniform_set loc (UMat4 m) st"

definition glUniform4f :: "cint \<Rightarrow> real \<Rightarrow> real \<Rightarrow> real \<Rightarrow> real \<Rightarrow> gl_state \<Rightarrow> gl_state" where
  "glUniform4f loc a b c d st = gl_uniform_set loc (UVec4 (Vec4 a b c d)) st"

definition glUniform1i :: "cint \<Rightarrow> int \<Rightarrow> gl_state \<Rightarrow> gl_state" where
  "glUniform1i loc i st = gl_uniform_set loc (UInt i) st"

definition glDrawArrays :: "prim \<Rightarrow> cint \<Rightarrow> cint \<Rightarrow> gl_state \<Rightarrow> gl_state" where
  "glDrawArrays mode first count st =
     (if count <s 0 then gl_set_error GL_INVALID_VALUE st
      else (let p = gl_current_program st in
            st\<lparr>gl_draws := gl_draws st @
               [\<lparr>draw_mode = mode, draw_first = first, draw_count = count,
                 draw_program = p, draw_uniforms = gl_uniforms st p\<rparr>]\<rparr>))"

definition glViewport :: "cint \<Rightarrow> cint \<Rightarrow> cint \<Rightarrow> cint \<Rightarrow> gl_state \<Rightarrow> gl_state" where
  "glViewport x y w h st =
     (if w <s 0 \<or> h <s 0 then gl_set_error GL_INVALID_VALUE st
      else st\<lparr>gl_viewport := (x, y, w, h)\<rparr>)"

definition glClearColor :: "real \<Rightarrow> real \<Rightarrow> real \<Rightarrow> real \<Rightarrow> gl_state \<Rightarrow> gl_state" where
  "glClearColor r g b a st = st\<lparr>gl_clear_color := Vec4 r g b a\<rparr>"

text \<open>\<open>glClear(GL_COLOR_BUFFER_BIT | GL_DEPTH_BUFFER_BIT)\<close>: the frame starts empty.\<close>

definition glClear :: "gl_state \<Rightarrow> gl_state" where
  "glClear st = st\<lparr>gl_draws := []\<rparr>"

text \<open>\<open>glActiveTexture(GL_TEXTURE0 + unit)\<close>, with the unit number as argument.\<close>

definition glActiveTexture :: "nat \<Rightarrow> gl_state \<Rightarrow> gl_state" where
  "glActiveTexture unit st = st\<lparr>gl_active_texture := unit\<rparr>"

definition glBindTexture :: "nat \<Rightarrow> gl_state \<Rightarrow> gl_state" where
  "glBindTexture tex st = st\<lparr>gl_texture_2d := tex\<rparr>"

definition glBindVertexArray :: "nat \<Rightarrow> gl_state \<Rightarrow> gl_state" where
  "glBindVertexArray vao st = st\<lparr>gl_vertex_array := vao\<rparr>"

section \<open>Objects\<close>

text \<open>
  The calls that create and set up objects, as a datatype with one interpreter
  \<open>gl_exec\<close>: \<open>glEnable(cap)\<close>; \<open>glGenVertexArrays(1, &n)\<close>, \<open>glGenBuffers(1, &n)\<close>,
  \<open>glGenTextures(1, &n)\<close>, with \<open>n\<close> the unused name the implementation returns and the
  object in its initial state; \<open>glBindBuffer(GL_ARRAY_BUFFER, n)\<close>;
  \<open>glBufferData(GL_ARRAY_BUFFER, size, data, usage)\<close>; \<open>glVertexAttribPointer\<close> and
  \<open>glEnableVertexAttribArray\<close>; and the calls on the texture bound to
  \<open>GL_TEXTURE_2D\<close>: \<open>glTexParameteri\<close>, \<open>glTexImage2D\<close> (level 0 gets an image),
  \<open>glGenerateMipmap\<close>; \<open>glDeleteVertexArrays(1, &n)\<close> and \<open>glDeleteBuffers(1, &n)\<close>.
\<close>

datatype gl_obj_call =
    GlEnable gl_cap
  | GlGenVertexArrays nat
  | GlGenBuffers nat
  | GlGenTextures nat
  | GlBindBuffer nat
  | GlBufferData "real list"
  | GlVertexAttribPointer attrib
  | GlEnableVertexAttribArray nat
  | GlTexParameteri tex_param tex_value
  | GlTexImage2D
  | GlGenerateMipmap
  | GlDeleteVertexArrays nat
  | GlDeleteBuffers nat

text \<open>An update of the texture bound to \<open>GL_TEXTURE_2D\<close>; none bound is an error.\<close>

definition gl_tex_update :: "(texobj \<Rightarrow> texobj) \<Rightarrow> gl_state \<Rightarrow> gl_state" where
  "gl_tex_update f st =
     (case gl_textures st (gl_texture_2d st) of
        None \<Rightarrow> gl_set_error GL_INVALID_OPERATION st
      | Some t \<Rightarrow> st\<lparr>gl_textures := (gl_textures st)(gl_texture_2d st \<mapsto> f t)\<rparr>)"

text \<open>
  Buffer uploads need a bound buffer; in the core profile attribute calls need a bound
  vertex array object, and \<open>glVertexAttribPointer\<close> a bound array buffer, which becomes
  the attribute's source (its enable switch is kept); mipmaps need an image at level 0.
  Deleting name 0 or an unused name does nothing; a deleted object that is bound is
  unbound, and a deleted buffer is detached from the attributes of the bound vertex array.
\<close>

fun gl_exec :: "gl_obj_call \<Rightarrow> gl_state \<Rightarrow> gl_state" where
  "gl_exec (GlEnable cap) st = st\<lparr>gl_depth_test := True\<rparr>"
| "gl_exec (GlGenVertexArrays n) st = st\<lparr>gl_vaos := (gl_vaos st)(n \<mapsto> (\<lambda>_. None))\<rparr>"
| "gl_exec (GlGenBuffers n) st = st\<lparr>gl_buffers := (gl_buffers st)(n \<mapsto> [])\<rparr>"
| "gl_exec (GlGenTextures n) st = st\<lparr>gl_textures := (gl_textures st)(n \<mapsto> tex_default)\<rparr>"
| "gl_exec (GlBindBuffer b) st = st\<lparr>gl_array_buffer := b\<rparr>"
| "gl_exec (GlBufferData data) st =
     (if gl_array_buffer st = 0 then gl_set_error GL_INVALID_OPERATION st
      else st\<lparr>gl_buffers := (gl_buffers st)(gl_array_buffer st \<mapsto> data)\<rparr>)"
| "gl_exec (GlVertexAttribPointer a) st =
     (case gl_vaos st (gl_vertex_array st) of
        None \<Rightarrow> gl_set_error GL_INVALID_OPERATION st
      | Some attrs \<Rightarrow>
          if gl_vertex_array st = 0 \<or> gl_array_buffer st = 0 then gl_set_error GL_INVALID_OPERATION st
          else st\<lparr>gl_vaos := (gl_vaos st)(gl_vertex_array st \<mapsto> attrs(attr_index a \<mapsto>
            \<lparr>va_size = attr_size a, va_stride = attr_stride a, va_offset = attr_offset a,
             va_buffer = gl_array_buffer st,
             va_enabled = (case attrs (attr_index a) of None \<Rightarrow> False | Some v \<Rightarrow> va_enabled v)\<rparr>))\<rparr>)"
| "gl_exec (GlEnableVertexAttribArray i) st =
     (case gl_vaos st (gl_vertex_array st) of
        None \<Rightarrow> gl_set_error GL_INVALID_OPERATION st
      | Some attrs \<Rightarrow>
          if gl_vertex_array st = 0 then gl_set_error GL_INVALID_OPERATION st
          else st\<lparr>gl_vaos := (gl_vaos st)(gl_vertex_array st \<mapsto> attrs(i \<mapsto>
            (case attrs i of
               None \<Rightarrow> \<lparr>va_size = 4, va_stride = 0, va_offset = 0, va_buffer = 0, va_enabled = True\<rparr>
             | Some v \<Rightarrow> v\<lparr>va_enabled := True\<rparr>)))\<rparr>)"
| "gl_exec (GlTexParameteri p v) st = gl_tex_update (\<lambda>t. t\<lparr>tex_params := (tex_params t)(p := v)\<rparr>) st"
| "gl_exec GlTexImage2D st = gl_tex_update (\<lambda>t. t\<lparr>tex_image := True\<rparr>) st"
| "gl_exec GlGenerateMipmap st =
     (case gl_textures st (gl_texture_2d st) of
        Some t \<Rightarrow> if tex_image t then gl_tex_update (\<lambda>t. t\<lparr>tex_mipmaps := True\<rparr>) st
                  else gl_set_error GL_INVALID_OPERATION st
      | None \<Rightarrow> gl_set_error GL_INVALID_OPERATION st)"
| "gl_exec (GlDeleteVertexArrays n) st =
     (if n = 0 then st
      else st\<lparr>gl_vaos := (gl_vaos st)(n := None),
              gl_vertex_array := (if gl_vertex_array st = n then 0 else gl_vertex_array st)\<rparr>)"
| "gl_exec (GlDeleteBuffers n) st =
     (if n = 0 then st
      else st\<lparr>gl_buffers := (gl_buffers st)(n := None),
              gl_array_buffer := (if gl_array_buffer st = n then 0 else gl_array_buffer st),
              gl_vaos := (case gl_vaos st (gl_vertex_array st) of
                  None \<Rightarrow> gl_vaos st
                | Some attrs \<Rightarrow> (gl_vaos st)(gl_vertex_array st \<mapsto>
                    (\<lambda>i. map_option (\<lambda>v. if va_buffer v = n then v\<lparr>va_buffer := 0\<rparr> else v) (attrs i))))\<rparr>)"

text \<open>
  A texture is complete when level 0 has an image and, if the minification filter
  samples mipmaps, the mipmaps exist; sampling an incomplete texture returns black.
\<close>

definition texture_complete :: "texobj \<Rightarrow> bool" where
  "texture_complete t \<longleftrightarrow> tex_image t \<and>
     (tex_params t GL_TEXTURE_MIN_FILTER \<in> {GL_LINEAR_MIPMAP_LINEAR, GL_NEAREST_MIPMAP_LINEAR} \<longrightarrow>
      tex_mipmaps t)"

section \<open>Vertex fetch\<close>

text \<open>
  What the vertex fetch of a draw reads for attribute \<open>a\<close> of vertex \<open>i\<close> from a buffer:
  the \<open>attr_size\<close> floats at \<open>attr_offset + i * attr_stride\<close>, or \<open>None\<close> when they
  are not all inside the buffer (undefined behaviour in OpenGL: the read is out of the
  buffer object's storage).
\<close>

definition attrib_fetch :: "real list \<Rightarrow> attrib \<Rightarrow> nat \<Rightarrow> real list option" where
  "attrib_fetch buf a i =
     (let base = attr_offset a + i * attr_stride a in
      if base + attr_size a \<le> length buf then Some (take (attr_size a) (drop base buf))
      else None)"

text \<open>
  The enabled attribute \<open>i\<close> of the bound vertex array object, with the data of its
  source buffer: what a draw fetches attribute \<open>i\<close> from.
\<close>

definition gl_enabled_attrib :: "gl_state \<Rightarrow> nat \<Rightarrow> (attrib \<times> real list) option" where
  "gl_enabled_attrib st i =
     (case gl_vaos st (gl_vertex_array st) of
        None \<Rightarrow> None
      | Some attrs \<Rightarrow>
          (case attrs i of
             None \<Rightarrow> None
           | Some va \<Rightarrow>
               if \<not> va_enabled va then None
               else map_option (\<lambda>buf. (\<lparr>attr_index = i, attr_size = va_size va,
                   attr_stride = va_stride va, attr_offset = va_offset va\<rparr>, buf))
                 (gl_buffers st (va_buffer va))))"

text \<open>
  The frame a caller of the generator keeps fixed: the current program, the program
  table and the error flag.
\<close>

definition gl_frame :: "nat \<Rightarrow> (nat \<Rightarrow> string \<Rightarrow> cint) \<Rightarrow> gl_err option \<Rightarrow> gl_state \<Rightarrow> bool" where
  "gl_frame p L E s \<longleftrightarrow> gl_current_program s = p \<and> gl_uniform_locs s = L \<and> gl_error s = E"

text \<open>
  The object state a draw reads through: the bound vertex array and texture and the
  buffer, vertex array and texture stores.
\<close>

definition gl_objects ::
  "gl_state \<Rightarrow> nat \<times> nat \<times> (nat \<Rightarrow> real list option) \<times> (nat \<Rightarrow> (nat \<Rightarrow> vattrib option) option) \<times>
     (nat \<Rightarrow> texobj option)" where
  "gl_objects st = (gl_vertex_array st, gl_texture_2d st, gl_buffers st, gl_vaos st, gl_textures st)"

declare gl_set_error_def [gl_simps] glGetUniformLocation_def [gl_simps]
  glUseProgram_def [gl_simps] gl_uniform_set_def [gl_simps]
  glUniformMatrix4fv_def [gl_simps] glUniform4f_def [gl_simps] glUniform1i_def [gl_simps]
  glDrawArrays_def [gl_simps] glViewport_def [gl_simps] glClearColor_def [gl_simps]
  glClear_def [gl_simps] glActiveTexture_def [gl_simps] glBindTexture_def [gl_simps]
  glBindVertexArray_def [gl_simps]

declare gl_tex_update_def [gl_simps] gl_exec.simps [gl_simps]
declare gl_exec.simps [simp del]

section \<open>Frame lemmas\<close>

text \<open>
  The fields no entry point writes: the program table and the current program are only
  changed by linking and \<open>glUseProgram\<close>.
\<close>

lemma gl_uniform_set_frame [simp]:
  "gl_current_program (gl_uniform_set loc v st) = gl_current_program st"
  "gl_uniform_locs (gl_uniform_set loc v st) = gl_uniform_locs st"
  "gl_draws (gl_uniform_set loc v st) = gl_draws st"
  by (simp_all add: gl_simps Let_def)

lemma glDrawArrays_frame [simp]:
  "gl_current_program (glDrawArrays mode f c st) = gl_current_program st"
  "gl_uniform_locs (glDrawArrays mode f c st) = gl_uniform_locs st"
  "gl_uniforms (glDrawArrays mode f c st) = gl_uniforms st"
  by (simp_all add: gl_simps Let_def)

text \<open>Uniform uploads, draws, errors and the viewport leave the objects alone.\<close>

lemma gl_objects_frame [simp]:
  "gl_vertex_array (gl_uniform_set loc v st) = gl_vertex_array st"
  "gl_vertex_array (glDrawArrays mode f c st) = gl_vertex_array st"
  "gl_vertex_array (gl_set_error e st) = gl_vertex_array st"
  "gl_vertex_array (glViewport x y w h st) = gl_vertex_array st"
  "gl_texture_2d (gl_uniform_set loc v st) = gl_texture_2d st"
  "gl_texture_2d (glDrawArrays mode f c st) = gl_texture_2d st"
  "gl_texture_2d (gl_set_error e st) = gl_texture_2d st"
  "gl_texture_2d (glViewport x y w h st) = gl_texture_2d st"
  "gl_buffers (gl_uniform_set loc v st) = gl_buffers st"
  "gl_buffers (glDrawArrays mode f c st) = gl_buffers st"
  "gl_buffers (gl_set_error e st) = gl_buffers st"
  "gl_buffers (glViewport x y w h st) = gl_buffers st"
  "gl_vaos (gl_uniform_set loc v st) = gl_vaos st"
  "gl_vaos (glDrawArrays mode f c st) = gl_vaos st"
  "gl_vaos (gl_set_error e st) = gl_vaos st"
  "gl_vaos (glViewport x y w h st) = gl_vaos st"
  "gl_textures (gl_uniform_set loc v st) = gl_textures st"
  "gl_textures (glDrawArrays mode f c st) = gl_textures st"
  "gl_textures (gl_set_error e st) = gl_textures st"
  "gl_textures (glViewport x y w h st) = gl_textures st"
  by (simp_all add: gl_simps Let_def)

lemma gl_viewport_frame [simp]:
  "gl_viewport (gl_uniform_set loc v st) = gl_viewport st"
  "gl_viewport (glDrawArrays mode f c st) = gl_viewport st"
  "gl_viewport (gl_set_error e st) = gl_viewport st"
  by (simp_all add: gl_simps Let_def)

lemma gl_enabled_attrib_objects:
  assumes "gl_objects st = gl_objects st'"
  shows "gl_enabled_attrib st i = gl_enabled_attrib st' i"
proof -
  have "gl_vertex_array st = gl_vertex_array st'" "gl_buffers st = gl_buffers st'"
    "gl_vaos st = gl_vaos st'"
    using assms by (simp_all add: gl_objects_def)
  then show ?thesis by (simp only: gl_enabled_attrib_def)
qed

lemma gl_set_error_frame [simp]:
  "gl_current_program (gl_set_error e st) = gl_current_program st"
  "gl_uniform_locs (gl_set_error e st) = gl_uniform_locs st"
  "gl_uniforms (gl_set_error e st) = gl_uniforms st"
  "gl_draws (gl_set_error e st) = gl_draws st"
  by (simp_all add: gl_set_error_def)

lemma glViewport_frame [simp]:
  "gl_current_program (glViewport x y w h st) = gl_current_program st"
  "gl_uniform_locs (glViewport x y w h st) = gl_uniform_locs st"
  "gl_uniforms (glViewport x y w h st) = gl_uniforms st"
  "gl_draws (glViewport x y w h st) = gl_draws st"
  by (simp_all add: glViewport_def)

text \<open>The object calls leave the program state, the uniforms and the draw log alone.\<close>

lemma gl_tex_update_frame [simp]:
  "gl_current_program (gl_tex_update f st) = gl_current_program st"
  "gl_uniform_locs (gl_tex_update f st) = gl_uniform_locs st"
  "gl_uniforms (gl_tex_update f st) = gl_uniforms st"
  "gl_draws (gl_tex_update f st) = gl_draws st"
  by (simp_all add: gl_tex_update_def gl_set_error_def split: option.split)

lemma gl_object_calls_frame [simp]:
  "gl_current_program (gl_exec c st) = gl_current_program st"
  "gl_uniform_locs (gl_exec c st) = gl_uniform_locs st"
  "gl_uniforms (gl_exec c st) = gl_uniforms st"
  "gl_draws (gl_exec c st) = gl_draws st"
  by (cases c; simp add: gl_exec.simps gl_tex_update_def gl_set_error_def split: option.split)+

text \<open>With a program bound, a uniform upload records no error; nor does a viewport of
  non-negative size.\<close>

lemma gl_uniform_set_error [simp]:
  "gl_current_program st \<noteq> 0 \<Longrightarrow> gl_error (gl_uniform_set loc v st) = gl_error st"
  by (simp add: gl_uniform_set_def Let_def)

lemma glViewport_error:
  "0 \<le>s w \<Longrightarrow> 0 \<le>s h \<Longrightarrow> gl_error (glViewport x y w h st) = gl_error st"
  by (simp add: glViewport_def word_sle_eq word_sless_alt not_less)

lemma gl_uniform_set_other:
  "loc' \<noteq> loc \<Longrightarrow> gl_uniforms (gl_uniform_set loc v st) p loc' = gl_uniforms st p loc'"
  by (simp add: gl_simps Let_def)

lemma gl_uniform_set_same:
  "gl_current_program st = p \<Longrightarrow> p \<noteq> 0 \<Longrightarrow> loc \<noteq> -1 \<Longrightarrow>
     gl_uniforms (gl_uniform_set loc v st) p loc = Some v"
  by (simp add: gl_simps Let_def)

lemma gl_uniform_set_ok:
  assumes "gl_current_program st = p" "p \<noteq> 0" "loc \<noteq> -1"
  shows "gl_uniforms (gl_uniform_set loc v st) = (gl_uniforms st)(p := (gl_uniforms st p)(loc \<mapsto> v))"
    and "gl_error (gl_uniform_set loc v st) = gl_error st"
  using assms by (simp_all add: gl_simps Let_def)

lemma glDrawArrays_ok:
  assumes "0 \<le>s count"
  shows "gl_draws (glDrawArrays mode first count st) = gl_draws st @
           [\<lparr>draw_mode = mode, draw_first = first, draw_count = count,
             draw_program = gl_current_program st,
             draw_uniforms = gl_uniforms st (gl_current_program st)\<rparr>]"
    and "gl_error (glDrawArrays mode first count st) = gl_error st"
  using assms by (simp_all add: gl_simps Let_def word_sle_eq word_sless_alt)

text \<open>Once an error is recorded it stays: later errors do not overwrite it.\<close>

lemma gl_set_error_keeps:
  "gl_error st = Some e \<Longrightarrow> gl_error (gl_set_error e' st) = Some e"
  by (simp add: gl_set_error_def)

lemma gl_set_error_some: "gl_error (gl_set_error e st) \<noteq> None"
  by (simp add: gl_set_error_def)

end
