(* ===== verification/Mesh.thy ===== *)
theory Mesh
  imports GL
begin

text \<open>
  The constant geometry of \<open>src/src/main.cpp\<close>: the four corner offsets
  \<open>translations[]\<close> (lines 36--41), the interleaved vertex array \<open>vertices[]\<close> of
  \<open>main\<close> (lines 121--143: twelve vertices of five floats, position then texture
  coordinates, for the four faces CDB, CDA, BAD, BCA of a tetrahedron with corners
  A, B, C, D and side \<open>a = 1\<close>), and the two vertex attributes set up by
  \<open>glVertexAttribPointer\<close> (lines 160--164). Offsets and strides are counted in floats
  (the source's byte counts divided by \<open>sizeof(float)\<close>); \<open>sqrt\<close> and the float
  casts are idealised as exact real arithmetic.
\<close>

section \<open>Corner offsets\<close>

definition translations_arr :: "vec3 list" where
  "translations_arr =
     [Vec3 0 (- 2 * sqrt 3 / 6) 0,
      Vec3 (- 0.5) (sqrt 3 / 6) 0,
      Vec3 0.5 (sqrt 3 / 6) 0,
      Vec3 0 0 (sqrt 6 / 3)]"

section \<open>Vertex array\<close>

definition side_a :: real where
  "side_a = 1"

text \<open>The corners, as the array's comments name them.\<close>

definition corner_A :: vec3 where "corner_A = Vec3 0 0 (side_a * sqrt 6 / 3)"
definition corner_B :: vec3 where "corner_B = Vec3 0 (- side_a * 2 * sqrt 3 / 6) 0"
definition corner_C :: vec3 where "corner_C = Vec3 (side_a / 2) (side_a * sqrt 3 / 6) 0"
definition corner_D :: vec3 where "corner_D = Vec3 (- side_a / 2) (side_a * sqrt 3 / 6) 0"

fun vrow :: "vec3 \<Rightarrow> real \<Rightarrow> real \<Rightarrow> real list" where
  "vrow (Vec3 x y z) u v = [x, y, z, u, v]"

definition vertices :: "real list" where
  "vertices =
     vrow corner_C 1 1 @ vrow corner_D 0 0 @ vrow corner_B 1 0 @
     vrow corner_C 1 1 @ vrow corner_D 0 0 @ vrow corner_A 1 0 @
     vrow corner_B 1 1 @ vrow corner_A 0 0 @ vrow corner_D 1 0 @
     vrow corner_B 1 1 @ vrow corner_C 1 0 @ vrow corner_A 0 0"

section \<open>Vertex attributes\<close>

definition attrib_position :: attrib where
  "attrib_position = \<lparr>attr_index = 0, attr_size = 3, attr_stride = 5, attr_offset = 0\<rparr>"

definition attrib_texcoord :: attrib where
  "attrib_texcoord = \<lparr>attr_index = 1, attr_size = 3, attr_stride = 5, attr_offset = 3\<rparr>"

definition vertex_attribs :: "attrib list" where
  "vertex_attribs = [attrib_position, attrib_texcoord]"

text \<open>
  The array read as its twelve rows, one per vertex: the corner its comment names and the
  two texture coordinates; \<open>venc\<close> lays a row out as five floats.
\<close>

definition vertex_rows :: "(vec3 \<times> real \<times> real) list" where
  "vertex_rows =
     [(corner_C, 1, 1), (corner_D, 0, 0), (corner_B, 1, 0),
      (corner_C, 1, 1), (corner_D, 0, 0), (corner_A, 1, 0),
      (corner_B, 1, 1), (corner_A, 0, 0), (corner_D, 1, 0),
      (corner_B, 1, 1), (corner_C, 1, 0), (corner_A, 0, 0)]"

definition venc :: "vec3 \<times> real \<times> real \<Rightarrow> real list" where
  "venc r = (case r of (p, u, v) \<Rightarrow> vrow p u v)"

text \<open>The three floats of a \<open>glm::vec3\<close>, as \<open>glm::value_ptr\<close> lays them out.\<close>

fun v3_list :: "vec3 \<Rightarrow> real list" where
  "v3_list (Vec3 x y z) = [x, y, z]"

lemma length_vertices: "length vertices = 60"
  by (simp add: vertices_def corner_A_def corner_B_def corner_C_def corner_D_def)


text \<open>Every position fetch from vertex 12 on lies past the end of the array.\<close>

lemma position_fetch_past_end:
  "12 \<le> i \<Longrightarrow> attrib_fetch vertices attrib_position i = None"
  by (simp add: attrib_fetch_def length_vertices attrib_position_def)

lemma vertices_rows: "vertices = concat (map venc vertex_rows)"
  by (simp add: vertices_def vertex_rows_def venc_def)

lemma length_venc [simp]: "length (venc r) = 5"
  by (cases r; cases "fst r") (auto simp: venc_def)

text \<open>Decoding the rows of a buffer of five-float rows: row \<open>i\<close> starts at float \<open>5 i\<close>.\<close>

lemma drop_rows: "drop (i * 5) (concat (map venc rs)) = concat (map venc (drop i rs))"
proof (induction rs arbitrary: i)
  case Nil then show ?case by simp
next
  case (Cons r rs)
  then show ?case by (cases i) simp_all
qed

lemma fetch_row:
  assumes "i < length rs" "attr_stride a = 5" "attr_offset a + attr_size a \<le> 5"
  shows "attrib_fetch (concat (map venc rs)) a i = Some (take (attr_size a) (drop (attr_offset a) (venc (rs ! i))))"
proof -
  have d: "drop (i * 5) (concat (map venc rs)) = venc (rs ! i) @ concat (map venc (drop (Suc i) rs))"
    using assms(1) by (simp add: drop_rows Cons_nth_drop_Suc [symmetric])
  have "length (concat (map venc rs)) = length rs * 5"
    by (simp add: length_concat_map_const)
  moreover have "attr_offset a + i * 5 + attr_size a \<le> length rs * 5"
    using assms(1,3) by (simp add: algebra_simps)
  moreover have "drop (attr_offset a + i * 5) (concat (map venc rs)) =
      drop (attr_offset a) (venc (rs ! i)) @ concat (map venc (drop (Suc i) rs))"
    using d assms(3) by (simp add: drop_drop [symmetric] add.commute)
  ultimately show ?thesis
    using assms(2,3) by (simp add: attrib_fetch_def add.commute)
qed

lemma length_vertex_rows: "length vertex_rows = 12"
  by (simp add: vertex_rows_def)

text \<open>Any two distinct corner offsets are at distance 1.\<close>

lemma corner_dist:
  assumes "i < 4" "j < 4" "i \<noteq> j"
  shows "v3_dist2 (translations_arr ! i) (translations_arr ! j) = 1"
proof -
  have "i = 0 \<or> i = 1 \<or> i = 2 \<or> i = 3" "j = 0 \<or> j = 1 \<or> j = 2 \<or> j = 3"
    using assms by auto
  then show ?thesis
    using assms(3) by (auto simp: translations_arr_def power2_eq_square algebra_simps)
qed

section \<open>Properties of the geometry\<close>

text \<open>
  C6. The corner offsets span a regular tetrahedron of side 1: any two distinct corners
  are at distance 1.
\<close>

theorem corners_regular:
  assumes "i < 4" "j < 4" "i \<noteq> j"
  shows "v3_dist2 (translations_arr ! i) (translations_arr ! j) = 1"
  using corner_dist [OF assms] .

theorem corners_regular_witness:
  "v3_dist2 (translations_arr ! 0) (translations_arr ! 3) = 1"
  using corners_regular [of 0 3] by simp

text \<open>
  C27. Round trip of the vertex layout: for each of the twelve vertices, the fetch of
  attribute 0 (three floats at offset 0, stride 5) decodes exactly the position the array
  encodes for that vertex.
\<close>

theorem position_roundtrip:
  assumes "i < 12"
  shows "attrib_fetch vertices attrib_position i = Some (v3_list (fst (vertex_rows ! i)))"
proof -
  obtain x y z where "fst (vertex_rows ! i) = Vec3 x y z" by (cases "fst (vertex_rows ! i)")
  then show ?thesis
    using fetch_row [of i vertex_rows attrib_position] assms
    by (simp add: vertices_rows length_vertex_rows attrib_position_def venc_def split_beta)
qed

theorem position_roundtrip_witness:
  "attrib_fetch vertices attrib_position 7 = Some (v3_list (fst (vertex_rows ! 7)))"
  using position_roundtrip [of 7] by simp

text \<open>
  C28. Attribute 1 does not decode the texture coordinates: for every vertex but the
  last, its three floats are the vertex's two texture coordinates followed by the
  \<open>x\<close> coordinate of the next vertex's position.
\<close>

theorem texcoord_reads_next:
  assumes "i < 11"
  shows "attrib_fetch vertices attrib_texcoord i =
    Some [fst (snd (vertex_rows ! i)), snd (snd (vertex_rows ! i)), hd (v3_list (fst (vertex_rows ! Suc i)))]"
proof -
  have d: "drop (i * 5) vertices = venc (vertex_rows ! i) @ venc (vertex_rows ! Suc i) @
      concat (map venc (drop (Suc (Suc i)) vertex_rows))"
    using assms by (simp add: vertices_rows drop_rows length_vertex_rows Cons_nth_drop_Suc [symmetric])
  obtain x y z where p: "fst (vertex_rows ! i) = Vec3 x y z" by (cases "fst (vertex_rows ! i)")
  obtain x' y' z' where q: "fst (vertex_rows ! Suc i) = Vec3 x' y' z'" by (cases "fst (vertex_rows ! Suc i)")
  have "3 + i * 5 + 3 \<le> length vertices" using assms by (simp add: length_vertices)
  moreover have "drop (3 + i * 5) vertices = drop 3 (drop (i * 5) vertices)"
    by (simp add: add.commute)
  ultimately show ?thesis
    using d p q by (simp add: attrib_fetch_def attrib_texcoord_def venc_def split_beta add.commute)
qed

theorem texcoord_reads_next_witness:
  "attrib_fetch vertices attrib_texcoord 2 =
    Some [fst (snd (vertex_rows ! 2)), snd (snd (vertex_rows ! 2)), hd (v3_list (fst (vertex_rows ! 3)))]"
  using texcoord_reads_next [of 2] by simp

end
