(* ===== verification/Sierpinski.thy ===== *)
theory Sierpinski
  imports GL Mesh
begin

text \<open>
  The fractal generator \<open>generateSierpinskiTriangle\<close> of \<open>src/src/main.cpp\<close>
  (lines 43--63) as a state transformer of the OpenGL context, and its abstract
  specification: the ordered list of (first vertex, vertex count, model matrix) triples
  that its draws use. The recursion is on the C \<open>int\<close>s \<open>maxRec\<close>, \<open>curRec\<close>
  (\<open>32 word\<close>, compared signed); it terminates because \<open>maxRec - curRec\<close> decreases,
  and \<open>curRec + 1\<close> never wraps since it is only computed below \<open>maxRec\<close>.
\<close>

section \<open>The generator\<close>

text \<open>
  Lines 45--47 and 52--55: look up the \<open>model\<close> uniform of the shader, upload a matrix
  to it and draw \<open>count\<close> vertices from \<open>first\<close>.
\<close>

definition draw_with_model :: "nat \<Rightarrow> mat4 \<Rightarrow> cint \<Rightarrow> cint \<Rightarrow> gl_state \<Rightarrow> gl_state" where
  "draw_with_model shader m first count st =
     (let modelLoc = glGetUniformLocation st shader ''model'';
          st1 = glUniformMatrix4fv modelLoc m st
      in glDrawArrays GL_TRIANGLES first count st1)"

text \<open>Lines 59--60: the model matrix of child \<open>i\<close>.\<close>

definition child_model :: "mat4 \<Rightarrow> nat \<Rightarrow> mat4" where
  "child_model model i =
     glm_translate (glm_scale model (Vec3 0.5 0.5 0.5)) (translations_arr ! i)"

function generateSierpinskiTriangle ::
  "nat \<Rightarrow> mat4 \<Rightarrow> cint \<Rightarrow> cint \<Rightarrow> gl_state \<Rightarrow> gl_state" where
  "generateSierpinskiTriangle shader model maxRec curRec st =
     (if maxRec \<le>s curRec then draw_with_model shader model 0 12 st
      else
        (let st1 = (if curRec = 0 then draw_with_model shader mat4_identity 12 6 st else st)
         in fold (\<lambda>i. generateSierpinskiTriangle shader (child_model model i) maxRec (curRec + 1))
              [0..<4] st1))"
  by pat_completeness auto
termination
  by (relation "measure (\<lambda>(shader, model, maxRec, curRec, st). nat (sint maxRec - sint curRec))")
     (auto simp: cint_not_le_less word_sless_alt sint_incr_below)

declare generateSierpinskiTriangle.simps [simp del]

section \<open>Abstract specification\<close>

text \<open>
  The index paths of the 4-ary recursion tree of height \<open>n\<close>, in the order the loop
  visits them (depth first, child 0 first), and the model matrix at the end of a path.
\<close>

fun paths :: "nat \<Rightarrow> nat list list" where
  "paths 0 = [[]]"
| "paths (Suc n) = concat (map (\<lambda>i. map (Cons i) (paths n)) [0..<4])"

fun path_model :: "mat4 \<Rightarrow> nat list \<Rightarrow> mat4" where
  "path_model m [] = m"
| "path_model m (i # p) = path_model (child_model m i) p"

text \<open>
  The offset of the similarity a path applies: each step halves the offset below it and
  adds half of its corner offset.
\<close>

fun path_offset :: "nat list \<Rightarrow> vec3" where
  "path_offset [] = Vec3 0 0 0"
| "path_offset (i # p) =
     v3_add (v3_smul (1 / 2) (path_offset p)) (v3_smul (1 / 2) (translations_arr ! i))"

text \<open>The leaf draws: all twelve vertices under the model matrix of each path.\<close>

definition leaf_draws :: "mat4 \<Rightarrow> nat \<Rightarrow> (cint \<times> cint \<times> mat4) list" where
  "leaf_draws m n = map (\<lambda>p. (0, 12, path_model m p)) (paths n)"

text \<open>
  What a call draws: the outer triangle (vertices 12 to 17) under the identity first,
  when it is the root call and there is at least one level to recurse; then the leaves
  of the tree of height \<open>maxRec - curRec\<close> (one leaf, the call itself, when
  \<open>curRec \<ge> maxRec\<close>).
\<close>

definition sierpinski_spec :: "mat4 \<Rightarrow> cint \<Rightarrow> cint \<Rightarrow> (cint \<times> cint \<times> mat4) list" where
  "sierpinski_spec m maxRec curRec =
     (if curRec = 0 \<and> curRec <s maxRec then [(12, 6, mat4_identity)] else []) @
     leaf_draws m (nat (sint maxRec - sint curRec))"

text \<open>How a draw of the log is seen through the location of the \<open>model\<close> uniform.\<close>

definition draw_view :: "cint \<Rightarrow> draw \<Rightarrow> cint \<times> cint \<times> uval option" where
  "draw_view loc d = (draw_first d, draw_count d, draw_uniforms d loc)"

definition spec_view :: "cint \<times> cint \<times> mat4 \<Rightarrow> cint \<times> cint \<times> uval option" where
  "spec_view x = (case x of (f, c, m) \<Rightarrow> (f, c, Some (UMat4 m)))"

section \<open>The generator against its specification\<close>

lemma leaf_draws_Suc:
  "leaf_draws m (Suc n) = concat (map (\<lambda>i. leaf_draws (child_model m i) n) [0..<4])"
  by (simp add: leaf_draws_def map_concat comp_def)

lemma leaf_draws_0: "leaf_draws m 0 = [(0, 12, m)]"
  by (simp add: leaf_draws_def)

lemma length_paths: "length (paths n) = 4 ^ n"
  by (induction n) (simp_all add: length_concat_map_const)

lemma length_paths_mem: "p \<in> set (paths n) \<Longrightarrow> length p = n"
  by (induction n arbitrary: p) auto

lemma length_sierpinski_spec:
  "length (sierpinski_spec m maxRec curRec) =
     (if curRec = 0 \<and> curRec <s maxRec then 1 else 0) + 4 ^ nat (sint maxRec - sint curRec)"
  by (auto simp: sierpinski_spec_def leaf_draws_def length_paths)

text \<open>The generator only issues the two draws of the source: leaves and outer triangle.\<close>

lemma sierpinski_spec_shapes:
  "(f, c, m') \<in> set (sierpinski_spec m mx cur) \<Longrightarrow> (f, c) = (0, 12) \<or> (f, c) = (12, 6)"
  by (auto simp: sierpinski_spec_def leaf_draws_def)

lemma sierpinski_spec_counts: "x \<in> set (sierpinski_spec m mx cur) \<Longrightarrow> 0 \<le>s fst (snd x)"
  using sierpinski_spec_shapes [of "fst x" "fst (snd x)" "snd (snd x)" m mx cur]
  by (auto simp: cint_simps)

text \<open>
  The recursion unfolded: from a non-negative depth the generator is the loop of
  \<open>draw_with_model\<close> over its specification. Computation induction on the generator;
  the loop over the four children is the loop over the concatenated leaves of the
  children.
\<close>

lemma generate_fold_spec:
  "0 \<le>s cur \<Longrightarrow> generateSierpinskiTriangle p m mx cur st =
     fold (\<lambda>(f, c, m). draw_with_model p m f c) (sierpinski_spec m mx cur) st"
proof (induction p m mx cur st rule: generateSierpinskiTriangle.induct)
  case (1 p m mx cur st)
  show ?case
  proof (cases "mx \<le>s cur")
    case True
    then show ?thesis
      by (simp add: generateSierpinskiTriangle.simps [of p m mx cur st] sierpinski_spec_def
          leaf_draws_0 cint_simps)
  next
    case False
    then have lt: "cur <s mx" by (simp add: cint_not_le_less)
    define st1 where "st1 = (if cur = 0 then draw_with_model p mat4_identity 12 6 st else st)"
    define n where "n = nat (sint mx - sint (cur + 1))"
    have dist: "nat (sint mx - sint cur) = Suc n"
      using lt by (simp add: n_def cint_distance_Suc)
    have cur1: "0 \<le>s cur + 1" "cur + 1 \<noteq> 0"
      using lt "1.prems" sint_incr_below [OF lt] by (auto simp: cint_simps)
    have child: "sierpinski_spec (child_model m i) mx (cur + 1) = leaf_draws (child_model m i) n"
      for i using cur1 by (simp add: sierpinski_spec_def n_def)
    have "fold (\<lambda>i. generateSierpinskiTriangle p (child_model m i) mx (cur + 1)) [0..<4] st1 =
        fold (\<lambda>i. fold (\<lambda>(f, c, m). draw_with_model p m f c) (leaf_draws (child_model m i) n))
          [0..<4] st1"
    proof (intro fold_cong refl ext)
      fix i s assume "i \<in> set [0..<4]"
      then show "generateSierpinskiTriangle p (child_model m i) mx (cur + 1) s =
          fold (\<lambda>(f, c, m). draw_with_model p m f c) (leaf_draws (child_model m i) n) s"
        using "1.IH" [OF False st1_def _ cur1(1)] child by simp
    qed
    moreover have "fold (\<lambda>(f, c, m). draw_with_model p m f c) (sierpinski_spec m mx cur) st =
        fold (\<lambda>i. fold (\<lambda>(f, c, m). draw_with_model p m f c) (leaf_draws (child_model m i) n))
          [0..<4] st1"
      using lt dist by (simp add: sierpinski_spec_def leaf_draws_Suc fold_concat_nested fold_map
          comp_def st1_def)
    moreover have "generateSierpinskiTriangle p m mx cur st =
        fold (\<lambda>i. generateSierpinskiTriangle p (child_model m i) mx (cur + 1)) [0..<4] st1"
      using False by (simp add: generateSierpinskiTriangle.simps [of p m mx cur st] st1_def)
    ultimately show ?thesis by simp
  qed
qed

text \<open>
  The induction every property of the generator's draw log follows: if each
  \<open>draw_with_model\<close> of a non-negative count keeps an invariant \<open>P\<close> and extends an
  observed log \<open>V\<close> by \<open>F\<close> of its (first, count, matrix), then the whole call extends
  \<open>V\<close> by \<open>F\<close> mapped over \<open>sierpinski_spec\<close>: \<open>fold_log\<close> over the unfolded loop.
\<close>

lemma generate_log_induct:
  assumes "\<And>m f c s. P s \<Longrightarrow> 0 \<le>s c \<Longrightarrow>
      P (draw_with_model p m f c s) \<and> V (draw_with_model p m f c s) = V s @ [F (f, c, m)]"
    and "P st" "0 \<le>s cur"
  shows "P (generateSierpinskiTriangle p m mx cur st) \<and>
    V (generateSierpinskiTriangle p m mx cur st) = V st @ map F (sierpinski_spec m mx cur)"
proof -
  have "P (fold (\<lambda>(f, c, m). draw_with_model p m f c) (sierpinski_spec m mx cur) st) \<and>
      V (fold (\<lambda>(f, c, m). draw_with_model p m f c) (sierpinski_spec m mx cur) st) =
      V st @ concat (map (\<lambda>x. [F x]) (sierpinski_spec m mx cur))"
  proof (rule fold_log)
    fix x s assume "x \<in> set (sierpinski_spec m mx cur)" "P s"
    then show "P ((\<lambda>(f, c, m). draw_with_model p m f c) x s) \<and>
        V ((\<lambda>(f, c, m). draw_with_model p m f c) x s) = V s @ [F x]"
      using assms(1) sierpinski_spec_counts [of x] by (auto split: prod.splits)
  qed (fact assms(2))
  then show ?thesis
    by (simp add: generate_fold_spec [OF assms(3)])
qed

text \<open>One \<open>draw_with_model\<close> seen through the \<open>model\<close> location, in a bound program.\<close>

lemma draw_with_model_view:
  assumes "gl_frame p L E st" "p \<noteq> 0" "L p ''model'' = l" "l \<noteq> -1" "0 \<le>s count"
  shows "gl_frame p L E (draw_with_model p m first count st) \<and>
    map (draw_view l) (gl_draws (draw_with_model p m first count st)) =
    map (draw_view l) (gl_draws st) @ [spec_view (first, count, m)]"
  using assms
  by (simp add: draw_with_model_def gl_frame_def draw_view_def spec_view_def gl_simps Let_def
      cint_simps)

text \<open>Every \<open>draw_with_model\<close> of a non-negative count appends one draw, whatever the context.\<close>

lemma draw_with_model_shape:
  assumes "0 \<le>s count"
  shows "map (\<lambda>d. (draw_first d, draw_count d)) (gl_draws (draw_with_model p m first count st)) =
    map (\<lambda>d. (draw_first d, draw_count d)) (gl_draws st) @ [(first, count)]"
  using assms by (simp add: draw_with_model_def gl_simps Let_def cint_simps)

lemma generate_shape:
  assumes "0 \<le>s cur"
  shows "map (\<lambda>d. (draw_first d, draw_count d)) (gl_draws (generateSierpinskiTriangle p m mx cur st)) =
    map (\<lambda>d. (draw_first d, draw_count d)) (gl_draws st) @
    map (\<lambda>(f, c, _). (f, c)) (sierpinski_spec m mx cur)"
  using generate_log_induct [where P = "\<lambda>_. True" and V = "\<lambda>s. map (\<lambda>d. (draw_first d, draw_count d)) (gl_draws s)"
      and F = "\<lambda>(f, c, _). (f, c)", OF _ _ assms]
  by (simp add: draw_with_model_shape)

lemma generate_draw_count:
  assumes "0 \<le>s cur"
  shows "length (gl_draws (generateSierpinskiTriangle p m mx cur st)) =
    length (gl_draws st) + length (sierpinski_spec m mx cur)"
  using arg_cong [OF generate_shape [OF assms, of p m mx st], of length] by simp

section \<open>Leaf transforms\<close>

lemma child_model_sim:
  "child_model m i = sim_mat m (1 / 2) (v3_smul (1 / 2) (translations_arr ! i))"
  by (simp add: child_model_def scale_translate_sim [of m "1 / 2", simplified])

lemma path_model_sim:
  "path_model m p = sim_mat m ((1 / 2) ^ length p) (path_offset p)"
  by (induction p arbitrary: m)
     (simp_all add: sim_mat_unit child_model_sim sim_mat_comp mult.commute)

text \<open>The origin of child \<open>i\<close> is where the parent maps half its corner offset.\<close>

lemma translation_col_child:
  "translation_col (child_model m i) = mat_point m (v3_smul (1 / 2) (translations_arr ! i))"
  by (cases m) (simp add: child_model_sim)

text \<open>The generator's draw log through the \<open>model\<close> location, in a bound program.\<close>

lemma generate_view_log:
  assumes "gl_frame p L E st" "p \<noteq> 0" "L p ''model'' = l" "l \<noteq> -1" "0 \<le>s cur"
  shows "map (draw_view l) (gl_draws (generateSierpinskiTriangle p m mx cur st)) =
    map (draw_view l) (gl_draws st) @ map spec_view (sierpinski_spec m mx cur)"
proof -
  have "gl_frame p L E (draw_with_model p m' f c s) \<and>
      map (draw_view l) (gl_draws (draw_with_model p m' f c s)) =
      map (draw_view l) (gl_draws s) @ [spec_view (f, c, m')]"
    if "gl_frame p L E s" "0 \<le>s c" for m' f c s
    using draw_with_model_view that assms(2-4) by blast
  then show ?thesis
    using generate_log_induct [where P = "gl_frame p L E"
        and V = "\<lambda>s. map (draw_view l) (gl_draws s)" and F = spec_view, OF _ assms(1,5)]
    by blast
qed

text \<open>A call in a bound program keeps the program, the table and the error flag.\<close>

lemma generate_keeps_frame:
  assumes "gl_frame p L E st" "p \<noteq> 0" "0 \<le>s cur"
  shows "gl_frame p L E (generateSierpinskiTriangle p m mx cur st)"
proof -
  have "gl_frame p L E (draw_with_model p m' f c s) \<and>
      map (\<lambda>_. ()) (gl_draws (draw_with_model p m' f c s)) = map (\<lambda>_. ()) (gl_draws s) @ [()]"
    if "gl_frame p L E s" "0 \<le>s c" for m' f c s
    using that assms(2) by (simp add: draw_with_model_def gl_frame_def glUniformMatrix4fv_def glDrawArrays_ok
        gl_simps Let_def cint_simps)
  from generate_log_induct [where V = "\<lambda>s. map (\<lambda>_. ()) (gl_draws s)", OF this assms(1,3)]
  show ?thesis by simp
qed

lemma root_cint: "(0::cint) \<le>s 0"
  by (simp add: gl_fresh_def cint_simps)

section \<open>Properties of the generator\<close>

text \<open>
  C1. With the shader program bound and its \<open>model\<close> uniform active, a call of the
  generator from a non-negative depth appends to the draw log exactly the draws of
  \<open>sierpinski_spec\<close>, in order, each seeing its model matrix in the \<open>model\<close> uniform;
  the bound program, the program table and the error flag are untouched.
\<close>

theorem generate_draws_spec:
  assumes "gl_frame p L E st" "p \<noteq> 0" "L p ''model'' = l" "l \<noteq> -1" "0 \<le>s cur"
  shows "map (draw_view l) (gl_draws (generateSierpinskiTriangle p m mx cur st)) =
    map (draw_view l) (gl_draws st) @ map spec_view (sierpinski_spec m mx cur) \<and>
    gl_frame p L E (generateSierpinskiTriangle p m mx cur st)"
  using generate_view_log [OF assms] generate_keeps_frame [OF assms(1,2,5)] by blast

theorem generate_draws_spec_witness:
  "map (draw_view 0) (gl_draws (generateSierpinskiTriangle 1 mat4_identity 1 0
       ((gl_fresh (\<lambda>_ _. 0))\<lparr>gl_current_program := 1\<rparr>))) =
   map spec_view (sierpinski_spec mat4_identity 1 0) \<and>
   gl_frame 1 (\<lambda>_ _. 0) None (generateSierpinskiTriangle 1 mat4_identity 1 0
       ((gl_fresh (\<lambda>_ _. 0))\<lparr>gl_current_program := 1\<rparr>))"
  using generate_draws_spec [of 1 "\<lambda>_ _. 0" None
      "(gl_fresh (\<lambda>_ _. 0))\<lparr>gl_current_program := 1\<rparr>" 0 0 mat4_identity 1]
  by (simp add: gl_frame_def gl_fresh_def cint_simps)

text \<open>
  C2. The root call \<open>generateSierpinskiTriangle(shader, model, maxRec, 0)\<close> issues
  \<open>1 + 4^maxRec\<close> draws when \<open>maxRec > 0\<close> (the outer triangle and one per leaf)
  and a single draw otherwise, for every 32-bit \<open>maxRec\<close> and in any GL state.
\<close>

theorem generate_root_draw_count:
  "length (gl_draws (generateSierpinskiTriangle p m maxRec 0 st)) =
     length (gl_draws st) + (if 0 <s maxRec then 1 + 4 ^ nat (sint maxRec) else 1)"
proof -
  have "\<not> 0 <s maxRec \<Longrightarrow> nat (sint maxRec) = 0"
    by (simp add: gl_fresh_def cint_simps)
  then show ?thesis
    using root_cint by (simp add: generate_draw_count length_sierpinski_spec)
qed

text \<open>
  C3. At recursion depth 0 the root call issues exactly one draw, the twelve-vertex leaf
  draw: the early return of the base case comes before the \<open>curRec == 0\<close> branch, so
  the outer triangle is not drawn (the specification says both fire, two draws).
\<close>

theorem generate_depth0_single_draw:
  "map (\<lambda>d. (draw_first d, draw_count d)) (gl_draws (generateSierpinskiTriangle p m 0 0 st)) =
     map (\<lambda>d. (draw_first d, draw_count d)) (gl_draws st) @ [(0, 12)]"
  using root_cint by (simp add: generate_shape sierpinski_spec_def leaf_draws_0)

text \<open>
  C4. Refinement of the leaf transforms: the model matrix of the leaf reached by a path
  of length \<open>n\<close> is the root matrix composed with the similarity
  \<open>x \<mapsto> 2^-n x + path_offset p\<close>; in particular its linear part is the root's scaled
  by \<open>0.5^n\<close>.
\<close>

theorem leaf_draws_similarity:
  "leaf_draws m n = map (\<lambda>p. (0, 12, sim_mat m ((1 / 2) ^ n) (path_offset p))) (paths n)"
  by (simp add: leaf_draws_def path_model_sim length_paths_mem)

text \<open>
  C5. The generator relies on its caller to bind the program: called with no program
  bound and no pending error, it leaves \<open>GL_INVALID_OPERATION\<close> recorded.
\<close>

theorem generate_unbound_program_error:
  assumes "gl_current_program st = 0" "gl_error st = None" "0 \<le>s cur"
  shows "gl_error (generateSierpinskiTriangle p m mx cur st) = Some GL_INVALID_OPERATION"
proof -
  let ?n = "length (gl_draws st)"
  let ?P = "\<lambda>s. gl_current_program s = 0 \<and> ?n \<le> length (gl_draws s) \<and>
     gl_error s = (if length (gl_draws s) = ?n then None else Some GL_INVALID_OPERATION)"
  have step: "?P (draw_with_model p m' f c s) \<and>
      map (\<lambda>_. ()) (gl_draws (draw_with_model p m' f c s)) = map (\<lambda>_. ()) (gl_draws s) @ [()]"
    if "?P s" "0 \<le>s c" for m' f c s
    using that by (auto simp: draw_with_model_def gl_simps Let_def cint_simps)
  have "?P (generateSierpinskiTriangle p m mx cur st) \<and>
      map (\<lambda>_. ()) (gl_draws (generateSierpinskiTriangle p m mx cur st)) =
      map (\<lambda>_. ()) (gl_draws st) @ map (\<lambda>_. ()) (sierpinski_spec m mx cur)"
    by (rule generate_log_induct [where F = "\<lambda>_. ()"]) (use step assms in auto)
  moreover have "sierpinski_spec m mx cur \<noteq> []"
    using length_sierpinski_spec [of m mx cur] by auto
  ultimately show ?thesis
    by (metis (no_types, lifting) add_cancel_left_right length_append length_greater_0_conv
        length_map less_not_refl2)
qed

theorem generate_unbound_program_error_witness:
  "gl_error (generateSierpinskiTriangle 1 mat4_identity 2 0
     ((gl_fresh (\<lambda>_ _. 0))\<lparr>gl_current_program := 0\<rparr>)) = Some GL_INVALID_OPERATION"
  using generate_unbound_program_error [of
      "(gl_fresh (\<lambda>_ _. 0))\<lparr>gl_current_program := 0\<rparr>" 0 1 mat4_identity 2]
  by (simp add: gl_fresh_def cint_simps)

text \<open>
  C7. Child \<open>i\<close> is the half-size copy at corner \<open>i\<close>: its model matrix maps each
  corner \<open>j\<close> of the mesh to where the parent maps the midpoint of corners \<open>i\<close> and
  \<open>j\<close> (so corner \<open>i\<close> itself stays fixed).
\<close>

theorem child_maps_corner_to_midpoint:
  "mat_point (child_model m i) (translations_arr ! j) =
     mat_point m (v3_smul (1 / 2) (v3_add (translations_arr ! i) (translations_arr ! j)))"
proof -
  obtain a b c where i: "translations_arr ! i = Vec3 a b c" by (cases "translations_arr ! i")
  obtain a' b' c' where j: "translations_arr ! j = Vec3 a' b' c'" by (cases "translations_arr ! j")
  show ?thesis
    by (simp add: child_model_sim mat_point_sim i j add_divide_distrib add.commute)
qed

text \<open>
  C18. Equivalence with the flat loop: from a non-negative depth, the recursive generator
  leaves the GL context exactly as the loop that calls \<open>draw_with_model\<close> once per
  triple of \<open>sierpinski_spec\<close>, in order, does, in every field of the context.
\<close>

theorem generate_equiv_flat:
  assumes "0 \<le>s cur"
  shows "generateSierpinskiTriangle p m mx cur st =
    fold (\<lambda>(f, c, m). draw_with_model p m f c) (sierpinski_spec m mx cur) st"
  using generate_fold_spec [OF assms] .

theorem generate_equiv_flat_witness:
  "generateSierpinskiTriangle 1 mat4_identity 2 0 (gl_fresh (\<lambda>_ _. 0)) =
    fold (\<lambda>(f, c, m). draw_with_model 1 m f c) (sierpinski_spec mat4_identity 2 0)
      (gl_fresh (\<lambda>_ _. 0))"
  using generate_equiv_flat [of 0 1 mat4_identity 2 "gl_fresh (\<lambda>_ _. 0)"] by (simp add: cint_simps)

text \<open>
  C32. Idempotence (testable property 6 of the specification): calling the generator
  twice with the same inputs, in a bound program, appends the same ordered sequence of
  (first vertex, count, model matrix) draws twice.
\<close>

theorem generate_idempotent:
  assumes "gl_frame p L E st" "p \<noteq> 0" "L p ''model'' = l" "l \<noteq> -1"
  shows "map (draw_view l) (gl_draws (generateSierpinskiTriangle p m mx 0
       (generateSierpinskiTriangle p m mx 0 st))) =
    map (draw_view l) (gl_draws st) @ map spec_view (sierpinski_spec m mx 0) @
      map spec_view (sierpinski_spec m mx 0)"
  using generate_view_log [OF generate_keeps_frame [OF assms(1,2) root_cint] assms(2-4) root_cint]
    generate_view_log [OF assms root_cint]
  by simp

theorem generate_idempotent_witness:
  "map (draw_view 0) (gl_draws (generateSierpinskiTriangle 1 mat4_identity 1 0
       (generateSierpinskiTriangle 1 mat4_identity 1 0 ((gl_fresh (\<lambda>_ _. 0))\<lparr>gl_current_program := 1\<rparr>)))) =
   map spec_view (sierpinski_spec mat4_identity 1 0) @ map spec_view (sierpinski_spec mat4_identity 1 0)"
  using generate_idempotent [of 1 "\<lambda>_ _. 0" None "(gl_fresh (\<lambda>_ _. 0))\<lparr>gl_current_program := 1\<rparr>"
      0 mat4_identity 1]
  by (simp add: gl_frame_def gl_fresh_def)

end
