(* ===== verification/RenderLoop.thy ===== *)
theory RenderLoop
  imports Sierpinski
begin

text \<open>
  One iteration of the render loop of \<open>main\<close> (\<open>src/src/main.cpp\<close>, lines 207--279)
  as a function on the UI statics and the GL state, and runs of the loop over a list of
  per-frame inputs. The statics \<open>recursion\<close>, \<open>xAxis\<close>, \<open>yAxis\<close>,
  \<open>fractalColor\<close> of lines 218--219 form a record. The ImGui widgets are modelled by
  their effect on the edited value: a slider dragged by the user stores its value clamped
  to the slider's range, a colour editor stores the red, green and blue it is given
  clamped to \<open>0..1\<close> and keeps alpha, an untouched widget keeps the value. A
  slider also accepts a typed value (CTRL+click turns it into a text field), which ImGui
  stores without clamping (\<open>imgui.h\<close>: manually input values are not clamped and can
  go off bounds, unless the slider is created with \<open>ImGuiSliderFlags_AlwaysClamp\<close>,
  which lines 223--225 do not pass). The
  \<open>Shader\<close> helpers \<open>use\<close> and \<open>setMat4\<close> (learnopengl's \<open>shader_m.h\<close>, outside
  \<open>src\<close>) are \<open>glUseProgram(ID)\<close> and an upload to the named uniform. ImGui's own draw
  calls (\<open>ImGui_ImplOpenGL3_RenderDrawData\<close>) save and restore the GL state they touch
  and draw into the UI overlay, so they leave the modelled state unchanged; polling,
  buffer swapping and the \<open>unsigned int\<close> round trip of \<open>modelLoc\<close> (bit-identical on
  32 bits) are identities too.
\<close>

section \<open>State and inputs\<close>

record ui_state =
  ui_recursion :: cint
  ui_xAxis :: cint
  ui_yAxis :: cint
  ui_color :: vec4

text \<open>Lines 218--219: the statics start at \<open>0, 0, 0\<close> and \<open>(2.0, 0.1, 1.4, 1.5)\<close>.\<close>

definition ui_init :: ui_state where
  "ui_init = \<lparr>ui_recursion = 0, ui_xAxis = 0, ui_yAxis = 0, ui_color = Vec4 2.0 0.1 1.4 1.5\<rparr>"

text \<open>
  An edit of a slider: dragged to a position, or a value typed into its text field.
\<close>

datatype slider_edit = SliderDrag cint | SliderTyped cint

text \<open>What the user does to each widget in one frame, and the framebuffer size.\<close>

record frame_input =
  in_xAxis :: "slider_edit option"
  in_yAxis :: "slider_edit option"
  in_recursion :: "slider_edit option"
  in_color :: "(real \<times> real \<times> real) option"
  in_fb_size :: "cint \<times> cint"

text \<open>The names the setup part of \<open>main\<close> created: shader program, texture, vertex array.\<close>

record app =
  app_shader :: nat
  app_texture :: nat
  app_vao :: nat

section \<open>Widgets and shader helpers\<close>

definition clamp_cint :: "cint \<Rightarrow> cint \<Rightarrow> cint \<Rightarrow> cint" where
  "clamp_cint lo hi x = (if x <s lo then lo else if hi <s x then hi else x)"

text \<open>\<open>ImGui::SliderInt(label, &v, lo, hi)\<close>.\<close>

definition SliderInt :: "cint \<Rightarrow> cint \<Rightarrow> slider_edit option \<Rightarrow> cint \<Rightarrow> cint" where
  "SliderInt lo hi input v =
     (case input of
        None \<Rightarrow> v
      | Some (SliderDrag x) \<Rightarrow> clamp_cint lo hi x
      | Some (SliderTyped x) \<Rightarrow> x)"

definition clamp01 :: "real \<Rightarrow> real" where
  "clamp01 x = max 0 (min 1 x)"

text \<open>\<open>ImGui::ColorEdit3(label, (float*)&color)\<close>: edits the first three floats only.\<close>

fun ColorEdit3 :: "(real \<times> real \<times> real) option \<Rightarrow> vec4 \<Rightarrow> vec4" where
  "ColorEdit3 None c = c"
| "ColorEdit3 (Some (r, g, b)) (Vec4 _ _ _ a) = Vec4 (clamp01 r) (clamp01 g) (clamp01 b) a"

text \<open>\<open>Shader::use()\<close> and \<open>Shader::setMat4(name, mat)\<close>.\<close>

definition shader_use :: "nat \<Rightarrow> gl_state \<Rightarrow> gl_state" where
  "shader_use shader st = glUseProgram shader st"

definition shader_setMat4 :: "nat \<Rightarrow> string \<Rightarrow> mat4 \<Rightarrow> gl_state \<Rightarrow> gl_state" where
  "shader_setMat4 shader name m st =
     glUniformMatrix4fv (glGetUniformLocation st shader name) m st"

section \<open>One frame\<close>

text \<open>Lines 220--226: upload the colour, then run the four widgets.\<close>

definition ui_widgets :: "frame_input \<Rightarrow> ui_state \<Rightarrow> ui_state" where
  "ui_widgets inp ui =
     ui\<lparr>ui_xAxis := SliderInt 1 360 (in_xAxis inp) (ui_xAxis ui),
        ui_yAxis := SliderInt 1 360 (in_yAxis inp) (ui_yAxis ui),
        ui_recursion := SliderInt 0 10 (in_recursion inp) (ui_recursion ui),
        ui_color := ColorEdit3 (in_color inp) (ui_color ui)\<rparr>"

text \<open>Lines 228--234: the model matrix, two rotations of the identity.\<close>

definition frame_model :: "ui_state \<Rightarrow> mat4" where
  "frame_model ui =
     glm_rotate (glm_rotate mat4_identity (glm_radians (real_of_int (sint (ui_xAxis ui)))) (Vec3 0 1 0))
       (glm_radians (real_of_int (sint (ui_yAxis ui)))) (Vec3 1 0 0)"

text \<open>Lines 30--31: the window size \<open>main\<close> asks GLFW for.\<close>

definition SCR_WIDTH :: nat where "SCR_WIDTH = 1280"

definition SCR_HEIGHT :: nat where "SCR_HEIGHT = 1280"

text \<open>Lines 236--237: the fixed view and projection.\<close>

definition frame_view :: mat4 where
  "frame_view = glm_translate mat4_identity (Vec3 0 0 (- 3))"

definition frame_projection :: mat4 where
  "frame_projection = glm_perspective (glm_radians 45) (800 / 600) 0.1 100"

text \<open>
  Lines 211--274, in order: everything the frame does before it calls the generator.
  It returns the updated statics and the GL state the generator starts from.
\<close>

definition frame_setup :: "app \<Rightarrow> frame_input \<Rightarrow> ui_state \<times> gl_state \<Rightarrow> ui_state \<times> gl_state" where
  "frame_setup a inp s =
     (let (ui, st) = s; shader = app_shader a;
          colorLoc = glGetUniformLocation st shader ''fractalColor'';
          st1 = (case ui_color ui of Vec4 r g b w \<Rightarrow> glUniform4f colorLoc r g b w st);
          ui1 = ui_widgets inp ui;
          model = frame_model ui1;
          (w, h) = in_fb_size inp;
          st2 = glViewport 0 0 w h st1;
          st3 = glClearColor 0.2 0.3 0.3 1 st2;
          st4 = glClear st3;
          st5 = glActiveTexture 0 st4;
          st6 = glBindTexture (app_texture a) st5;
          st7 = shader_use shader st6;
          st8 = glUniform1i (glGetUniformLocation st7 shader ''texture1'') 0 st7;
          modelLoc = glGetUniformLocation st8 shader ''model'';
          viewLoc = glGetUniformLocation st8 shader ''view'';
          st9 = glUniformMatrix4fv modelLoc model st8;
          st10 = glUniformMatrix4fv viewLoc frame_view st9;
          st11 = shader_setMat4 shader ''projection'' frame_projection st10;
          st12 = glBindVertexArray (app_vao a) st11
      in (ui1, st12))"

text \<open>Lines 207--279: one iteration, the setup then the generator call of line 276.\<close>

definition render_frame :: "app \<Rightarrow> frame_input \<Rightarrow> ui_state \<times> gl_state \<Rightarrow> ui_state \<times> gl_state" where
  "render_frame a inp s =
     (let (ui1, st12) = frame_setup a inp s
      in (ui1, generateSierpinskiTriangle (app_shader a) (frame_model ui1) (ui_recursion ui1) 0 st12))"

text \<open>The loop: one frame per input, until the window closes.\<close>

fun run_frames :: "app \<Rightarrow> frame_input list \<Rightarrow> ui_state \<times> gl_state \<Rightarrow> ui_state \<times> gl_state" where
  "run_frames a [] s = s"
| "run_frames a (inp # inps) s = run_frames a inps (render_frame a inp s)"

text \<open>
  The ranges the sliders declare, and the inputs that only drag the sliders (no value
  typed into a slider's text field).
\<close>

definition ui_ok :: "ui_state \<Rightarrow> bool" where
  "ui_ok ui \<longleftrightarrow>
     0 \<le>s ui_recursion ui \<and> ui_recursion ui \<le>s 10 \<and>
     0 \<le>s ui_xAxis ui \<and> ui_xAxis ui \<le>s 360 \<and> 0 \<le>s ui_yAxis ui \<and> ui_yAxis ui \<le>s 360"

text \<open>
  A well-formed draw of a frame: a triangle draw of the shader program, either a leaf
  (12 vertices from 0) or the outer triangle (6 vertices from 12).
\<close>

definition draw_ok :: "nat \<Rightarrow> draw \<Rightarrow> bool" where
  "draw_ok p d \<longleftrightarrow> draw_mode d = GL_TRIANGLES \<and> draw_program d = p \<and>
     ((draw_first d, draw_count d) = (0, 12) \<or> (draw_first d, draw_count d) = (12, 6))"

definition slider_dragged :: "slider_edit option \<Rightarrow> bool" where
  "slider_dragged e \<longleftrightarrow> (case e of Some (SliderTyped _) \<Rightarrow> False | _ \<Rightarrow> True)"

definition input_dragged :: "frame_input \<Rightarrow> bool" where
  "input_dragged inp \<longleftrightarrow>
     slider_dragged (in_xAxis inp) \<and> slider_dragged (in_yAxis inp) \<and> slider_dragged (in_recursion inp)"

declare clamp_cint_def [cint_simps]

section \<open>Lemmas\<close>

lemma SliderInt_range:
  assumes "lo' \<le>s lo" "lo \<le>s hi" "lo' \<le>s v" "v \<le>s hi" "slider_dragged i"
  shows "lo' \<le>s SliderInt lo hi i v \<and> SliderInt lo hi i v \<le>s hi"
  using assms by (auto simp: SliderInt_def slider_dragged_def cint_simps split: option.splits slider_edit.splits)

lemma SliderInt_typed: "SliderInt lo hi (Some (SliderTyped x)) v = x"
  by (simp add: SliderInt_def)

lemma ui_widgets_ok:
  assumes "ui_ok ui" "input_dragged inp"
  shows "ui_ok (ui_widgets inp ui)"
proof -
  have c: "(0::cint) \<le>s 1" "(1::cint) \<le>s 360" "(0::cint) \<le>s 0" "(0::cint) \<le>s 10"
    by (simp_all add: cint_simps)
  show ?thesis
    using assms SliderInt_range [OF c(1,2), of "ui_xAxis ui" "in_xAxis inp"]
      SliderInt_range [OF c(1,2), of "ui_yAxis ui" "in_yAxis inp"]
      SliderInt_range [OF c(3,4), of "ui_recursion ui" "in_recursion inp"]
    by (simp add: ui_ok_def ui_widgets_def input_dragged_def)
qed


lemma render_frame_ui: "fst (render_frame a inp (ui, st)) = ui_widgets inp ui"
  unfolding render_frame_def frame_setup_def by (simp only: Let_def prod.case fst_conv split_beta)

lemmas frame_setup_unfold = frame_setup_def Let_def shader_use_def shader_setMat4_def
  glUniformMatrix4fv_def glUniform4f_def glUniform1i_def glGetUniformLocation_def
  glClearColor_def glClear_def glActiveTexture_def glBindTexture_def glBindVertexArray_def
  glUseProgram_def

lemma frame_setup_gl:
  "gl_current_program (snd (frame_setup a inp (ui, st))) = app_shader a \<and>
   gl_uniform_locs (snd (frame_setup a inp (ui, st))) = gl_uniform_locs st \<and>
   gl_draws (snd (frame_setup a inp (ui, st))) = []"
  by (cases "ui_color ui"; cases "in_fb_size inp") (simp add: frame_setup_unfold)

lemma run_frames_ui_ok:
  "ui_ok (fst s) \<Longrightarrow> list_all input_dragged inps \<Longrightarrow> ui_ok (fst (run_frames a inps s))"
proof (induction inps arbitrary: s)
  case Nil
  then show ?case by simp
next
  case (Cons inp inps)
  obtain ui st where s: "s = (ui, st)" by (cases s)
  with Cons.prems have "ui_ok (fst (render_frame a inp s))"
    by (simp add: render_frame_ui ui_widgets_ok)
  then show ?case using Cons.prems(2) by (simp add: Cons.IH)
qed

lemma ui_init_ok: "ui_ok ui_init"
  by (simp add: ui_ok_def ui_init_def cint_simps)

lemma frame_setup_ui: "fst (frame_setup a inp (ui, st)) = ui_widgets inp ui"
  unfolding frame_setup_def by (simp only: Let_def prod.case fst_conv split_beta)

lemma render_frame_eq:
  "render_frame a inp (ui, st) =
     (ui_widgets inp ui,
      generateSierpinskiTriangle (app_shader a) (frame_model (ui_widgets inp ui))
        (ui_recursion (ui_widgets inp ui)) 0 (snd (frame_setup a inp (ui, st))))"
  using frame_setup_ui [of a inp ui st]
  by (simp add: render_frame_def split_beta)

lemma run_frames_snoc:
  "run_frames a (inps @ [inp]) s = render_frame a inp (run_frames a inps s)"
  by (induction inps arbitrary: s) simp_all

lemma frame_setup_color:
  assumes "gl_current_program st = p" "p \<noteq> 0" "gl_uniform_locs st p ''fractalColor'' = cl"
    "cl \<noteq> -1"
    "cl \<notin> gl_uniform_locs st p ` {''texture1'', ''model'', ''view'', ''projection''}"
    "app_shader a = p"
  shows "gl_uniforms (snd (frame_setup a inp (ui, st))) p cl = Some (UVec4 (ui_color ui))"
  using assms
  by (cases "ui_color ui"; cases "in_fb_size inp")
     (simp add: frame_setup_unfold gl_uniform_set_other gl_uniform_set_same)

lemma generate_keeps_uniform:
  assumes "gl_current_program st = p" "p \<noteq> 0" "gl_uniforms st p cl = Some X"
    "cl \<noteq> gl_uniform_locs st p ''model''"
  shows "map (\<lambda>d. draw_uniforms d cl) (gl_draws (generateSierpinskiTriangle p m mx 0 st)) =
      map (\<lambda>d. draw_uniforms d cl) (gl_draws st) @ map (\<lambda>_. Some X) (sierpinski_spec m mx 0)"
proof -
  let ?L = "gl_uniform_locs st"
  let ?P = "\<lambda>s. gl_current_program s = p \<and> gl_uniform_locs s = ?L \<and> gl_uniforms s p cl = Some X"
  have step: "?P (draw_with_model p m' f c s) \<and>
      map (\<lambda>d. draw_uniforms d cl) (gl_draws (draw_with_model p m' f c s)) =
      map (\<lambda>d. draw_uniforms d cl) (gl_draws s) @ [Some X]"
    if "?P s" "0 \<le>s c" for m' f c s
    using that assms(4)
    by (simp add: draw_with_model_def glUniformMatrix4fv_def glGetUniformLocation_def
        gl_uniform_set_other glDrawArrays_ok(1) Let_def)
  show ?thesis
    using generate_log_induct [where P = ?P and F = "\<lambda>_. Some X", OF step] assms root_cint
    by blast
qed

text \<open>
  A uniform other than \<open>model\<close> that holds \<open>X\<close> when the generator is called is seen
  as \<open>X\<close> by every draw of the frame; the view and projection matrices are uploaded
  after the shader is bound.
\<close>

lemma frame_keeps_uniform:
  assumes "app_shader a = p" "p \<noteq> 0"
    "gl_uniforms (snd (frame_setup a inp (ui, st))) p cl = Some X"
    "cl \<noteq> gl_uniform_locs st p ''model''"
  shows "map (\<lambda>d. draw_uniforms d cl) (gl_draws (snd (render_frame a inp (ui, st)))) =
    replicate (length (gl_draws (snd (render_frame a inp (ui, st))))) (Some X)"
proof -
  let ?s = "snd (frame_setup a inp (ui, st))"
  have g: "gl_current_program ?s = p" "gl_uniform_locs ?s = gl_uniform_locs st" "gl_draws ?s = []"
    using frame_setup_gl [of a inp ui st] assms(1) by simp_all
  have "map (\<lambda>d. draw_uniforms d cl) (gl_draws (snd (render_frame a inp (ui, st)))) =
      map (\<lambda>_. Some X) (sierpinski_spec (frame_model (ui_widgets inp ui)) (ui_recursion (ui_widgets inp ui)) 0)"
    using generate_keeps_uniform [OF g(1) assms(2,3)] assms(1,4) g(2,3)
    by (simp add: render_frame_eq)
  then show ?thesis
    by (metis length_map map_replicate_const)
qed

lemma frame_setup_view_projection:
  assumes "app_shader a = p" "p \<noteq> 0" "gl_uniform_locs st p ''view'' = vl"
    "gl_uniform_locs st p ''projection'' = pl" "vl \<noteq> -1" "pl \<noteq> -1" "vl \<noteq> pl"
  shows "gl_uniforms (snd (frame_setup a inp (ui, st))) p vl = Some (UMat4 frame_view) \<and>
    gl_uniforms (snd (frame_setup a inp (ui, st))) p pl = Some (UMat4 frame_projection)"
  using assms
  by (cases "ui_color ui"; cases "in_fb_size inp")
     (simp add: frame_setup_unfold gl_uniform_set_other gl_uniform_set_same)

text \<open>
  With the shader bound, a generator call keeps it bound and records no GL error: its
  uploads go to a bound program and its draw counts are not negative.
\<close>

lemma generate_keeps_program_error:
  assumes "gl_current_program st = p" "p \<noteq> 0" "0 \<le>s cur"
  shows "gl_current_program (generateSierpinskiTriangle p m mx cur st) = p \<and>
    gl_error (generateSierpinskiTriangle p m mx cur st) = gl_error st"
proof -
  let ?P = "\<lambda>s. gl_current_program s = p \<and> gl_error s = gl_error st"
  have step: "?P (draw_with_model p m' f c s) \<and>
      map (\<lambda>_. ()) (gl_draws (draw_with_model p m' f c s)) = map (\<lambda>_. ()) (gl_draws s) @ [()]"
    if "?P s" "0 \<le>s c" for m' f c s
    using that assms(2) by (simp add: draw_with_model_def gl_simps Let_def cint_simps)
  have "?P st" using assms(1) by simp
  from generate_log_induct [where P = ?P and V = "\<lambda>s. map (\<lambda>_. ()) (gl_draws s)",
      OF step this assms(3)]
  show ?thesis by simp
qed

text \<open>Each draw of a generator call is a triangle draw of the bound program.\<close>

lemma generate_draw_fields:
  assumes "gl_current_program st = p" "0 \<le>s cur"
  shows "map (\<lambda>d. (draw_mode d, draw_program d, draw_first d, draw_count d))
      (gl_draws (generateSierpinskiTriangle p m mx cur st)) =
    map (\<lambda>d. (draw_mode d, draw_program d, draw_first d, draw_count d)) (gl_draws st) @
    map (\<lambda>(f, c, _). (GL_TRIANGLES, p, f, c)) (sierpinski_spec m mx cur)"
proof -
  let ?V = "\<lambda>s. map (\<lambda>d. (draw_mode d, draw_program d, draw_first d, draw_count d)) (gl_draws s)"
  have step: "gl_current_program (draw_with_model p m' f c s) = p \<and>
      ?V (draw_with_model p m' f c s) = ?V s @ [(\<lambda>(f, c, _). (GL_TRIANGLES, p, f, c)) (f, c, m')]"
    if "gl_current_program s = p" "0 \<le>s c" for m' f c s
    using that by (simp add: draw_with_model_def gl_simps Let_def cint_simps)
  from generate_log_induct [where P = "\<lambda>s. gl_current_program s = p" and V = ?V, OF step assms]
  show ?thesis by simp
qed

text \<open>
  A frame entered with the shader bound and given a framebuffer of non-negative size
  records no GL error and leaves the shader bound.
\<close>

lemma frame_setup_error:
  assumes "gl_current_program st = app_shader a" "app_shader a \<noteq> 0"
    "0 \<le>s fst (in_fb_size inp)" "0 \<le>s snd (in_fb_size inp)"
  shows "gl_error (snd (frame_setup a inp (ui, st))) = gl_error st"
  using assms
  by (cases "ui_color ui"; cases "in_fb_size inp") (simp add: frame_setup_unfold glViewport_error)

lemma render_frame_error:
  assumes "gl_current_program st = app_shader a" "app_shader a \<noteq> 0"
    "0 \<le>s fst (in_fb_size inp)" "0 \<le>s snd (in_fb_size inp)"
  shows "gl_current_program (snd (render_frame a inp (ui, st))) = app_shader a \<and>
    gl_error (snd (render_frame a inp (ui, st))) = gl_error st"
  using generate_keeps_program_error [OF _ assms(2) root_cint] frame_setup_gl [of a inp ui st]
    frame_setup_error [OF assms]
  by (simp add: render_frame_eq)

text \<open>
  A frame binds the program's vertex array and texture again and changes no buffer,
  vertex array or texture object.
\<close>

lemma generate_keeps_objects:
  assumes "0 \<le>s cur"
  shows "gl_objects (generateSierpinskiTriangle p m mx cur st) = gl_objects st"
proof -
  let ?P = "\<lambda>s. gl_objects s = gl_objects st"
  have step: "?P (draw_with_model p m' f c s) \<and>
      map (\<lambda>_. ()) (gl_draws (draw_with_model p m' f c s)) = map (\<lambda>_. ()) (gl_draws s) @ [()]"
    if "?P s" "0 \<le>s c" for m' f c s
    using that by (simp add: draw_with_model_def glUniformMatrix4fv_def glDrawArrays_ok(1)
        gl_objects_def)
  from generate_log_induct [where P = ?P and V = "\<lambda>s. map (\<lambda>_. ()) (gl_draws s)",
      OF step _ assms]
  show ?thesis by simp
qed

lemma render_frame_objects:
  "gl_objects (snd (render_frame a inp (ui, st))) =
     (app_vao a, app_texture a, gl_buffers st, gl_vaos st, gl_textures st)"
  using generate_keeps_objects [OF root_cint]
  by (cases "ui_color ui"; cases "in_fb_size inp")
     (simp add: render_frame_eq frame_setup_unfold gl_objects_def)

text \<open>
  The model matrix of a frame in closed form: the identity rotated by the \<open>xAxis\<close>
  angle about \<open>y\<close>, then by the \<open>yAxis\<close> angle about \<open>x\<close>.
\<close>

lemma generate_keeps_viewport:
  assumes "0 \<le>s cur"
  shows "gl_viewport (generateSierpinskiTriangle p m mx cur st) = gl_viewport st"
proof -
  let ?P = "\<lambda>s. gl_viewport s = gl_viewport st"
  have step: "?P (draw_with_model p m' f c s) \<and>
      map (\<lambda>_. ()) (gl_draws (draw_with_model p m' f c s)) = map (\<lambda>_. ()) (gl_draws s) @ [()]"
    if "?P s" "0 \<le>s c" for m' f c s
    using that by (simp add: draw_with_model_def glUniformMatrix4fv_def glDrawArrays_ok(1))
  from generate_log_induct [where P = ?P and V = "\<lambda>s. map (\<lambda>_. ()) (gl_draws s)",
      OF step _ assms]
  show ?thesis by simp
qed

text \<open>The viewport a frame draws with is the framebuffer size it read (lines 244--246).\<close>

lemma render_frame_viewport:
  assumes "in_fb_size inp = (w, h)" "0 \<le>s w" "0 \<le>s h"
  shows "gl_viewport (snd (render_frame a inp (ui, st))) = (0, 0, w, h)"
proof -
  have "gl_viewport (snd (frame_setup a inp (ui, st))) = (0, 0, w, h)"
    using assms by (cases "ui_color ui") (simp add: frame_setup_unfold glViewport_def cint_simps not_less)
  then show ?thesis
    by (simp add: render_frame_eq generate_keeps_viewport root_cint)
qed

lemma frame_projection_eq:
  "frame_projection =
     Mat4 (Vec4 (3 / 4 * (1 / tan (pi / 8))) 0 0 0) (Vec4 0 (1 / tan (pi / 8)) 0 0)
          (Vec4 0 0 (- 1001 / 999) (- 1)) (Vec4 0 0 (- 200 / 999) 0)"
  unfolding frame_projection_def glm_perspective_def glm_radians_def Let_def
  by simp

lemma tan_pi_8_pos: "0 < tan (pi / 8)"
  by (rule tan_gt_zero) (simp_all add: pi_gt_zero)

lemma frame_model_eq:
  "frame_model ui =
     (let a = glm_radians (real_of_int (sint (ui_xAxis ui)));
          b = glm_radians (real_of_int (sint (ui_yAxis ui)))
      in Mat4 (Vec4 (cos a) 0 (- sin a) 0)
              (Vec4 (sin b * sin a) (cos b) (sin b * cos a) 0)
              (Vec4 (cos b * sin a) (- sin b) (cos b * cos a) 0) (Vec4 0 0 0 1))"
  by (simp add: frame_model_def rotate_identity_y rotate_x Let_def)

lemma frame_model_orthonormal: "orthonormal (frame_model ui)"
  by (simp only: frame_model_eq Let_def rotation_orthonormal)

lemma frame_model_translation: "translation_col (frame_model ui) = Vec4 0 0 0 1"
  by (simp add: frame_model_eq Let_def)

text \<open>What a frame shows through the \<open>model\<close> location: the generator's specification.\<close>

lemma render_frame_view:
  assumes "app_shader a = p" "p \<noteq> 0" "gl_uniform_locs st p ''model'' = l" "l \<noteq> -1"
  shows "map (draw_view l) (gl_draws (snd (render_frame a inp (ui, st)))) =
    map spec_view (sierpinski_spec (frame_model (ui_widgets inp ui)) (ui_recursion (ui_widgets inp ui)) 0)"
proof -
  let ?s = "snd (frame_setup a inp (ui, st))"
  have "gl_frame p (gl_uniform_locs st) (gl_error ?s) ?s"
    using frame_setup_gl [of a inp ui st] assms(1) by (simp add: gl_frame_def)
  from generate_view_log [OF this assms(2) assms(3) assms(4) root_cint] show ?thesis
    using frame_setup_gl [of a inp ui st] assms(1) by (simp add: render_frame_eq)
qed

text \<open>
  The statics depend on the inputs only, never on the GL state, and no frame changes the
  program table.
\<close>

lemma run_frames_ui_fold: "fst (run_frames a inps s) = fold ui_widgets inps (fst s)"
proof (induction inps arbitrary: s)
  case Nil
  then show ?case by simp
next
  case (Cons inp inps)
  obtain ui st where "s = (ui, st)" by (cases s)
  with Cons.IH show ?case by (simp add: render_frame_ui)
qed

lemma generate_keeps_locs:
  assumes "0 \<le>s cur"
  shows "gl_uniform_locs (generateSierpinskiTriangle p m mx cur st) = gl_uniform_locs st"
proof -
  let ?P = "\<lambda>s. gl_uniform_locs s = gl_uniform_locs st"
  have step: "?P (draw_with_model p m' f c s) \<and>
      map (\<lambda>_. ()) (gl_draws (draw_with_model p m' f c s)) = map (\<lambda>_. ()) (gl_draws s) @ [()]"
    if "?P s" "0 \<le>s c" for m' f c s
    using that by (simp add: draw_with_model_def gl_simps Let_def cint_simps)
  from generate_log_induct [where P = ?P and V = "\<lambda>s. map (\<lambda>_. ()) (gl_draws s)",
      OF step _ assms]
  show ?thesis by simp
qed

lemma render_frame_locs: "gl_uniform_locs (snd (render_frame a inp (ui, st))) = gl_uniform_locs st"
  using frame_setup_gl [of a inp ui st] generate_keeps_locs [OF root_cint]
  by (simp add: render_frame_eq)

lemma run_frames_locs: "gl_uniform_locs (snd (run_frames a inps s)) = gl_uniform_locs (snd s)"
proof (induction inps arbitrary: s)
  case Nil
  then show ?case by simp
next
  case (Cons inp inps)
  obtain ui st where s: "s = (ui, st)" by (cases s)
  with Cons.IH show ?case by (simp add: render_frame_locs)
qed

text \<open>
  C9. Dragging keeps the statics in range: after any number of frames from the initial
  statics in which the user only drags the sliders, the recursion depth is in
  \<open>0..10\<close> and both angles in \<open>0..360\<close> (they start at 0, below the sliders' minimum
  1, and a dragged slider lands in \<open>1..360\<close>). A typed value escapes the range (C11).
\<close>

theorem run_frames_ui_in_range:
  assumes "list_all input_dragged inps"
  shows "ui_ok (fst (run_frames a inps (ui_init, st)))"
  using run_frames_ui_ok [OF _ assms, of "(ui_init, st)" a] ui_init_ok by simp

theorem run_frames_ui_in_range_witness:
  "ui_ok (fst (run_frames \<lparr>app_shader = 1, app_texture = 2, app_vao = 3\<rparr>
     [\<lparr>in_xAxis = Some (SliderDrag 400), in_yAxis = None, in_recursion = Some (SliderDrag 12),
       in_color = None, in_fb_size = (1280, 1280)\<rparr>] (ui_init, gl_fresh (\<lambda>_ _. 0))))"
  using run_frames_ui_in_range [of "[\<lparr>in_xAxis = Some (SliderDrag 400), in_yAxis = None,
      in_recursion = Some (SliderDrag 12), in_color = None, in_fb_size = (1280, 1280)\<rparr>]"
      "\<lparr>app_shader = 1, app_texture = 2, app_vao = 3\<rparr>" "gl_fresh (\<lambda>_ _. 0)"]
  by (simp add: input_dragged_def slider_dragged_def)

text \<open>
  C10. With the shader's \<open>model\<close> uniform active, what a frame shows is exactly the
  generator's specification for the frame's rotation matrix and the depth the slider
  holds after this frame's input, each draw seeing its model matrix: the clear of line
  248 removes everything drawn before.
\<close>

theorem frame_draws_spec:
  assumes "app_shader a = p" "p \<noteq> 0" "gl_uniform_locs st p ''model'' = l" "l \<noteq> -1"
  shows "map (draw_view l) (gl_draws (snd (render_frame a inp (ui, st)))) =
    map spec_view (sierpinski_spec (frame_model (ui_widgets inp ui)) (ui_recursion (ui_widgets inp ui)) 0)"
  using render_frame_view [OF assms] .

theorem frame_draws_spec_witness:
  "map (draw_view 0) (gl_draws (snd (render_frame \<lparr>app_shader = 1, app_texture = 2, app_vao = 3\<rparr>
      \<lparr>in_xAxis = Some (SliderDrag 30), in_yAxis = None, in_recursion = Some (SliderDrag 1), in_color = None,
       in_fb_size = (1280, 1280)\<rparr> (ui_init, gl_fresh (\<lambda>_ _. 0))))) =
   map spec_view (sierpinski_spec
     (frame_model (ui_widgets \<lparr>in_xAxis = Some (SliderDrag 30), in_yAxis = None, in_recursion = Some (SliderDrag 1),
        in_color = None, in_fb_size = (1280, 1280)\<rparr> ui_init))
     (ui_recursion (ui_widgets \<lparr>in_xAxis = Some (SliderDrag 30), in_yAxis = None, in_recursion = Some (SliderDrag 1),
        in_color = None, in_fb_size = (1280, 1280)\<rparr> ui_init)) 0)"
  using frame_draws_spec [of "\<lparr>app_shader = 1, app_texture = 2, app_vao = 3\<rparr>" 1
      "gl_fresh (\<lambda>_ _. 0)" 0]
  by (simp add: gl_fresh_def)

text \<open>
  C11. The slider does not bound the depth: a depth typed into the RECURSION slider's
  text field is stored unclamped (line 224), so a typed depth above 10 makes the frame
  issue more than the \<open>1 + 4^10\<close> draws the slider's range suggests, from any statics.
\<close>

theorem frame_typed_depth_unbounded:
  assumes "in_recursion inp = Some (SliderTyped x)" "10 <s x"
  shows "1 + 4 ^ 10 < length (gl_draws (snd (render_frame a inp (ui, st))))"
proof -
  have r: "ui_recursion (ui_widgets inp ui) = x"
    using assms(1) by (simp add: ui_widgets_def SliderInt_typed)
  have pos: "0 <s x" "10 < nat (sint x)"
    using assms(2) by (simp_all add: cint_simps)
  then have "(4::nat) ^ 10 < 4 ^ nat (sint x)" by (intro power_strict_increasing) simp_all
  then show ?thesis
    using frame_setup_gl [of a inp ui st] pos(1)
    by (simp add: render_frame_eq generate_draw_count root_cint length_sierpinski_spec r)
qed

theorem frame_typed_depth_unbounded_witness:
  "1 + 4 ^ 10 < length (gl_draws (snd (render_frame \<lparr>app_shader = 1, app_texture = 2, app_vao = 3\<rparr>
      \<lparr>in_xAxis = None, in_yAxis = None, in_recursion = Some (SliderTyped 12), in_color = None,
       in_fb_size = (1280, 1280)\<rparr> (ui_init, gl_fresh (\<lambda>_ _. 0)))))"
  using frame_typed_depth_unbounded [of "\<lparr>in_xAxis = None, in_yAxis = None,
      in_recursion = Some (SliderTyped 12), in_color = None, in_fb_size = (1280, 1280)\<rparr>" 12]
  by (simp add: cint_simps)

text \<open>
  C12. The colour uniform is uploaded (line 221) before the colour editor runs (line 226):
  with the program bound and the \<open>fractalColor\<close> location distinct from the others,
  every draw of a frame sees the colour of the statics before this frame's edit, so an
  edit shows one frame late.
\<close>

theorem frame_color_lags:
  assumes "gl_current_program st = p" "p \<noteq> 0" "app_shader a = p"
    "gl_uniform_locs st p ''fractalColor'' = cl" "cl \<noteq> -1"
    "cl \<notin> gl_uniform_locs st p ` {''texture1'', ''model'', ''view'', ''projection''}"
  shows "map (\<lambda>d. draw_uniforms d cl) (gl_draws (snd (render_frame a inp (ui, st)))) =
           replicate (length (gl_draws (snd (render_frame a inp (ui, st))))) (Some (UVec4 (ui_color ui)))"
  using frame_keeps_uniform [OF assms(3,2) frame_setup_color [OF assms(1,2,4,5,6,3)]] assms(6)
  by simp

theorem frame_color_lags_witness:
  "map (\<lambda>d. draw_uniforms d 1) (gl_draws (snd (render_frame \<lparr>app_shader = 1, app_texture = 2, app_vao = 3\<rparr>
      \<lparr>in_xAxis = None, in_yAxis = None, in_recursion = None, in_color = Some (0, 0, 1),
       in_fb_size = (1280, 1280)\<rparr>
      (ui_init, (gl_fresh (\<lambda>_ n. if n = ''fractalColor'' then 1 else 0))\<lparr>gl_current_program := 1\<rparr>)))) =
   replicate (length (gl_draws (snd (render_frame \<lparr>app_shader = 1, app_texture = 2, app_vao = 3\<rparr>
      \<lparr>in_xAxis = None, in_yAxis = None, in_recursion = None, in_color = Some (0, 0, 1),
       in_fb_size = (1280, 1280)\<rparr>
      (ui_init, (gl_fresh (\<lambda>_ n. if n = ''fractalColor'' then 1 else 0))\<lparr>gl_current_program := 1\<rparr>)))))
     (Some (UVec4 (ui_color ui_init)))"
  using frame_color_lags [of "(gl_fresh (\<lambda>_ n. if n = ''fractalColor'' then 1 else 0))\<lparr>gl_current_program := 1\<rparr>"
      1 "\<lparr>app_shader = 1, app_texture = 2, app_vao = 3\<rparr>" 1]
  by (simp add: gl_fresh_def)

text \<open>
  C13. The projection does not match the viewport: each frame sets the viewport to the
  framebuffer size \<open>w \<times> h\<close> it reads (lines 244--246), while the projection of line
  237 assumes the aspect ratio 800/600. A point's horizontal and vertical image scales
  agree exactly when \<open>3 w = 4 h\<close>; the window \<open>main\<close> asks for is \<open>SCR_WIDTH\<close> by
  \<open>SCR_HEIGHT\<close>, 1280 by 1280, where the image is squeezed horizontally.
\<close>

theorem frame_aspect_mismatch:
  assumes "in_fb_size inp = (w, h)" "0 <s w" "0 <s h"
  shows "gl_viewport (snd (render_frame a inp (ui, st))) = (0, 0, w, h) \<and>
    (mat_sx frame_projection * real_of_int (sint w) = mat_sy frame_projection * real_of_int (sint h) \<longleftrightarrow>
     3 * sint w = 4 * sint h)"
proof
  show "gl_viewport (snd (render_frame a inp (ui, st))) = (0, 0, w, h)"
    using assms by (intro render_frame_viewport) (simp_all add: cint_simps)
  have "3 / 4 * (1 / tan (pi / 8)) * real_of_int (sint w) = 1 / tan (pi / 8) * real_of_int (sint h) \<longleftrightarrow>
      3 * real_of_int (sint w) = 4 * real_of_int (sint h)"
    using tan_pi_8_pos by (auto simp: field_simps)
  also have "\<dots> \<longleftrightarrow> 3 * sint w = 4 * sint h" by linarith
  finally show "mat_sx frame_projection * real_of_int (sint w) = mat_sy frame_projection * real_of_int (sint h) \<longleftrightarrow>
     3 * sint w = 4 * sint h"
    by (simp add: frame_projection_eq)
qed

theorem frame_aspect_mismatch_witness:
  "gl_viewport (snd (render_frame \<lparr>app_shader = 1, app_texture = 2, app_vao = 3\<rparr>
      \<lparr>in_xAxis = None, in_yAxis = None, in_recursion = None, in_color = None,
       in_fb_size = (of_nat SCR_WIDTH, of_nat SCR_HEIGHT)\<rparr> (ui_init, gl_fresh (\<lambda>_ _. 0)))) =
     (0, 0, 1280, 1280) \<and>
   mat_sx frame_projection * 1280 \<noteq> mat_sy frame_projection * 1280"
proof -
  have scr: "(of_nat SCR_WIDTH :: cint) = 1280" "(of_nat SCR_HEIGHT :: cint) = 1280"
    by (simp_all add: SCR_WIDTH_def SCR_HEIGHT_def)
  show ?thesis
    using frame_aspect_mismatch [of "\<lparr>in_xAxis = None, in_yAxis = None, in_recursion = None, in_color = None,
       in_fb_size = (of_nat SCR_WIDTH, of_nat SCR_HEIGHT)\<rparr>" 1280 1280
      "\<lparr>app_shader = 1, app_texture = 2, app_vao = 3\<rparr>" ui_init "gl_fresh (\<lambda>_ _. 0)"]
    unfolding scr by (simp add: cint_simps)
qed

text \<open>
  C19. The model matrix a frame builds from the two angle sliders (lines 228--234) is a
  rotation: it keeps the distance between any two points and maps the origin to the
  origin (its translation column is \<open>(0, 0, 0, 1)\<close>), whatever the angles.
\<close>

theorem frame_model_rotation:
  "v4_dist2 (mat_point (frame_model ui) p) (mat_point (frame_model ui) q) = v3_dist2 p q \<and>
   translation_col (frame_model ui) = Vec4 0 0 0 1"
  using orthonormal_dist [OF frame_model_orthonormal] frame_model_translation by blast

text \<open>
  C20. Every leaf the generator draws in a frame is a congruent copy of the mesh scaled by
  \<open>2^-n\<close> at depth \<open>n\<close>: the model matrix of the leaf at the end of a path of length
  \<open>n\<close> from the frame's rotation multiplies squared distances by \<open>(1/4)^n\<close>.
\<close>

theorem frame_leaf_congruent:
  "v4_dist2 (mat_point (path_model (frame_model ui) ps) p) (mat_point (path_model (frame_model ui) ps) q) =
     (1 / 4) ^ length ps * v3_dist2 p q"
proof -
  have "((1 / 2) ^ length ps)\<^sup>2 = ((1 / 4) ^ length ps :: real)"
    by (simp add: power_mult_distrib [symmetric] power2_eq_square power_divide)
  then show ?thesis
    by (simp add: path_model_sim mat_point_sim orthonormal_dist [OF frame_model_orthonormal]
        v3_dist2_sim)
qed

text \<open>
  C25. Every draw a frame shows is well formed, whatever the GL state the frame starts
  in and whatever the input: a \<open>GL_TRIANGLES\<close> draw of the frame's shader program that
  is either a leaf draw (first 0, 12 vertices) or the outer triangle (first 12,
  6 vertices).
\<close>

theorem frame_draws_well_formed:
  "list_all (draw_ok (app_shader a)) (gl_draws (snd (render_frame a inp (ui, st))))"
proof -
  let ?fields = "\<lambda>d. (draw_mode d, draw_program d, draw_first d, draw_count d)"
  let ?ui = "ui_widgets inp ui"
  have eq: "map ?fields (gl_draws (snd (render_frame a inp (ui, st)))) =
      map (\<lambda>(f, c, _). (GL_TRIANGLES, app_shader a, f, c))
        (sierpinski_spec (frame_model ?ui) (ui_recursion ?ui) 0)"
    using generate_draw_fields [of "snd (frame_setup a inp (ui, st))" "app_shader a" 0]
      frame_setup_gl [of a inp ui st] root_cint
    by (simp add: render_frame_eq)
  show ?thesis
  proof (unfold list_all_iff, intro ballI)
    fix d assume "d \<in> set (gl_draws (snd (render_frame a inp (ui, st))))"
    then have "?fields d \<in> set (map ?fields (gl_draws (snd (render_frame a inp (ui, st)))))"
      by simp
    then obtain f c m' where "(f, c, m') \<in> set (sierpinski_spec (frame_model ?ui) (ui_recursion ?ui) 0)"
        "?fields d = (GL_TRIANGLES, app_shader a, f, c)"
      unfolding eq by auto
    with sierpinski_spec_shapes show "draw_ok (app_shader a) d"
      by (auto simp: draw_ok_def)
  qed
qed

text \<open>
  C26. With the \<open>view\<close> and \<open>projection\<close> uniforms active at locations distinct from
  each other and from \<open>model\<close>, every draw of a frame sees the view matrix of line 236
  and the projection of line 237.
\<close>

theorem frame_view_projection:
  assumes "app_shader a = p" "p \<noteq> 0" "gl_uniform_locs st p ''view'' = vl"
    "gl_uniform_locs st p ''projection'' = pl" "vl \<noteq> -1" "pl \<noteq> -1"
    "distinct [vl, pl, gl_uniform_locs st p ''model'']"
  shows "map (\<lambda>d. draw_uniforms d vl) (gl_draws (snd (render_frame a inp (ui, st)))) =
      replicate (length (gl_draws (snd (render_frame a inp (ui, st))))) (Some (UMat4 frame_view)) \<and>
    map (\<lambda>d. draw_uniforms d pl) (gl_draws (snd (render_frame a inp (ui, st)))) =
      replicate (length (gl_draws (snd (render_frame a inp (ui, st))))) (Some (UMat4 frame_projection))"
  using frame_setup_view_projection [OF assms(1-6)] assms(7)
    frame_keeps_uniform [OF assms(1,2), of inp ui st vl] frame_keeps_uniform [OF assms(1,2), of inp ui st pl]
  by simp


theorem frame_view_projection_witness:
  "map (\<lambda>d. draw_uniforms d 1) (gl_draws (snd (render_frame \<lparr>app_shader = 1, app_texture = 2, app_vao = 3\<rparr>
      \<lparr>in_xAxis = None, in_yAxis = None, in_recursion = Some (SliderDrag 1), in_color = None,
       in_fb_size = (1280, 1280)\<rparr>
      (ui_init, gl_fresh (\<lambda>_ n. if n = ''view'' then 1 else if n = ''projection'' then 2 else 0))))) =
    replicate (length (gl_draws (snd (render_frame \<lparr>app_shader = 1, app_texture = 2, app_vao = 3\<rparr>
      \<lparr>in_xAxis = None, in_yAxis = None, in_recursion = Some (SliderDrag 1), in_color = None,
       in_fb_size = (1280, 1280)\<rparr>
      (ui_init, gl_fresh (\<lambda>_ n. if n = ''view'' then 1 else if n = ''projection'' then 2 else 0))))))
      (Some (UMat4 frame_view)) \<and>
   map (\<lambda>d. draw_uniforms d 2) (gl_draws (snd (render_frame \<lparr>app_shader = 1, app_texture = 2, app_vao = 3\<rparr>
      \<lparr>in_xAxis = None, in_yAxis = None, in_recursion = Some (SliderDrag 1), in_color = None,
       in_fb_size = (1280, 1280)\<rparr>
      (ui_init, gl_fresh (\<lambda>_ n. if n = ''view'' then 1 else if n = ''projection'' then 2 else 0))))) =
    replicate (length (gl_draws (snd (render_frame \<lparr>app_shader = 1, app_texture = 2, app_vao = 3\<rparr>
      \<lparr>in_xAxis = None, in_yAxis = None, in_recursion = Some (SliderDrag 1), in_color = None,
       in_fb_size = (1280, 1280)\<rparr>
      (ui_init, gl_fresh (\<lambda>_ n. if n = ''view'' then 1 else if n = ''projection'' then 2 else 0))))))
      (Some (UMat4 frame_projection))"
  using frame_view_projection [of "\<lparr>app_shader = 1, app_texture = 2, app_vao = 3\<rparr>" 1
      "gl_fresh (\<lambda>_ n. if n = ''view'' then 1 else if n = ''projection'' then 2 else 0)" 1 2]
  by (simp add: gl_fresh_def)

end
