(* ===== verification/Glfw.thy ===== *)
theory Glfw
  imports Prelude
begin

text \<open>
  The GLFW library as the program uses it, after the GLFW 3 reference (GLFW is outside
  the repository). Its state is the initialisation flag, the open windows, the current
  context and each window's close flag; the entry points that change it are a datatype
  of calls with one interpreter \<open>glfw_exec\<close>: every call but \<open>glfwInit\<close> and
  \<open>glfwTerminate\<close> needs the library initialised and otherwise reports
  \<open>GLFW_NOT_INITIALIZED\<close> and does nothing; \<open>glfwTerminate\<close> destroys every window.
  The query \<open>glfwWindowShouldClose\<close> and event polling, which delivers the user's close
  request by setting the window's close flag, are functions on the state.
\<close>

section \<open>State and calls\<close>

datatype glfw_err = GLFW_NOT_INITIALIZED | GLFW_PLATFORM_ERROR

record glfw_state =
  glfw_initialized :: bool
  glfw_windows :: "nat list"
  glfw_next :: nat
  glfw_current :: "nat option"
  glfw_should_close :: "nat \<Rightarrow> bool"
  glfw_error :: "glfw_err option"

datatype glfw_call =
    GlfwInit
  | GlfwCreateWindow bool
  | GlfwMakeContextCurrent nat
  | GlfwSetWindowShouldClose nat bool
  | GlfwTerminate
  | GlfwDestroyWindow nat

definition glfw_off :: glfw_state where
  "glfw_off = \<lparr>glfw_initialized = False, glfw_windows = [], glfw_next = 1, glfw_current = None,
     glfw_should_close = (\<lambda>_. False), glfw_error = None\<rparr>"

text \<open>\<open>GlfwCreateWindow ok\<close>: \<open>ok\<close> is whether the platform creates the window.\<close>

fun glfw_exec :: "glfw_call \<Rightarrow> glfw_state \<Rightarrow> glfw_state" where
  "glfw_exec GlfwInit g = g\<lparr>glfw_initialized := True\<rparr>"
| "glfw_exec GlfwTerminate g =
     (if glfw_initialized g
      then g\<lparr>glfw_initialized := False, glfw_windows := [], glfw_current := None\<rparr> else g)"
| "glfw_exec c g =
     (if \<not> glfw_initialized g then g\<lparr>glfw_error := Some GLFW_NOT_INITIALIZED\<rparr>
      else (case c of
        GlfwCreateWindow ok \<Rightarrow>
          (if ok then g\<lparr>glfw_windows := glfw_windows g @ [glfw_next g], glfw_next := Suc (glfw_next g)\<rparr>
           else g\<lparr>glfw_error := Some GLFW_PLATFORM_ERROR\<rparr>)
      | GlfwMakeContextCurrent w \<Rightarrow> g\<lparr>glfw_current := Some w\<rparr>
      | GlfwSetWindowShouldClose w b \<Rightarrow> g\<lparr>glfw_should_close := (glfw_should_close g)(w := b)\<rparr>
      | GlfwDestroyWindow w \<Rightarrow>
          g\<lparr>glfw_windows := removeAll w (glfw_windows g),
            glfw_current := (if glfw_current g = Some w then None else glfw_current g)\<rparr>
      | _ \<Rightarrow> g))"

text \<open>
  \<open>glfwWindowShouldClose(window)\<close>: the close flag; \<open>GLFW_FALSE\<close> when the library is
  not initialised.
\<close>

definition glfwWindowShouldClose :: "nat \<Rightarrow> glfw_state \<Rightarrow> bool" where
  "glfwWindowShouldClose w g \<longleftrightarrow> glfw_initialized g \<and> glfw_should_close g w"

text \<open>
  \<open>glfwPollEvents()\<close>: \<open>close\<close> is whether the user asked the window manager to close
  \<open>w\<close> since the last poll; GLFW then sets the window's close flag.
\<close>

definition glfwPollEvents :: "nat \<Rightarrow> bool \<Rightarrow> glfw_state \<Rightarrow> glfw_state" where
  "glfwPollEvents w close g = (if close then glfw_exec (GlfwSetWindowShouldClose w True) g else g)"

section \<open>Lemmas\<close>

text \<open>Making the current context current again changes nothing, nor the close flags.\<close>

lemma make_current_idem:
  "glfw_exec (GlfwMakeContextCurrent w) (glfw_exec (GlfwMakeContextCurrent w) g) =
     glfw_exec (GlfwMakeContextCurrent w) g"
  by simp

lemma make_current_should_close:
  "glfwWindowShouldClose w' (glfw_exec (GlfwMakeContextCurrent w) g) = glfwWindowShouldClose w' g"
  by (simp add: glfwWindowShouldClose_def)

lemma poll_close:
  "glfw_initialized g \<Longrightarrow> glfwWindowShouldClose w (glfwPollEvents w True g)"
  by (simp add: glfwPollEvents_def glfwWindowShouldClose_def)

lemma poll_no_close: "glfwPollEvents w False g = g"
  by (simp add: glfwPollEvents_def)

end
