(* ===== verification/Lifecycle.thy ===== *)
theory Lifecycle
  imports RenderLoop Glfw
begin

text \<open>
  The whole of \<open>main\<close> (\<open>src/src/main.cpp\<close>, lines 65--291) and the two callbacks
  \<open>processInput\<close> (293--297) and \<open>framebuffer_size_callback\<close> (299--306). GLFW is the
  model of theory \<open>Glfw\<close>. The render loop \<open>while (!glfwWindowShouldClose(window))\<close>
  (207--279) is \<open>render_loop\<close>, a \<open>partial_function (option)\<close>: it runs
  \<open>render_frame\<close> once per iteration and stops only when the close flag is set, so a
  run in which the user never closes the window is the value \<open>None\<close>.
  What the environment decides (whether window creation, the GLAD loader and the
  texture decoder succeed, the uniform locations of the linked shader, the user's input
  in frame \<open>k\<close> and whether the user asks to close the window during frame \<open>k\<close>) is an
  \<open>env\<close> record. ImGui set-up and shutdown, shader compilation, buffer and texture
  uploads only create the names \<open>app\<close> records.
\<close>

section \<open>Callbacks\<close>

text \<open>Lines 293--297; \<open>esc\<close> is whether \<open>glfwGetKey(window, GLFW_KEY_ESCAPE)\<close> is pressed.\<close>

definition processInput :: "nat \<Rightarrow> bool \<Rightarrow> glfw_state \<Rightarrow> glfw_state" where
  "processInput window esc g =
     (if esc then glfw_exec (GlfwSetWindowShouldClose window True) g else g)"

text \<open>Lines 299--306.\<close>

definition framebuffer_size_callback :: "cint \<Rightarrow> cint \<Rightarrow> gl_state \<Rightarrow> gl_state" where
  "framebuffer_size_callback width height st = glViewport 0 0 width height st"

section \<open>The render loop\<close>

text \<open>
  Lines 207--279. Each iteration tests the close flag, renders one frame with the input
  of frame \<open>k\<close> (\<open>render_frame\<close>, which includes the polls and ImGui calls),
  makes the window's context current again (line 244) and polls events (lines 211 and
  278), which deliver a close request of the user for frame \<open>k\<close>. The result is the
  number of frames run and the final GLFW, UI and GL states.
\<close>

partial_function (option) render_loop ::
  "app \<Rightarrow> nat \<Rightarrow> (nat \<Rightarrow> frame_input) \<Rightarrow> (nat \<Rightarrow> bool) \<Rightarrow> nat \<Rightarrow> glfw_state \<Rightarrow>
   ui_state \<times> gl_state \<Rightarrow> (nat \<times> glfw_state \<times> ui_state \<times> gl_state) option" where
  "render_loop a window ins closes k g s =
     (if glfwWindowShouldClose window g then Some (k, g, s)
      else render_loop a window ins closes (Suc k)
             (glfwPollEvents window (closes k) (glfw_exec (GlfwMakeContextCurrent window) g))
             (render_frame a (ins k) s))"

declare render_loop.simps [simp del]

section \<open>main\<close>

record env =
  env_window_ok :: bool
  env_glad_ok :: bool
  env_texture_ok :: bool
  env_locs :: "nat \<Rightarrow> string \<Rightarrow> cint"
  env_app :: app
  env_vbo :: nat
  env_frames :: "nat \<Rightarrow> frame_input"
  env_close :: "nat \<Rightarrow> bool"

record main_result =
  exit_code :: int
  res_glfw :: glfw_state
  res_frame :: "(ui_state \<times> gl_state) option"
  res_log :: "string list"
  res_gl :: "gl_state option"

text \<open>
  Lines 65--117: initialise GLFW, create the window (on failure: log, terminate, return
  \<open>-1\<close>), make its context current, load GL twice (lines 96 and 100; on failure of the
  second: log and return \<open>-1\<close>), set up ImGui. \<open>Inl\<close> is the early return.
\<close>

definition main_startup :: "env \<Rightarrow> main_result + (nat \<times> glfw_state)" where
  "main_startup e =
     (let g1 = glfw_exec GlfwInit glfw_off;
          window = glfw_next g1;
          g2 = glfw_exec (GlfwCreateWindow (env_window_ok e)) g1
      in if \<not> env_window_ok e then
           Inl \<lparr>exit_code = -1, res_glfw = glfw_exec GlfwTerminate g2, res_frame = None,
                res_log = [''Failed to create GLFW window''], res_gl = None\<rparr>
         else
           (let g3 = glfw_exec (GlfwMakeContextCurrent window) g2
            in if \<not> env_glad_ok e then
                 Inl \<lparr>exit_code = -1, res_glfw = g3, res_frame = None,
                      res_log = [''Failed to initialize GLAD''], res_gl = None\<rparr>
               else Inr (window, g3)))"

text \<open>
  Lines 147--164: create the vertex array object and the vertex buffer (the names
  \<open>vao\<close>, \<open>vbo\<close> the implementation returns), bind both, upload \<open>vertices[]\<close>
  and point attributes 0 and 1 at it.
\<close>

definition setup_vertex_buffers :: "nat \<Rightarrow> nat \<Rightarrow> gl_state \<Rightarrow> gl_state" where
  "setup_vertex_buffers vao vbo st =
     (let st1 = gl_exec (GlGenBuffers vbo) (gl_exec (GlGenVertexArrays vao) st);
          st2 = glBindVertexArray vao st1;
          st3 = gl_exec (GlBufferData vertices) (gl_exec (GlBindBuffer vbo) st2);
          st4 = gl_exec (GlEnableVertexAttribArray 0) (gl_exec (GlVertexAttribPointer attrib_position) st3)
      in gl_exec (GlEnableVertexAttribArray 1) (gl_exec (GlVertexAttribPointer attrib_texcoord) st4))"

text \<open>
  Lines 168--198: create and bind the texture, set wrapping and filtering, give level 0
  the decoded image and generate mipmaps when \<open>stbi_load\<close> succeeds (\<open>ok\<close>), then set
  wrapping and filtering again, the minification filter now \<open>GL_LINEAR\<close>.
\<close>

definition tex_parameters :: "tex_value \<Rightarrow> gl_state \<Rightarrow> gl_state" where
  "tex_parameters minf st =
     gl_exec (GlTexParameteri GL_TEXTURE_MAG_FILTER GL_LINEAR)
       (gl_exec (GlTexParameteri GL_TEXTURE_MIN_FILTER minf)
         (gl_exec (GlTexParameteri GL_TEXTURE_WRAP_T GL_REPEAT)
           (gl_exec (GlTexParameteri GL_TEXTURE_WRAP_S GL_REPEAT) st)))"

definition setup_texture :: "nat \<Rightarrow> bool \<Rightarrow> gl_state \<Rightarrow> gl_state" where
  "setup_texture tex ok st =
     (let st1 = tex_parameters GL_LINEAR_MIPMAP_LINEAR (glBindTexture tex (gl_exec (GlGenTextures tex) st));
          st2 = (if ok then gl_exec GlGenerateMipmap (gl_exec GlTexImage2D st1) else st1)
      in tex_parameters GL_LINEAR st2)"

text \<open>
  The names \<open>glCreateProgram\<close>, \<open>glGenVertexArrays\<close> and \<open>glGenBuffers\<close> return are
  never 0.
\<close>

definition names_ok :: "env \<Rightarrow> bool" where
  "names_ok e \<longleftrightarrow> app_shader (env_app e) \<noteq> 0 \<and> app_vao (env_app e) \<noteq> 0 \<and> env_vbo e \<noteq> 0"

text \<open>
  Lines 105 and 119--203: enable depth testing, set up the vertex data and the texture
  (a decoding failure is only logged), make the shader current and set its
  \<open>texture1\<close> sampler to unit 0.
\<close>

definition main_gl_setup :: "env \<Rightarrow> gl_state \<times> string list" where
  "main_gl_setup e =
     (let shader = app_shader (env_app e);
          st0 = gl_exec (GlEnable GL_DEPTH_TEST) (gl_fresh (env_locs e));
          st1 = setup_vertex_buffers (app_vao (env_app e)) (env_vbo e) st0;
          st2 = setup_texture (app_texture (env_app e)) (env_texture_ok e) st1;
          log = (if env_texture_ok e then [] else [''Failed to load texture'']);
          st3 = glUseProgram shader st2;
          st4 = glUniform1i (glGetUniformLocation st3 shader ''texture1'') 0 st3
      in (st4, log))"

text \<open>Lines 282--283: delete the vertex array and the vertex buffer.\<close>

definition main_gl_teardown :: "app \<Rightarrow> nat \<Rightarrow> gl_state \<Rightarrow> gl_state" where
  "main_gl_teardown a vbo st =
     (let st1 = gl_exec (GlDeleteVertexArrays (app_vao a)) st
      in gl_exec (GlDeleteBuffers vbo) st1)"

text \<open>Lines 285--291: shut ImGui down, terminate GLFW, destroy the window.\<close>

definition main_teardown :: "nat \<Rightarrow> glfw_state \<Rightarrow> glfw_state" where
  "main_teardown window g =
     (let g1 = glfw_exec GlfwTerminate g
      in glfw_exec (GlfwDestroyWindow window) g1)"

text \<open>
  Lines 65--291: start-up with its early returns, GL set-up, the render loop from the
  initial statics, teardown. \<open>None\<close>: the loop never ends.
\<close>

definition main_model :: "env \<Rightarrow> main_result option" where
  "main_model e =
     (case main_startup e of
        Inl r \<Rightarrow> Some r
      | Inr (window, g) \<Rightarrow>
          (let (st, log) = main_gl_setup e
           in map_option (\<lambda>(k, g', s). \<lparr>exit_code = 0, res_glfw = main_teardown window g',
                  res_frame = Some s, res_log = log,
                  res_gl = Some (main_gl_teardown (env_app e) (env_vbo e) (snd s))\<rparr>)
                (render_loop (env_app e) window (env_frames e) (env_close e) 0 g (ui_init, st))))"

section \<open>Lemmas on the set-up\<close>

text \<open>
  With the names the implementation returns not zero, the vertex set-up leaves vertex
  array \<open>vao\<close> bound, with attributes 0 and 1 reading buffer \<open>vbo\<close>, which holds
  \<open>vertices[]\<close>; the texture set-up leaves texture \<open>tex\<close> bound, filtered linearly
  and repeated, with an image and mipmaps exactly when decoding succeeded.
\<close>

lemma setup_vertex_buffers_eq:
  assumes "vao \<noteq> 0" "vbo \<noteq> 0"
  shows "setup_vertex_buffers vao vbo st =
    st\<lparr>gl_vertex_array := vao, gl_array_buffer := vbo,
       gl_buffers := (gl_buffers st)(vbo \<mapsto> vertices),
       gl_vaos := (gl_vaos st)(vao \<mapsto>
         [0 \<mapsto> \<lparr>va_size = 3, va_stride = 5, va_offset = 0, va_buffer = vbo, va_enabled = True\<rparr>,
          1 \<mapsto> \<lparr>va_size = 3, va_stride = 5, va_offset = 3, va_buffer = vbo, va_enabled = True\<rparr>])\<rparr>"
  using assms
  by (simp add: setup_vertex_buffers_def gl_simps Let_def attrib_position_def attrib_texcoord_def
      fun_upd_twist)

lemma setup_texture_eq:
  "setup_texture tex ok st =
    st\<lparr>gl_texture_2d := tex,
       gl_textures := (gl_textures st)(tex \<mapsto>
         \<lparr>tex_params = (\<lambda>p. if p = GL_TEXTURE_MIN_FILTER \<or> p = GL_TEXTURE_MAG_FILTER then GL_LINEAR
                          else GL_REPEAT),
          tex_image = ok, tex_mipmaps = ok\<rparr>)\<rparr>"
proof -
  have "(\<lambda>p. if p = GL_TEXTURE_MIN_FILTER \<or> p = GL_TEXTURE_MAG_FILTER then GL_LINEAR else GL_REPEAT) =
      ((((tex_params tex_default)(GL_TEXTURE_WRAP_S := GL_REPEAT))(GL_TEXTURE_WRAP_T := GL_REPEAT))
         (GL_TEXTURE_MIN_FILTER := GL_LINEAR))(GL_TEXTURE_MAG_FILTER := GL_LINEAR)"
    by (rule ext) (simp add: tex_default_def)
  then show ?thesis
    by (cases ok) (simp_all add: setup_texture_def tex_parameters_def gl_simps Let_def tex_default_def)
qed

lemma setup_keeps_locs:
  "gl_uniform_locs (setup_vertex_buffers vao vbo st) = gl_uniform_locs st"
  "gl_uniform_locs (setup_texture tex ok st) = gl_uniform_locs st"
  by (simp_all add: setup_vertex_buffers_def setup_texture_def tex_parameters_def Let_def
      glBindVertexArray_def glBindTexture_def)

lemma main_gl_setup_locs: "gl_uniform_locs (fst (main_gl_setup e)) = env_locs e"
  by (simp add: main_gl_setup_def Let_def setup_keeps_locs gl_fresh_def
      glUseProgram_def glUniform1i_def)


text \<open>
  The teardown of lines 282--283 with the vertex array still bound: both objects are
  gone and nothing is bound as vertex array; textures are not touched.
\<close>

lemma main_gl_teardown_state:
  assumes "app_vao a \<noteq> 0" "vbo \<noteq> 0" "gl_vertex_array st = app_vao a"
  shows "gl_vaos (main_gl_teardown a vbo st) (app_vao a) = None"
    "gl_buffers (main_gl_teardown a vbo st) vbo = None"
    "gl_vertex_array (main_gl_teardown a vbo st) = 0"
    "gl_textures (main_gl_teardown a vbo st) = gl_textures st"
  using assms by (simp_all add: main_gl_teardown_def Let_def gl_exec.simps split: option.split)

section \<open>Lemmas on the render loop\<close>

lemma render_loop_running:
  "\<not> glfwWindowShouldClose w g \<Longrightarrow> render_loop a w ins closes k g s =
     render_loop a w ins closes (Suc k)
       (glfwPollEvents w (closes k) (glfw_exec (GlfwMakeContextCurrent w) g)) (render_frame a (ins k) s)"
  by (simp add: render_loop.simps [of a w ins closes k g s])

lemma render_loop_closed:
  "glfwWindowShouldClose w g \<Longrightarrow> render_loop a w ins closes k g s = Some (k, g, s)"
  by (simp add: render_loop.simps [of a w ins closes k g s])

text \<open>
  Enough iterations: when \<open>k\<close> is the first frame from \<open>i\<close> on in which the user asks to
  close, the loop returns after frame \<open>k\<close>, having run the frames \<open>i..k\<close>. Induction on
  the number of frames left.
\<close>

lemma render_loop_first_close:
  assumes "glfw_initialized g" "\<not> glfw_should_close g w" "closes k" "i \<le> k"
    "\<And>j. i \<le> j \<Longrightarrow> j < k \<Longrightarrow> \<not> closes j"
  shows "render_loop a w ins closes i g s =
    Some (Suc k, glfwPollEvents w True (glfw_exec (GlfwMakeContextCurrent w) g),
          run_frames a (map ins [i..<Suc k]) s)"
  using assms
proof (induction "k - i" arbitrary: i g s)
  case 0
  then have i: "i = k" by simp
  let ?g = "glfwPollEvents w True (glfw_exec (GlfwMakeContextCurrent w) g)"
  have "glfwWindowShouldClose w ?g"
    using "0.prems"(1) by (intro poll_close) simp
  moreover have "\<not> glfwWindowShouldClose w g"
    using "0.prems"(2) by (simp add: glfwWindowShouldClose_def)
  ultimately show ?case
    using "0.prems"(3) i by (simp add: render_loop_running render_loop_closed)
next
  case (Suc d)
  then have lt: "i < k" "\<not> closes i" by simp_all
  let ?g = "glfw_exec (GlfwMakeContextCurrent w) g"
  have "render_loop a w ins closes (Suc i) ?g (render_frame a (ins i) s) =
      Some (Suc k, glfwPollEvents w True (glfw_exec (GlfwMakeContextCurrent w) ?g),
            run_frames a (map ins [Suc i..<Suc k]) (render_frame a (ins i) s))"
    using Suc.hyps(2) Suc.prems lt by (intro Suc.hyps(1)) simp_all
  moreover have "\<not> glfwWindowShouldClose w g"
    using Suc.prems(2) by (simp add: glfwWindowShouldClose_def)
  ultimately show ?case
    using lt by (simp add: render_loop_running poll_no_close upt_conv_Cons)
qed

text \<open>
  Partial correctness by fixpoint induction: if the loop returns, the close flag was set
  on entry or the user asked to close in some frame.
\<close>

lemma render_loop_returns_close:
  assumes "render_loop a w ins closes i g s = Some r"
  shows "glfwWindowShouldClose w g \<or> (\<exists>j\<ge>i. closes j)"
proof (rule render_loop.raw_induct
    [where P = "\<lambda>a w ins closes i g s r. glfwWindowShouldClose w g \<or> (\<exists>j\<ge>i. closes j)", OF _ assms])
  fix f a w ins closes i g s r
  assume IH: "\<And>a w ins closes i g s r. f a w ins closes i g s = Some r \<Longrightarrow>
      glfwWindowShouldClose w g \<or> (\<exists>j\<ge>i. closes j)"
    and eq: "(if glfwWindowShouldClose w g then Some (i, g, s)
      else f a w ins closes (Suc i)
        (glfwPollEvents w (closes i) (glfw_exec (GlfwMakeContextCurrent w) g))
        (render_frame a (ins i) s)) = Some r"
  show "glfwWindowShouldClose w g \<or> (\<exists>j\<ge>i. closes j)"
  proof (cases "glfwWindowShouldClose w g \<or> closes i")
    case True
    then show ?thesis by auto
  next
    case False
    with eq have "f a w ins closes (Suc i) (glfw_exec (GlfwMakeContextCurrent w) g)
        (render_frame a (ins i) s) = Some r"
      by (simp add: poll_no_close)
    from IH [OF this] have "glfwWindowShouldClose w g \<or> (\<exists>j\<ge>Suc i. closes j)"
      by (simp only: make_current_should_close)
    then show ?thesis using Suc_leD by blast
  qed
qed

text \<open>The first close request, when there is one.\<close>

lemma first_close:
  fixes closes :: "nat \<Rightarrow> bool"
  assumes "closes k"
  obtains k' where "closes k'" "\<And>j. j < k' \<Longrightarrow> \<not> closes j"
  using assms exists_least_iff [of closes] by blast

lemma render_loop_live:
  assumes "glfw_initialized g" "\<not> glfw_should_close g w"
  shows "render_loop a w ins closes 0 g s \<noteq> None \<longleftrightarrow> (\<exists>k. closes k)"
proof
  assume "render_loop a w ins closes 0 g s \<noteq> None"
  then obtain r where "render_loop a w ins closes 0 g s = Some r" by blast
  from render_loop_returns_close [OF this] assms(2) show "\<exists>k. closes k"
    by (auto simp: glfwWindowShouldClose_def)
next
  assume "\<exists>k. closes k"
  then obtain k where k: "closes k" "\<And>j. j < k \<Longrightarrow> \<not> closes j"
    using first_close by blast
  show "render_loop a w ins closes 0 g s \<noteq> None"
    using render_loop_first_close [of g w closes k 0 a ins s] assms k by simp
qed

section \<open>Properties of main\<close>

text \<open>The GLFW state after a successful start-up: window 1 open and current.\<close>

definition glfw_started :: glfw_state where
  "glfw_started = glfw_exec (GlfwMakeContextCurrent 1)
     (glfw_exec (GlfwCreateWindow True) (glfw_exec GlfwInit glfw_off))"

lemma glfw_started_state:
  "glfw_initialized glfw_started" "\<not> glfw_should_close glfw_started w"
  "glfw_windows glfw_started = [1]"
  by (simp_all add: glfw_started_def glfw_off_def)

text \<open>The three ways \<open>main\<close> ends, with the window numbered 1 by GLFW.\<close>

lemma main_model_paths:
  "main_model e =
     (if \<not> env_window_ok e then
        Some \<lparr>exit_code = -1,
         res_glfw = glfw_exec GlfwTerminate (glfw_exec (GlfwCreateWindow False) (glfw_exec GlfwInit glfw_off)),
         res_frame = None, res_log = [''Failed to create GLFW window''], res_gl = None\<rparr>
      else if \<not> env_glad_ok e then
        Some \<lparr>exit_code = -1, res_glfw = glfw_started,
         res_frame = None, res_log = [''Failed to initialize GLAD''], res_gl = None\<rparr>
      else
        map_option (\<lambda>(k, g', s). \<lparr>exit_code = 0, res_glfw = main_teardown 1 g',
            res_frame = Some s, res_log = snd (main_gl_setup e),
            res_gl = Some (main_gl_teardown (env_app e) (env_vbo e) (snd s))\<rparr>)
          (render_loop (env_app e) 1 (env_frames e) (env_close e) 0 glfw_started
             (ui_init, fst (main_gl_setup e))))"
  by (simp add: main_model_def main_startup_def Let_def glfw_off_def glfw_started_def split_beta)

lemma main_model_loop_live:
  "main_model e \<noteq> None \<longleftrightarrow> \<not> (env_window_ok e \<and> env_glad_ok e) \<or> (\<exists>k. env_close e k)"
  using render_loop_live [OF glfw_started_state(1,2)] by (simp add: main_model_paths)

text \<open>
  C14. \<open>main\<close> returns \<open>-1\<close> exactly when the window cannot be created or the GL
  loader fails; otherwise it returns \<open>0\<close> if the user ever asks to close the window and
  does not return at all if not. A texture that fails to decode is not fatal.
\<close>

theorem main_exit_code:
  "map_option exit_code (main_model e) =
     (if \<not> (env_window_ok e \<and> env_glad_ok e) then Some (-1)
      else if \<exists>k. env_close e k then Some 0 else None)"
  using main_model_loop_live [of e] by (auto simp: main_model_paths)


text \<open>
  C16. On a normal exit the teardown calls \<open>glfwDestroyWindow\<close> after
  \<open>glfwTerminate\<close> (lines 288--289): the library is no longer initialised, so the call
  reports \<open>GLFW_NOT_INITIALIZED\<close>.
\<close>

theorem main_teardown_not_initialized:
  assumes "env_window_ok e" "env_glad_ok e" "env_close e k"
  shows "\<exists>r. main_model e = Some r \<and>
    glfw_error (res_glfw r) = Some GLFW_NOT_INITIALIZED \<and> \<not> glfw_initialized (res_glfw r)"
proof -
  obtain k' where k': "env_close e k'" "\<And>j. j < k' \<Longrightarrow> \<not> env_close e j"
    using first_close [of "env_close e" k] assms(3) by blast
  show ?thesis
    using render_loop_first_close [of glfw_started 1 "env_close e" k' 0 "env_app e" "env_frames e"
        "(ui_init, fst (main_gl_setup e))"] glfw_started_state(1,2) k' assms(1,2)
    by (simp add: main_model_paths main_teardown_def glfwPollEvents_def glfw_started_def glfw_off_def)
qed

theorem main_teardown_not_initialized_witness:
  "\<exists>r. main_model \<lparr>env_window_ok = True, env_glad_ok = True, env_texture_ok = True,
       env_locs = (\<lambda>_ _. 0), env_app = \<lparr>app_shader = 1, app_texture = 2, app_vao = 3\<rparr>, env_vbo = 4,
       env_frames = (\<lambda>_. \<lparr>in_xAxis = None, in_yAxis = None, in_recursion = None, in_color = None,
         in_fb_size = (1280, 1280)\<rparr>), env_close = (\<lambda>k. k = 2)\<rparr> = Some r \<and>
     glfw_error (res_glfw r) = Some GLFW_NOT_INITIALIZED \<and> \<not> glfw_initialized (res_glfw r)"
  using main_teardown_not_initialized [of "\<lparr>env_window_ok = True, env_glad_ok = True, env_texture_ok = True,
       env_locs = (\<lambda>_ _. 0), env_app = \<lparr>app_shader = 1, app_texture = 2, app_vao = 3\<rparr>, env_vbo = 4,
       env_frames = (\<lambda>_. \<lparr>in_xAxis = None, in_yAxis = None, in_recursion = None, in_color = None,
         in_fb_size = (1280, 1280)\<rparr>), env_close = (\<lambda>k. k = 2)\<rparr>" 2]
  by simp

text \<open>
  C17. When the GL loader fails, \<open>main\<close> returns without \<open>glfwTerminate\<close> (line 103),
  unlike the window-creation failure: GLFW is left initialised with the window open.
\<close>

theorem main_glad_failure_keeps_glfw:
  assumes "env_window_ok e" "\<not> env_glad_ok e"
  shows "map_option (\<lambda>r. (glfw_initialized (res_glfw r), glfw_windows (res_glfw r))) (main_model e) =
    Some (True, [1])"
  using assms by (simp add: main_model_paths glfw_started_state)

theorem main_glad_failure_keeps_glfw_witness:
  "map_option (\<lambda>r. (glfw_initialized (res_glfw r), glfw_windows (res_glfw r)))
     (main_model \<lparr>env_window_ok = True, env_glad_ok = False, env_texture_ok = True,
       env_locs = (\<lambda>_ _. 0), env_app = \<lparr>app_shader = 1, app_texture = 2, app_vao = 3\<rparr>, env_vbo = 4,
       env_frames = (\<lambda>_. \<lparr>in_xAxis = None, in_yAxis = None, in_recursion = None, in_color = None,
         in_fb_size = (1280, 1280)\<rparr>), env_close = (\<lambda>_. False)\<rparr>) = Some (True, [1])"
  using main_glad_failure_keeps_glfw [of "\<lparr>env_window_ok = True, env_glad_ok = False, env_texture_ok = True,
       env_locs = (\<lambda>_ _. 0), env_app = \<lparr>app_shader = 1, app_texture = 2, app_vao = 3\<rparr>, env_vbo = 4,
       env_frames = (\<lambda>_. \<lparr>in_xAxis = None, in_yAxis = None, in_recursion = None, in_color = None,
         in_fb_size = (1280, 1280)\<rparr>), env_close = (\<lambda>_. False)\<rparr>"]
  by simp

text \<open>
  C21. Liveness of the render loop (lines 207--279): entered with GLFW initialised and
  the window's close flag clear, the loop returns if and only if the user asks to close
  the window in some frame.
\<close>

theorem render_loop_terminates:
  assumes "glfw_initialized g" "\<not> glfw_should_close g w"
  shows "render_loop a w ins closes 0 g s \<noteq> None \<longleftrightarrow> (\<exists>k. closes k)"
  using render_loop_live [OF assms] .

theorem render_loop_terminates_witness:
  "render_loop \<lparr>app_shader = 1, app_texture = 2, app_vao = 3\<rparr> 1
     (\<lambda>_. \<lparr>in_xAxis = None, in_yAxis = None, in_recursion = None, in_color = None,
        in_fb_size = (1280, 1280)\<rparr>) (\<lambda>k. k = 1) 0 glfw_started (ui_init, gl_fresh (\<lambda>_ _. 0)) \<noteq> None"
  using render_loop_terminates [of glfw_started 1 "\<lparr>app_shader = 1, app_texture = 2, app_vao = 3\<rparr>"
      "\<lambda>_. \<lparr>in_xAxis = None, in_yAxis = None, in_recursion = None, in_color = None,
        in_fb_size = (1280, 1280)\<rparr>" "\<lambda>k. k = 1" "(ui_init, gl_fresh (\<lambda>_ _. 0))"]
  by (simp add: glfw_started_state)

text \<open>
  C22. The loop refines the run of frames: when frame \<open>k\<close> is the first in which the user
  asks to close, the loop runs exactly the frames \<open>0..k\<close> and ends in the UI and GL
  state of \<open>run_frames\<close> on their inputs.
\<close>

theorem render_loop_run_frames:
  assumes "glfw_initialized g" "\<not> glfw_should_close g w" "closes k" "\<forall>j<k. \<not> closes j"
  shows "map_option (\<lambda>(n, g', s'). (n, s')) (render_loop a w ins closes 0 g s) =
    Some (Suc k, run_frames a (map ins [0..<Suc k]) s)"
  using render_loop_first_close [of g w closes k 0 a ins s] assms by simp

theorem render_loop_run_frames_witness:
  "map_option (\<lambda>(n, g', s'). (n, s'))
     (render_loop \<lparr>app_shader = 1, app_texture = 2, app_vao = 3\<rparr> 1
       (\<lambda>_. \<lparr>in_xAxis = None, in_yAxis = None, in_recursion = None, in_color = None,
          in_fb_size = (1280, 1280)\<rparr>) (\<lambda>k. k = 1) 0 glfw_started (ui_init, gl_fresh (\<lambda>_ _. 0))) =
   Some (2, run_frames \<lparr>app_shader = 1, app_texture = 2, app_vao = 3\<rparr>
     (map (\<lambda>_. \<lparr>in_xAxis = None, in_yAxis = None, in_recursion = None, in_color = None,
          in_fb_size = (1280, 1280)\<rparr>) [0..<2]) (ui_init, gl_fresh (\<lambda>_ _. 0)))"
  using render_loop_run_frames [of glfw_started 1 "\<lambda>k. k = 1" 1
      "\<lparr>app_shader = 1, app_texture = 2, app_vao = 3\<rparr>"
      "\<lambda>_. \<lparr>in_xAxis = None, in_yAxis = None, in_recursion = None, in_color = None,
        in_fb_size = (1280, 1280)\<rparr>" "(ui_init, gl_fresh (\<lambda>_ _. 0))"]
  by (simp add: glfw_started_state numeral_2_eq_2)

end
