(* ===== verification/MainRuns.thy ===== *)
theory MainRuns
  imports Lifecycle
begin

text \<open>
  The runs of \<open>main\<close> as a transition system: an iteration of the render loop
  (\<open>src/src/main.cpp\<close>, lines 207--279) as an inductive step relation
  \<open>loop_step\<close> on configurations (frame number, GLFW state, UI statics, GL state), and
  the configurations \<open>main_reach\<close> reachable from the state after the GL set-up of lines
  119--203. The invariant of the reachable configurations is proved by rule induction,
  and the value of \<open>render_loop\<close> is shown to be a reachable configuration by fixpoint
  induction, so the invariant holds of the state \<open>main\<close> ends in. The same rule
  induction describes each reachable configuration frame by frame (statics from the
  inputs so far, GL state from the last frame), and the teardown of lines 282--283 is
  shown to act on the objects the set-up created.
\<close>

section \<open>Steps and reachable configurations\<close>

type_synonym loop_conf = "nat \<times> glfw_state \<times> ui_state \<times> gl_state"

text \<open>One iteration of the loop: taken only while the close flag is clear.\<close>

inductive loop_step ::
  "app \<Rightarrow> nat \<Rightarrow> (nat \<Rightarrow> frame_input) \<Rightarrow> (nat \<Rightarrow> bool) \<Rightarrow> loop_conf \<Rightarrow> loop_conf \<Rightarrow> bool"
  for a w ins closes where
  iteration: "\<not> glfwWindowShouldClose w g \<Longrightarrow>
    loop_step a w ins closes (k, g, s)
      (Suc k, glfwPollEvents w (closes k) (glfw_exec (GlfwMakeContextCurrent w) g),
       render_frame a (ins k) s)"

inductive_cases loop_stepE: "loop_step a w ins closes c c'"

text \<open>
  The configurations of a run of \<open>main\<close> that passed start-up: the state after the GL
  set-up, with window 1 open and current, and everything the loop reaches from it.
\<close>

inductive main_reach :: "env \<Rightarrow> loop_conf \<Rightarrow> bool" for e where
  start: "env_window_ok e \<Longrightarrow> env_glad_ok e \<Longrightarrow>
    main_reach e (0, glfw_started, ui_init, fst (main_gl_setup e))"
| step: "main_reach e c \<Longrightarrow> loop_step (env_app e) 1 (env_frames e) (env_close e) c c' \<Longrightarrow>
    main_reach e c'"

text \<open>
  What the environment guarantees: \<open>glfwGetFramebufferSize\<close> reports sizes that are not
  negative.
\<close>

definition fb_ok :: "frame_input \<Rightarrow> bool" where
  "fb_ok inp \<longleftrightarrow> 0 \<le>s fst (in_fb_size inp) \<and> 0 \<le>s snd (in_fb_size inp)"

text \<open>
  The invariant: GLFW initialised with window 1 open, current and no GLFW error; the
  shader bound and no GL error.
\<close>

definition loop_inv :: "app \<Rightarrow> loop_conf \<Rightarrow> bool" where
  "loop_inv a c \<longleftrightarrow> (case c of (k, g, ui, st) \<Rightarrow>
     glfw_initialized g \<and> glfw_windows g = [1] \<and> glfw_current g = Some 1 \<and>
     glfw_error g = None \<and>
     gl_current_program st = app_shader a \<and> gl_error st = None)"

section \<open>Lemmas\<close>

lemma main_gl_setup_state:
  "names_ok e \<Longrightarrow>
   gl_current_program (fst (main_gl_setup e)) = app_shader (env_app e) \<and>
   gl_error (fst (main_gl_setup e)) = None"
  by (simp add: names_ok_def main_gl_setup_def Let_def setup_vertex_buffers_eq setup_texture_eq
      gl_fresh_def gl_simps)

lemma loop_inv_start:
  "names_ok e \<Longrightarrow> loop_inv (env_app e) (0, glfw_started, ui_init, fst (main_gl_setup e))"
  using main_gl_setup_state [of e]
  by (simp add: loop_inv_def glfw_started_def glfw_off_def)

lemma loop_inv_step:
  assumes "loop_inv a c" "loop_step a 1 ins closes c c'" "app_shader a \<noteq> 0" "\<forall>k. fb_ok (ins k)"
  shows "loop_inv a c'"
proof -
  obtain g k s where it: "c = (k, g, s)"
      "c' = (Suc k, glfwPollEvents 1 (closes k) (glfw_exec (GlfwMakeContextCurrent 1) g),
             render_frame a (ins k) s)"
    using assms(2) by (auto elim: loop_stepE)
  obtain ui st where s: "s = (ui, st)" by (cases s)
  have fb: "0 \<le>s fst (in_fb_size (ins k))" "0 \<le>s snd (in_fb_size (ins k))"
    using assms(4) by (simp_all add: fb_ok_def)
  have inv: "glfw_initialized g" "glfw_windows g = [1]" "glfw_error g = None"
      "gl_current_program st = app_shader a" "gl_error st = None"
    using assms(1) it(1) s by (simp_all add: loop_inv_def)
  have "gl_current_program (snd (render_frame a (ins k) (ui, st))) = app_shader a \<and>
      gl_error (snd (render_frame a (ins k) (ui, st))) = None"
    using render_frame_error [OF inv(4) assms(3) fb] inv(5) by simp
  then show ?thesis
    using it(2) inv(1-3) s
    by (simp add: loop_inv_def glfwPollEvents_def split_beta)
qed

text \<open>Every reachable configuration satisfies the invariant: rule induction.\<close>

lemma main_reach_inv:
  assumes "main_reach e c" "names_ok e" "\<forall>k. fb_ok (env_frames e k)"
  shows "loop_inv (env_app e) c"
  using assms(1)
proof (induction rule: main_reach.induct)
  case start
  then show ?case using loop_inv_start [OF assms(2)] by simp
next
  case (step c c')
  then show ?case
    using loop_inv_step [OF step.IH step.hyps(2) _ assms(3)] assms(2) by (simp add: names_ok_def)
qed

text \<open>
  The value of the loop, entered in a reachable configuration, is a reachable
  configuration with the close flag set: fixpoint induction on \<open>render_loop\<close>.
\<close>

lemma render_loop_reach:
  assumes "render_loop a 1 ins closes k g s = Some r"
    "a = env_app e" "ins = env_frames e" "closes = env_close e" "main_reach e (k, g, s)"
  shows "main_reach e r \<and> glfwWindowShouldClose 1 (fst (snd r))"
proof -
  have "main_reach e (k, g, s) \<longrightarrow> (a, 1::nat, ins, closes) = (env_app e, 1, env_frames e, env_close e) \<longrightarrow>
      main_reach e r \<and> glfwWindowShouldClose 1 (fst (snd r))"
  proof (rule render_loop.raw_induct [where P = "\<lambda>a w ins closes k g s r. main_reach e (k, g, s) \<longrightarrow>
      (a, w, ins, closes) = (env_app e, 1, env_frames e, env_close e) \<longrightarrow>
      main_reach e r \<and> glfwWindowShouldClose 1 (fst (snd r))", OF _ assms(1)])
    fix f a w ins closes k g s r
    assume IH: "\<And>a w ins closes k g s r. f a w ins closes k g s = Some r \<Longrightarrow>
        main_reach e (k, g, s) \<longrightarrow> (a, w, ins, closes) = (env_app e, 1, env_frames e, env_close e) \<longrightarrow>
        main_reach e r \<and> glfwWindowShouldClose 1 (fst (snd r))"
      and eq: "(if glfwWindowShouldClose w g then Some (k, g, s)
        else f a w ins closes (Suc k)
          (glfwPollEvents w (closes k) (glfw_exec (GlfwMakeContextCurrent w) g))
          (render_frame a (ins k) s)) = Some r"
    show "main_reach e (k, g, s) \<longrightarrow> (a, w, ins, closes) = (env_app e, 1, env_frames e, env_close e) \<longrightarrow>
        main_reach e r \<and> glfwWindowShouldClose 1 (fst (snd r))"
    proof (intro impI)
      assume reach: "main_reach e (k, g, s)"
        and p: "(a, w, ins, closes) = (env_app e, 1, env_frames e, env_close e)"
      show "main_reach e r \<and> glfwWindowShouldClose 1 (fst (snd r))"
      proof (cases "glfwWindowShouldClose w g")
        case True
        with eq reach p show ?thesis by auto
      next
        case False
        let ?g = "glfwPollEvents w (closes k) (glfw_exec (GlfwMakeContextCurrent w) g)"
        have "loop_step (env_app e) 1 (env_frames e) (env_close e) (k, g, s)
            (Suc k, ?g, render_frame a (ins k) s)"
          using False p loop_step.iteration [of 1 g "env_app e" "env_frames e" "env_close e" k s]
          by auto
        with reach have "main_reach e (Suc k, ?g, render_frame a (ins k) s)"
          by (rule main_reach.step)
        moreover have "f a w ins closes (Suc k) ?g (render_frame a (ins k) s) = Some r"
          using eq False by simp
        ultimately show ?thesis using IH p by blast
      qed
    qed
  qed
  then show ?thesis using assms by simp
qed

text \<open>
  The objects after the set-up: vertex array \<open>vao\<close> and texture \<open>tex\<close> bound, the
  buffer holding \<open>vertices[]\<close>, attributes 0 and 1 pointing into it, the texture
  filtered linearly with an image exactly when decoding succeeded. No frame changes them.
\<close>

lemma main_gl_setup_objects:
  assumes "names_ok e"
  shows "gl_objects (fst (main_gl_setup e)) =
    (app_vao (env_app e), app_texture (env_app e),
     (gl_buffers (gl_fresh (env_locs e)))(env_vbo e \<mapsto> vertices),
     (gl_vaos (gl_fresh (env_locs e)))(app_vao (env_app e) \<mapsto>
         [0 \<mapsto> \<lparr>va_size = 3, va_stride = 5, va_offset = 0, va_buffer = env_vbo e, va_enabled = True\<rparr>,
          1 \<mapsto> \<lparr>va_size = 3, va_stride = 5, va_offset = 3, va_buffer = env_vbo e, va_enabled = True\<rparr>]),
     (gl_textures (gl_fresh (env_locs e)))(app_texture (env_app e) \<mapsto>
         \<lparr>tex_params = (\<lambda>p. if p = GL_TEXTURE_MIN_FILTER \<or> p = GL_TEXTURE_MAG_FILTER then GL_LINEAR
                          else GL_REPEAT),
          tex_image = env_texture_ok e, tex_mipmaps = env_texture_ok e\<rparr>))"
  using assms
  by (simp add: names_ok_def main_gl_setup_def Let_def setup_vertex_buffers_eq setup_texture_eq
      gl_objects_def gl_exec.simps glUseProgram_def glUniform1i_def glGetUniformLocation_def
      gl_uniform_set_def gl_set_error_def)

lemma main_reach_objects:
  assumes "main_reach e c" "names_ok e"
  shows "gl_objects (snd (snd (snd c))) = gl_objects (fst (main_gl_setup e))"
  using assms(1)
proof (induction rule: main_reach.induct)
  case start
  then show ?case by simp
next
  case (step c c')
  obtain k g ui st where c: "c = (k, g, ui, st)" by (cases c) auto
  have "c' = (Suc k, glfwPollEvents 1 (env_close e k) (glfw_exec (GlfwMakeContextCurrent 1) g),
      render_frame (env_app e) (env_frames e k) (ui, st))"
    using step.hyps(2) c by (auto elim: loop_stepE)
  then show ?case
    using step.IH c render_frame_objects [of "env_app e" "env_frames e k" ui st]
      main_gl_setup_objects [OF assms(2)]
    by (simp add: gl_objects_def)
qed

lemma setup_enabled_attrib:
  assumes "names_ok e"
  shows "gl_enabled_attrib (fst (main_gl_setup e)) i =
    (if i < 2 then Some (vertex_attribs ! i, vertices) else None)"
proof -
  have "i = 0 \<or> i = 1 \<or> 2 \<le> i" by arith
  then show ?thesis
    using main_gl_setup_objects [OF assms]
    by (auto simp: gl_objects_def gl_enabled_attrib_def gl_fresh_def vertex_attribs_def
        attrib_position_def attrib_texcoord_def)
qed

lemma setup_texture_state:
  assumes "names_ok e"
  shows "gl_textures (fst (main_gl_setup e)) (gl_texture_2d (fst (main_gl_setup e))) =
    Some \<lparr>tex_params = (\<lambda>p. if p = GL_TEXTURE_MIN_FILTER \<or> p = GL_TEXTURE_MAG_FILTER then GL_LINEAR
                          else GL_REPEAT),
          tex_image = env_texture_ok e, tex_mipmaps = env_texture_ok e\<rparr>"
  using main_gl_setup_objects [OF assms] by (simp add: gl_objects_def)

text \<open>
  What a reachable configuration holds, frame by frame: the statics are the widgets'
  fold over the inputs of the frames so far, the uniform table is the one the driver
  returned, and after frame \<open>j\<close> the GL state is what \<open>render_frame\<close> made of frame
  \<open>j\<close>'s input.
\<close>

lemma main_reach_frame:
  assumes "main_reach e c"
  shows "case c of (k, g, ui, st) \<Rightarrow>
    ui = fold ui_widgets (map (env_frames e) [0..<k]) ui_init \<and> gl_uniform_locs st = env_locs e \<and>
    (\<forall>j. k = Suc j \<longrightarrow> (\<exists>ui0 st0. (ui, st) = render_frame (env_app e) (env_frames e j) (ui0, st0) \<and>
        gl_uniform_locs st0 = env_locs e))"
  using assms
proof (induction rule: main_reach.induct)
  case start
  then show ?case by (simp add: main_gl_setup_locs)
next
  case (step c c')
  obtain k g ui st where c: "c = (k, g, ui, st)" by (cases c) auto
  have c': "c' = (Suc k, glfwPollEvents 1 (env_close e k) (glfw_exec (GlfwMakeContextCurrent 1) g),
      render_frame (env_app e) (env_frames e k) (ui, st))"
    using step.hyps(2) c by (auto elim: loop_stepE)
  have ih: "ui = fold ui_widgets (map (env_frames e) [0..<k]) ui_init" "gl_uniform_locs st = env_locs e"
    using step.IH c by simp_all
  obtain st' where rf: "render_frame (env_app e) (env_frames e k) (ui, st) = (ui_widgets (env_frames e k) ui, st')"
    by (metis render_frame_ui prod.collapse)
  show ?case
    unfolding c' rf prod.case
  proof (intro conjI allI impI)
    show "ui_widgets (env_frames e k) ui = fold ui_widgets (map (env_frames e) [0..<Suc k]) ui_init"
      using ih(1) by simp
    show "gl_uniform_locs st' = env_locs e"
      using ih(2) render_frame_locs [of "env_app e" "env_frames e k" ui st] rf by simp
  next
    fix j
    assume "Suc k = Suc j"
    then show "\<exists>ui0 st0. (ui_widgets (env_frames e k) ui, st') =
        render_frame (env_app e) (env_frames e j) (ui0, st0) \<and> gl_uniform_locs st0 = env_locs e"
      using rf ih(2) by (intro exI [of _ ui] exI [of _ st]) simp
  qed
qed

text \<open>The configuration after the first iteration, when the window was not closed before.\<close>

lemma main_reach_first:
  assumes "env_window_ok e" "env_glad_ok e"
  shows "main_reach e (Suc 0, glfwPollEvents 1 (env_close e 0) (glfw_exec (GlfwMakeContextCurrent 1) glfw_started),
    render_frame (env_app e) (env_frames e 0) (ui_init, fst (main_gl_setup e)))"
proof -
  have "main_reach e (0, glfw_started, ui_init, fst (main_gl_setup e))"
    using assms by (rule main_reach.start)
  moreover have "\<not> glfwWindowShouldClose 1 glfw_started"
    by (simp add: glfwWindowShouldClose_def glfw_started_state)
  ultimately show ?thesis
    using main_reach.step loop_step.iteration [of 1 glfw_started "env_app e" "env_frames e" "env_close e" 0]
    by fastforce
qed

section \<open>Properties of runs\<close>

text \<open>
  C23. Invariant of the render loop: if the shader, vertex array and buffer have names and GLFW reports
  non-negative framebuffer sizes, every configuration a run of \<open>main\<close> reaches has GLFW
  initialised with window 1 open and current and no GLFW error, the shader bound and no
  GL error recorded, whatever the user types into the widgets.
\<close>

theorem main_reach_invariant:
  assumes "main_reach e c" "names_ok e" "\<forall>k. fb_ok (env_frames e k)"
  shows "loop_inv (env_app e) c"
  using main_reach_inv [OF assms] .

theorem main_reach_invariant_witness:
  "loop_inv \<lparr>app_shader = 1, app_texture = 2, app_vao = 3\<rparr>
     (Suc 0, glfwPollEvents 1 False (glfw_exec (GlfwMakeContextCurrent 1) glfw_started),
      render_frame \<lparr>app_shader = 1, app_texture = 2, app_vao = 3\<rparr>
        \<lparr>in_xAxis = None, in_yAxis = None, in_recursion = Some (SliderTyped 12), in_color = None,
         in_fb_size = (1280, 1280)\<rparr>
        (ui_init, fst (main_gl_setup \<lparr>env_window_ok = True, env_glad_ok = True, env_texture_ok = True,
          env_locs = (\<lambda>_ _. 0), env_app = \<lparr>app_shader = 1, app_texture = 2, app_vao = 3\<rparr>, env_vbo = 4,
          env_frames = (\<lambda>_. \<lparr>in_xAxis = None, in_yAxis = None, in_recursion = Some (SliderTyped 12),
            in_color = None, in_fb_size = (1280, 1280)\<rparr>), env_close = (\<lambda>_. False)\<rparr>)))"
proof -
  let ?e = "\<lparr>env_window_ok = True, env_glad_ok = True, env_texture_ok = True,
    env_locs = (\<lambda>_ _. 0), env_app = \<lparr>app_shader = 1, app_texture = 2, app_vao = 3\<rparr>, env_vbo = 4,
    env_frames = (\<lambda>_. \<lparr>in_xAxis = None, in_yAxis = None, in_recursion = Some (SliderTyped 12),
      in_color = None, in_fb_size = (1280, 1280)\<rparr>), env_close = (\<lambda>_. False)\<rparr>"
  have "main_reach ?e (0, glfw_started, ui_init, fst (main_gl_setup ?e))"
    by (rule main_reach.start) simp_all
  moreover have "\<not> glfwWindowShouldClose 1 glfw_started"
    by (simp add: glfwWindowShouldClose_def glfw_started_state)
  ultimately have "main_reach ?e (Suc 0, glfwPollEvents 1 False (glfw_exec (GlfwMakeContextCurrent 1) glfw_started),
      render_frame (env_app ?e) (env_frames ?e 0) (ui_init, fst (main_gl_setup ?e)))"
    using main_reach.step loop_step.iteration [of 1 glfw_started "env_app ?e" "env_frames ?e" "env_close ?e" 0]
    by fastforce
  then show ?thesis
    using main_reach_invariant [of ?e] by (simp add: fb_ok_def names_ok_def cint_simps)
qed

text \<open>
  C24. Safety of a whole run: after a successful start-up, with named GL objects and
  non-negative framebuffer sizes, a user who closes the window in some frame makes
  \<open>main\<close> return in a state where no GL error was ever recorded and the shader is still
  bound, whatever the user types into the widgets.
\<close>

theorem main_exit_no_gl_error:
  assumes "env_window_ok e" "env_glad_ok e" "env_close e k"
    "names_ok e" "\<forall>k. fb_ok (env_frames e k)"
  shows "\<exists>r ui st. main_model e = Some r \<and> res_frame r = Some (ui, st) \<and>
    gl_error st = None \<and> gl_current_program st = app_shader (env_app e)"
proof -
  let ?c0 = "(0, glfw_started, ui_init, fst (main_gl_setup e))"
  obtain r where r: "render_loop (env_app e) 1 (env_frames e) (env_close e) 0 glfw_started
      (ui_init, fst (main_gl_setup e)) = Some r"
    using render_loop_live [OF glfw_started_state(1,2)] assms(3) by blast
  have "main_reach e ?c0" using assms(1,2) by (rule main_reach.start)
  with r have "main_reach e r" using render_loop_reach by blast
  then have "loop_inv (env_app e) r" using main_reach_inv assms(4,5) by blast
  then show ?thesis
    using r assms(1,2) by (auto simp: main_model_paths loop_inv_def split: prod.splits)
qed

theorem main_exit_no_gl_error_witness:
  "\<exists>r ui st. main_model \<lparr>env_window_ok = True, env_glad_ok = True, env_texture_ok = False,
       env_locs = (\<lambda>_ _. 0), env_app = \<lparr>app_shader = 1, app_texture = 2, app_vao = 3\<rparr>, env_vbo = 4,
       env_frames = (\<lambda>_. \<lparr>in_xAxis = Some (SliderDrag 30), in_yAxis = None, in_recursion = Some (SliderTyped (- 3)),
         in_color = None, in_fb_size = (1280, 1280)\<rparr>), env_close = (\<lambda>k. k = 5)\<rparr> = Some r \<and>
     res_frame r = Some (ui, st) \<and> gl_error st = None \<and> gl_current_program st = 1"
  using main_exit_no_gl_error [of "\<lparr>env_window_ok = True, env_glad_ok = True, env_texture_ok = False,
       env_locs = (\<lambda>_ _. 0), env_app = \<lparr>app_shader = 1, app_texture = 2, app_vao = 3\<rparr>, env_vbo = 4,
       env_frames = (\<lambda>_. \<lparr>in_xAxis = Some (SliderDrag 30), in_yAxis = None, in_recursion = Some (SliderTyped (- 3)),
         in_color = None, in_fb_size = (1280, 1280)\<rparr>), env_close = (\<lambda>k. k = 5)\<rparr>" 5]
  by (simp add: fb_ok_def names_ok_def cint_simps)

text \<open>
  C30. The vertex state every frame draws with is the one \<open>main\<close> set up (lines
  147--164): in every reachable configuration the bound vertex array has exactly
  attributes 0 and 1 enabled, laid out as \<open>vertex_attribs\<close> over a buffer holding
  \<open>vertices[]\<close>. So the out-of-range reads of C8 and C28 happen in every frame.
\<close>

theorem main_reach_vertex_state:
  assumes "main_reach e (k, g, ui, st)" "names_ok e"
  shows "gl_enabled_attrib st i = (if i < 2 then Some (vertex_attribs ! i, vertices) else None)"
  using gl_enabled_attrib_objects [OF main_reach_objects [OF assms, simplified]]
    setup_enabled_attrib [OF assms(2)]
  by simp

theorem main_reach_vertex_state_witness:
  "gl_enabled_attrib (fst (main_gl_setup \<lparr>env_window_ok = True, env_glad_ok = True, env_texture_ok = False,
       env_locs = (\<lambda>_ _. 0), env_app = \<lparr>app_shader = 1, app_texture = 2, app_vao = 3\<rparr>, env_vbo = 4,
       env_frames = (\<lambda>_. \<lparr>in_xAxis = None, in_yAxis = None, in_recursion = Some (SliderDrag 2),
         in_color = None, in_fb_size = (1280, 1280)\<rparr>), env_close = (\<lambda>_. False)\<rparr>)) 1 = Some (vertex_attribs ! 1, vertices)"
  using main_reach_vertex_state [OF main_reach.start, of "\<lparr>env_window_ok = True, env_glad_ok = True, env_texture_ok = False,
       env_locs = (\<lambda>_ _. 0), env_app = \<lparr>app_shader = 1, app_texture = 2, app_vao = 3\<rparr>, env_vbo = 4,
       env_frames = (\<lambda>_. \<lparr>in_xAxis = None, in_yAxis = None, in_recursion = Some (SliderDrag 2),
         in_color = None, in_fb_size = (1280, 1280)\<rparr>), env_close = (\<lambda>_. False)\<rparr>" 1]
  by (simp add: names_ok_def)

text \<open>
  C31. The texture every frame samples is complete exactly when \<open>stbi_load\<close>
  succeeded: a decoding failure is only logged (line 188), and the program goes on
  sampling a texture whose level 0 has no image. Its minification filter is
  \<open>GL_LINEAR\<close>, set again at line 197 after the mipmaps were generated, so the mipmaps
  are never sampled.
\<close>

theorem main_reach_texture:
  assumes "main_reach e (k, g, ui, st)" "names_ok e"
  shows "map_option texture_complete (gl_textures st (gl_texture_2d st)) = Some (env_texture_ok e) \<and>
    map_option (\<lambda>t. tex_params t GL_TEXTURE_MIN_FILTER) (gl_textures st (gl_texture_2d st)) =
      Some GL_LINEAR"
proof -
  have "gl_textures st (gl_texture_2d st) =
      gl_textures (fst (main_gl_setup e)) (gl_texture_2d (fst (main_gl_setup e)))"
    using main_reach_objects [OF assms] by (simp add: gl_objects_def)
  then show ?thesis
    using setup_texture_state [OF assms(2)] by (simp add: texture_complete_def)
qed

theorem main_reach_texture_witness:
  "map_option texture_complete (gl_textures (fst (main_gl_setup \<lparr>env_window_ok = True, env_glad_ok = True, env_texture_ok = False,
       env_locs = (\<lambda>_ _. 0), env_app = \<lparr>app_shader = 1, app_texture = 2, app_vao = 3\<rparr>, env_vbo = 4,
       env_frames = (\<lambda>_. \<lparr>in_xAxis = None, in_yAxis = None, in_recursion = Some (SliderDrag 2),
         in_color = None, in_fb_size = (1280, 1280)\<rparr>), env_close = (\<lambda>_. False)\<rparr>))
      (gl_texture_2d (fst (main_gl_setup \<lparr>env_window_ok = True, env_glad_ok = True, env_texture_ok = False,
       env_locs = (\<lambda>_ _. 0), env_app = \<lparr>app_shader = 1, app_texture = 2, app_vao = 3\<rparr>, env_vbo = 4,
       env_frames = (\<lambda>_. \<lparr>in_xAxis = None, in_yAxis = None, in_recursion = Some (SliderDrag 2),
         in_color = None, in_fb_size = (1280, 1280)\<rparr>), env_close = (\<lambda>_. False)\<rparr>)))) = Some False \<and>
   map_option (\<lambda>t. tex_params t GL_TEXTURE_MIN_FILTER) (gl_textures (fst (main_gl_setup \<lparr>env_window_ok = True, env_glad_ok = True, env_texture_ok = False,
       env_locs = (\<lambda>_ _. 0), env_app = \<lparr>app_shader = 1, app_texture = 2, app_vao = 3\<rparr>, env_vbo = 4,
       env_frames = (\<lambda>_. \<lparr>in_xAxis = None, in_yAxis = None, in_recursion = Some (SliderDrag 2),
         in_color = None, in_fb_size = (1280, 1280)\<rparr>), env_close = (\<lambda>_. False)\<rparr>))
      (gl_texture_2d (fst (main_gl_setup \<lparr>env_window_ok = True, env_glad_ok = True, env_texture_ok = False,
       env_locs = (\<lambda>_ _. 0), env_app = \<lparr>app_shader = 1, app_texture = 2, app_vao = 3\<rparr>, env_vbo = 4,
       env_frames = (\<lambda>_. \<lparr>in_xAxis = None, in_yAxis = None, in_recursion = Some (SliderDrag 2),
         in_color = None, in_fb_size = (1280, 1280)\<rparr>), env_close = (\<lambda>_. False)\<rparr>)))) = Some GL_LINEAR"
  using main_reach_texture [OF main_reach.start, of "\<lparr>env_window_ok = True, env_glad_ok = True, env_texture_ok = False,
       env_locs = (\<lambda>_ _. 0), env_app = \<lparr>app_shader = 1, app_texture = 2, app_vao = 3\<rparr>, env_vbo = 4,
       env_frames = (\<lambda>_. \<lparr>in_xAxis = None, in_yAxis = None, in_recursion = Some (SliderDrag 2),
         in_color = None, in_fb_size = (1280, 1280)\<rparr>), env_close = (\<lambda>_. False)\<rparr>"]
  by (simp add: names_ok_def)

text \<open>
  C34. The frames of a run as a sequence: in every configuration a run of \<open>main\<close>
  reaches after \<open>k > 0\<close> frames, whether or not the run ever ends, the statics are the
  widgets' fold over the inputs of frames \<open>0..k-1\<close>, and the window shows exactly the
  generator's specification for the rotation and depth they hold, each draw seeing its
  model matrix (with the shader named and its \<open>model\<close> uniform active).
\<close>

theorem main_reach_frames:
  assumes "main_reach e (k, g, ui, st)" "0 < k"
    "app_shader (env_app e) = p" "p \<noteq> 0" "env_locs e p ''model'' = l" "l \<noteq> -1"
  shows "ui = fold ui_widgets (map (env_frames e) [0..<k]) ui_init \<and>
    map (draw_view l) (gl_draws st) = map spec_view (sierpinski_spec (frame_model ui) (ui_recursion ui) 0)"
proof -
  obtain j where j: "k = Suc j" using assms(2) by (cases k) auto
  have fr: "ui = fold ui_widgets (map (env_frames e) [0..<k]) ui_init"
    "\<exists>ui0 st0. (ui, st) = render_frame (env_app e) (env_frames e j) (ui0, st0) \<and>
       gl_uniform_locs st0 = env_locs e"
    using main_reach_frame [OF assms(1)] j unfolding prod.case by blast+
  then obtain ui0 st0 where r: "(ui, st) = render_frame (env_app e) (env_frames e j) (ui0, st0)"
      "gl_uniform_locs st0 = env_locs e" by blast
  have "ui = ui_widgets (env_frames e j) ui0"
    using render_frame_ui [of "env_app e" "env_frames e j" ui0 st0] r(1) by (metis fst_conv)
  moreover have "st = snd (render_frame (env_app e) (env_frames e j) (ui0, st0))"
    using r(1) by (metis snd_conv)
  ultimately show ?thesis
    using fr(1) render_frame_view [OF assms(3,4) _ assms(6), of st0 "env_frames e j" ui0] r(2) assms(5)
    by simp
qed

theorem main_reach_frames_witness:
  "fold ui_widgets (map (\<lambda>_. \<lparr>in_xAxis = Some (SliderDrag 30), in_yAxis = None, in_recursion = Some (SliderDrag 2),
       in_color = None, in_fb_size = (1280, 1280)\<rparr>) [0..<1]) ui_init =
     ui_widgets \<lparr>in_xAxis = Some (SliderDrag 30), in_yAxis = None, in_recursion = Some (SliderDrag 2),
       in_color = None, in_fb_size = (1280, 1280)\<rparr> ui_init \<and>
   map (draw_view 0) (gl_draws (snd (render_frame \<lparr>app_shader = 1, app_texture = 2, app_vao = 3\<rparr>
      \<lparr>in_xAxis = Some (SliderDrag 30), in_yAxis = None, in_recursion = Some (SliderDrag 2), in_color = None,
       in_fb_size = (1280, 1280)\<rparr>
      (ui_init, fst (main_gl_setup \<lparr>env_window_ok = True, env_glad_ok = True, env_texture_ok = True,
          env_locs = (\<lambda>_ _. 0), env_app = \<lparr>app_shader = 1, app_texture = 2, app_vao = 3\<rparr>, env_vbo = 4,
          env_frames = (\<lambda>_. \<lparr>in_xAxis = Some (SliderDrag 30), in_yAxis = None, in_recursion = Some (SliderDrag 2),
            in_color = None, in_fb_size = (1280, 1280)\<rparr>), env_close = (\<lambda>_. False)\<rparr>))))) =
   map spec_view (sierpinski_spec (frame_model (ui_widgets \<lparr>in_xAxis = Some (SliderDrag 30), in_yAxis = None,
       in_recursion = Some (SliderDrag 2), in_color = None, in_fb_size = (1280, 1280)\<rparr> ui_init))
     (ui_recursion (ui_widgets \<lparr>in_xAxis = Some (SliderDrag 30), in_yAxis = None, in_recursion = Some (SliderDrag 2),
       in_color = None, in_fb_size = (1280, 1280)\<rparr> ui_init)) 0)"
proof -
  let ?e = "\<lparr>env_window_ok = True, env_glad_ok = True, env_texture_ok = True,
    env_locs = (\<lambda>_ _. 0), env_app = \<lparr>app_shader = 1, app_texture = 2, app_vao = 3\<rparr>, env_vbo = 4,
    env_frames = (\<lambda>_. \<lparr>in_xAxis = Some (SliderDrag 30), in_yAxis = None, in_recursion = Some (SliderDrag 2),
      in_color = None, in_fb_size = (1280, 1280)\<rparr>), env_close = (\<lambda>_. False)\<rparr>"
  have reach: "main_reach ?e (Suc 0, glfwPollEvents 1 False (glfw_exec (GlfwMakeContextCurrent 1) glfw_started),
      render_frame (env_app ?e) (env_frames ?e 0) (ui_init, fst (main_gl_setup ?e)))"
    using main_reach_first [of ?e] by simp
  obtain st1 where rf: "render_frame (env_app ?e) (env_frames ?e 0) (ui_init, fst (main_gl_setup ?e)) =
      (ui_widgets (env_frames ?e 0) ui_init, st1)"
    by (metis render_frame_ui prod.collapse)
  have "fold ui_widgets (map (env_frames ?e) [0..<Suc 0]) ui_init = ui_widgets (env_frames ?e 0) ui_init \<and>
      map (draw_view 0) (gl_draws st1) = map spec_view (sierpinski_spec
        (frame_model (ui_widgets (env_frames ?e 0) ui_init)) (ui_recursion (ui_widgets (env_frames ?e 0) ui_init)) 0)"
    using main_reach_frames [of ?e "Suc 0" _ "ui_widgets (env_frames ?e 0) ui_init" st1 1 0] reach rf
    by simp
  then show ?thesis
    using rf by simp
qed

text \<open>
  C35. Teardown (lines 282--283): after a successful start-up, with named GL objects,
  a user who closes the window makes \<open>main\<close> return with the vertex array and the
  vertex buffer deleted and no vertex array bound, while the texture created at line 168
  is still allocated: the program never deletes it.
\<close>

theorem main_exit_deletes_vertex_objects:
  assumes "env_window_ok e" "env_glad_ok e" "env_close e k" "names_ok e"
  shows "\<exists>r st. main_model e = Some r \<and> res_gl r = Some st \<and>
    gl_vaos st (app_vao (env_app e)) = None \<and> gl_buffers st (env_vbo e) = None \<and>
    gl_vertex_array st = 0 \<and> gl_textures st (app_texture (env_app e)) \<noteq> None"
proof -
  obtain c where c: "render_loop (env_app e) 1 (env_frames e) (env_close e) 0 glfw_started
      (ui_init, fst (main_gl_setup e)) = Some c"
    using render_loop_live [OF glfw_started_state(1,2)] assms(3) by blast
  obtain k' g ui st where cc: "c = (k', g, ui, st)" by (cases c) auto
  have "main_reach e (0, glfw_started, ui_init, fst (main_gl_setup e))"
    using assms(1,2) by (rule main_reach.start)
  with c cc have reach: "main_reach e (k', g, ui, st)" using render_loop_reach by blast
  have obj: "gl_objects st = gl_objects (fst (main_gl_setup e))"
    using main_reach_objects [OF reach assms(4)] by simp
  then have bound: "gl_vertex_array st = app_vao (env_app e)"
    "gl_textures st (app_texture (env_app e)) \<noteq> None"
    using main_gl_setup_objects [OF assms(4)] by (simp_all add: gl_objects_def)
  have "main_model e = Some \<lparr>exit_code = 0, res_glfw = main_teardown 1 g, res_frame = Some (ui, st),
      res_log = snd (main_gl_setup e), res_gl = Some (main_gl_teardown (env_app e) (env_vbo e) st)\<rparr>"
    using c cc assms(1,2) by (simp add: main_model_paths)
  moreover have "app_vao (env_app e) \<noteq> 0" "env_vbo e \<noteq> 0"
    using assms(4) by (simp_all add: names_ok_def)
  ultimately show ?thesis
    using main_gl_teardown_state [of "env_app e" "env_vbo e" st] bound by simp
qed

theorem main_exit_deletes_vertex_objects_witness:
  "\<exists>r st. main_model \<lparr>env_window_ok = True, env_glad_ok = True, env_texture_ok = True,
       env_locs = (\<lambda>_ _. 0), env_app = \<lparr>app_shader = 1, app_texture = 2, app_vao = 3\<rparr>, env_vbo = 4,
       env_frames = (\<lambda>_. \<lparr>in_xAxis = Some (SliderDrag 30), in_yAxis = None, in_recursion = Some (SliderDrag 2),
         in_color = None, in_fb_size = (1280, 1280)\<rparr>), env_close = (\<lambda>k. k = 3)\<rparr> = Some r \<and>
     res_gl r = Some st \<and> gl_vaos st 3 = None \<and> gl_buffers st 4 = None \<and>
     gl_vertex_array st = 0 \<and> gl_textures st 2 \<noteq> None"
  using main_exit_deletes_vertex_objects [of "\<lparr>env_window_ok = True, env_glad_ok = True, env_texture_ok = True,
       env_locs = (\<lambda>_ _. 0), env_app = \<lparr>app_shader = 1, app_texture = 2, app_vao = 3\<rparr>, env_vbo = 4,
       env_frames = (\<lambda>_. \<lparr>in_xAxis = Some (SliderDrag 30), in_yAxis = None, in_recursion = Some (SliderDrag 2),
         in_color = None, in_fb_size = (1280, 1280)\<rparr>), env_close = (\<lambda>k. k = 3)\<rparr>" 3]
  by (simp add: names_ok_def)

end
