(* ===== verification/Spec2Isabelle.thy ===== *)
theory Spec2Isabelle
  imports MainRuns
begin

text \<open>
  \<^bold>\<open>A verification model of the Sierpinski-tetrahedron demo (src/src/main.cpp).\<close>

  \<^emph>\<open>The program.\<close> One C++ file. \<open>main\<close> creates a GLFW window and GL context, sets
  up Dear ImGui, compiles a shader, uploads a vertex array of twelve vertices (the four
  faces of a regular tetrahedron) and a texture, and runs a render loop. Each frame it
  reads four ImGui widgets (two rotation angles, the recursion depth \<open>0..10\<close>, a colour),
  builds a rotated model matrix and calls the recursive generator
  \<open>generateSierpinskiTriangle\<close>, which draws the mesh once per leaf of a 4-ary tree of
  the chosen depth under the leaf's accumulated transform (each level scales by one half
  and translates by one of four corner offsets \<open>translations[]\<close>), plus one outer
  triangle under the identity at the root.

  \<^emph>\<open>Theories.\<close>
  \<^item> \<open>Prelude\<close>: the C \<open>int\<close> as \<open>cint = 32 word\<close> with signed comparison, rule
    collections \<open>cint_simps\<close>, \<open>glm_simps\<close>, \<open>gl_simps\<close>, the no-overflow lemma for
    \<open>curRec + 1\<close> below \<open>maxRec\<close>, and \<open>fold_log\<close>, the loop lemma for logs.
  \<^item> \<open>Glm\<close>: glm's \<open>vec3\<close>, \<open>vec4\<close>, \<open>mat4\<close> (column-major), \<open>mat4(1.0f)\<close>,
    \<open>scale\<close>, \<open>translate\<close>, \<open>rotate\<close>, \<open>perspective\<close>, \<open>radians\<close> (library code
    outside the repository, modelled from glm's source), with floats idealised as reals;
    the abstract view \<open>mat_point\<close> of a matrix as a map on points, the similarity
    matrices \<open>sim_mat\<close> with the refinement lemma that \<open>translate(scale(m, h), t)\<close>
    is \<open>m\<close> composed with \<open>x \<mapsto> h x + h t\<close>, and orthonormal matrices, which keep
    distances (\<open>orthonormal_dist\<close>).
  \<^item> \<open>GL\<close>: the OpenGL context as a record (current program, uniform locations and
    values per program, sticky error flag, ordered log of draws with the uniform values
    each saw, object stores for buffers, vertex array objects and textures) and the
    entry points the program calls, after the GL 3.3 core specification (outside the
    repository); the object calls are a datatype with one interpreter \<open>gl_exec\<close>, and
    \<open>attrib_fetch\<close>, \<open>gl_enabled_attrib\<close> give what a draw fetches.
  \<^item> \<open>Glfw\<close>: GLFW after its reference (outside the repository): the library state as a
    record, the state-changing entry points as a call datatype with one interpreter
    \<open>glfw_exec\<close>, the query \<open>glfwWindowShouldClose\<close> and event polling
    \<open>glfwPollEvents\<close>, which delivers the user's close request.
  \<^item> \<open>Mesh\<close>: \<open>translations[]\<close> (lines 36--41), the vertex array (121--143), also
    read as its twelve rows of five floats, and the two vertex attributes (160--164); the
    vertex fetch as a bounds-checked read.
  \<^item> \<open>Sierpinski\<close>: \<open>generateSierpinskiTriangle\<close> (lines 43--63) as a \<open>function\<close> on
    the GL state, its helpers \<open>draw_with_model\<close> (lines 45--47, 52--55) and
    \<open>child_model\<close> (59--60), and the abstract specification \<open>sierpinski_spec\<close>: the
    ordered (first, count, matrix) triples of its draws, built from the paths of the
    recursion tree.
  \<^item> \<open>RenderLoop\<close>: the statics of lines 218--219 as \<open>ui_state\<close>, the ImGui widgets by
    their effect (\<open>SliderInt\<close> clamps a dragged value and stores a typed one as typed,
    \<open>ColorEdit3\<close> clamps RGB and keeps alpha), the model, view and projection matrices (228--237), the frame body before the
    generator call as \<open>frame_setup\<close> (211--274), one iteration \<open>render_frame\<close>
    (207--279) and runs \<open>run_frames\<close> over per-frame inputs.
  \<^item> \<open>Lifecycle\<close>: the render loop \<open>while (!glfwWindowShouldClose(window))\<close>
    (207--279) as \<open>render_loop\<close>, a \<open>partial_function (option)\<close> whose value
    \<open>None\<close> is a loop that never ends; \<open>main\<close> as \<open>main_startup\<close> (65--117, early
    returns as \<open>Inl\<close>), \<open>main_gl_setup\<close> (119--203), the loop, the deletion of the
    vertex array and buffer \<open>main_gl_teardown\<close> (282--283) and \<open>main_teardown\<close>
    (285--291), composed in \<open>main_model\<close> for an environment that fixes which external
    calls succeed, the user's input in each frame and the frames in which the user asks to
    close the window; \<open>processInput\<close> and \<open>framebuffer_size_callback\<close>.
  \<^item> \<open>MainRuns\<close>: the runs of \<open>main\<close> as a transition system: one loop iteration as
    the inductive step relation \<open>loop_step\<close>, the configurations \<open>main_reach\<close>
    reachable from the state after start-up and GL set-up, their invariant \<open>loop_inv\<close>
    and their frame-by-frame description \<open>main_reach_frame\<close> by rule induction, and
    the link to \<open>render_loop\<close> by fixpoint induction.
  \<^item> \<open>Spec2Isabelle\<close> (this theory): properties that span components: the mesh and the
    generator (C8), the whole program from start-up to the last frame (C29), and the
    mesh, the generator and the frame rotation (C33).

  \<^emph>\<open>What is shown.\<close> The generator terminates for every pair of 32-bit ints (measure
  \<open>maxRec - curRec\<close>; \<open>curRec + 1\<close> never wraps). With the program bound, it appends
  exactly the draws of \<open>sierpinski_spec\<close> (C1); the root call draws \<open>1 + 4^maxRec\<close>
  times, or once when \<open>maxRec \<le> 0\<close> (C2, C3); the leaf matrices are the root composed
  with similarities of ratio \<open>2^-depth\<close> (C4) and each child is the half-size copy at
  its corner (C7); without a bound program it leaves \<open>GL_INVALID_OPERATION\<close> (C5). The
  corner offsets span a regular tetrahedron of side 1 (C6). Over any run of the render
  loop in which the user only drags the sliders, the depth stays in \<open>0..10\<close> and the
  angles in \<open>0..360\<close> (C9); a value typed into a slider's text field is stored
  unclamped, so a typed depth above 10 makes a frame issue more than \<open>1 + 4^10\<close> draws
  (C11). Each frame sets the viewport to the framebuffer size it reads, and the
  projection's horizontal and vertical scales agree with it only when \<open>3 w = 4 h\<close>
  (C13). A frame shows exactly the generator's
  specification for its rotation and depth (C10). The recursive generator equals the
  flat loop of \<open>draw_with_model\<close> over its specification, on the whole GL state (C18).
  The frame's model matrix is a rotation (C19), so every leaf is a congruent copy of the
  mesh scaled by \<open>2^-n\<close> (C20). The render loop returns exactly when the user asks to
  close the window (C21, liveness by fixpoint induction and the converse by induction on
  the frames left), and then it has run exactly the frames up to that request, in the
  state of \<open>run_frames\<close> (C22). \<open>main\<close> exits with \<open>-1\<close> exactly on window or loader
  failure, with \<open>0\<close> after a close request and not at all without one (C14), and logs
  one message per failure (C15). Every draw of a frame is a \<open>GL_TRIANGLES\<close> draw of
  the shader, a leaf or the outer triangle (C25). Given a named shader and non-negative
  framebuffer sizes, every reachable configuration keeps GLFW initialised with its window
  current, the shader bound and no GL error, whatever the user types into the widgets
  (C23), so a run that ends does so with no GL error ever recorded and the shader still
  bound (C24). With distinct active locations,
  every draw of a frame sees the view and projection matrices of the frame (C26). The
  vertex array read row by row is a round trip for positions (C27), while attribute 1
  reads each vertex's texture coordinates and the next vertex's \<open>x\<close> (C28). End to end,
  a run closed in frame \<open>k\<close> returns from \<open>main\<close> with the statics computed from the
  inputs of frames \<open>0..k\<close> and a last frame showing exactly the generator's
  specification for them (C29, this theory). The set-up (\<open>setup_vertex_buffers\<close>,
  \<open>setup_texture\<close>, lines 105 and 147--198) leaves a vertex state that no frame changes:
  in every reachable configuration the bound vertex array reads \<open>vertices[]\<close> through
  exactly \<open>vertex_attribs\<close> (C30), so the out-of-range reads of C8 and C28 are those of
  every frame, and the bound texture is complete exactly when decoding succeeded (C31). Two
  calls with the same inputs append the same draws twice (C32), and the four children of
  the root sit at four distinct corners, half a side apart (C33, this theory). Every
  configuration a run reaches after \<open>k > 0\<close> frames, whether or not the run ends,
  holds the statics the widgets computed from the inputs of frames \<open>0..k-1\<close> and shows
  exactly the generator's specification for them (C34). A run that ends deletes the
  vertex array and the vertex buffer and leaves no vertex array bound (C35).

  \<^emph>\<open>Findings.\<close> At depth 0 only one draw happens, not the two the specification
  describes (C3). The outer-triangle draw \<open>glDrawArrays(GL_TRIANGLES, 12, 6)\<close> reads
  vertices 12--17 of a twelve-vertex array (C8); attribute 1 is declared with three
  floats where each vertex has two texture coordinates, so the last vertex's read runs
  one float past the array (C28); leaf draws use all twelve vertices (four faces), not
  nine. The colour uniform is uploaded before the colour editor runs, so edits show one
  frame late (C12); the projection's aspect 800/600 does not match the 1280 by 1280
  window \<open>main\<close> asks for, whose image is squeezed horizontally (C13); the sliders do
  not bound what the user can type into them, so the depth can exceed 10 and a frame
  can issue more than \<open>1 + 4^10\<close> draws (C11); the teardown destroys the window after terminating GLFW, which reports
  \<open>GLFW_NOT_INITIALIZED\<close> (C16); a loader failure returns without terminating GLFW
  (C17); the angles start at 0, outside their sliders' range; \<open>processInput\<close> is never
  called, so Escape does not end the program; a texture decoding failure is only
  logged and every frame samples an incomplete texture, and the second setting of the
  texture parameters (line 197) makes the generated mipmaps unused (C31); the texture is
  never deleted, unlike the vertex array and buffer (C35).

  \<^emph>\<open>Bounds and choices.\<close> No fuel is needed: the generator is a total \<open>function\<close>
  with a measure, its loop a \<open>fold\<close> over \<open>[0..<4]\<close>; the render loop, which may run
  forever, is a \<open>partial_function (option)\<close>, and that it returns is proved as such
  (C21, C22) from the first close request. The two polls of an iteration (lines 211 and
  278) are one event delivery per frame: a close request seen by either ends the loop
  after that frame. \<open>run_frames\<close> is the loop over a finite list of frame inputs, the
  abstraction the frame properties use.

  \<^emph>\<open>Not modelled.\<close> Floating-point rounding (reals instead); the internals of GLFW,
  GLAD, ImGui, stb_image and shader compilation (only their effects on the modelled state);
  image contents, the depth test itself and shader execution; the draws ImGui's back end
  makes into the same framebuffer (\<open>ImGui_ImplOpenGL3_RenderDrawData\<close>, line 261),
  which are not logged (it saves and restores the GL state it touches); a value typed
  into the colour editor, modelled as clamped to \<open>0..1\<close> like a picked one (no
  property depends on the clamp); ImGui's context, style and
  back-end set-up and shutdown (lines 107--116, 285--287), whose effects no later code
  observes; GL errors for invalid locations or uniform types, which the program does not
  reach; the window's requested size (line 81) and the framebuffer resize events delivered
  by polling with the callback registered at line 89: the callback sets the viewport, and
  each frame sets it again from \<open>glfwGetFramebufferSize\<close> (lines 244--246) before any
  draw, so no draw observes the callback's value; the framebuffer size each frame reads
  is an input of the environment.

  The \<open>unsigned int\<close> round trip of \<open>modelLoc\<close> and \<open>viewLoc\<close> (lines 266--270) is the
  identity on 32-bit two's complement values and is not modelled as a separate step.

\<close>

text \<open>
  C8. Whenever the recursion depth is positive, the root call issues a draw whose every
  vertex position is read past the end of the vertex array: the outer triangle.
\<close>

theorem root_draws_out_of_range:
  assumes "0 <s maxRec"
  shows "\<exists>d \<in> set (gl_draws (generateSierpinskiTriangle p m maxRec 0 st)).
           draw_count d \<noteq> 0 \<and>
           list_all (\<lambda>i. attrib_fetch vertices attrib_position i = None)
             [unat (draw_first d)..<unat (draw_first d) + unat (draw_count d)]"
proof -
  have "(12, 6) \<in> set (map (\<lambda>(f, c, _). (f, c)) (sierpinski_spec m maxRec 0))"
    using assms by (simp add: sierpinski_spec_def)
  then have "(12, 6) \<in> set (map (\<lambda>d. (draw_first d, draw_count d))
      (gl_draws (generateSierpinskiTriangle p m maxRec 0 st)))"
    using generate_shape [of 0 p m maxRec st] root_cint by simp
  then obtain d where d: "d \<in> set (gl_draws (generateSierpinskiTriangle p m maxRec 0 st))"
      "draw_first d = 12" "draw_count d = 6"
    by auto
  then show ?thesis
    by (intro bexI [OF _ d(1)]) (simp add: list_all_iff position_fetch_past_end)
qed

theorem root_draws_out_of_range_witness:
  "\<exists>d \<in> set (gl_draws (generateSierpinskiTriangle 1 mat4_identity 3 0
       ((gl_fresh (\<lambda>_ _. 0))\<lparr>gl_current_program := 1\<rparr>))).
     draw_count d \<noteq> 0 \<and>
     list_all (\<lambda>i. attrib_fetch vertices attrib_position i = None)
       [unat (draw_first d)..<unat (draw_first d) + unat (draw_count d)]"
  using root_draws_out_of_range [of 3] by (simp add: cint_simps)

text \<open>
  C29. End to end: after a successful start-up, when frame \<open>k\<close> is the first in which
  the user asks to close the window, \<open>main\<close> returns, its statics are those the widgets
  computed from the inputs of frames \<open>0..k\<close>, and the last frame shows exactly the
  generator's specification for that frame's rotation and depth, each draw seeing its
  model matrix (with the shader named and its \<open>model\<close> uniform active).
\<close>

theorem main_last_frame_shows_spec:
  assumes "env_window_ok e" "env_glad_ok e" "env_close e k" "\<forall>j<k. \<not> env_close e j"
    "app_shader (env_app e) = p" "p \<noteq> 0" "env_locs e p ''model'' = l" "l \<noteq> -1"
  shows "\<exists>r ui st. main_model e = Some r \<and> res_frame r = Some (ui, st) \<and>
     ui = fold ui_widgets (map (env_frames e) [0..<Suc k]) ui_init \<and>
     map (draw_view l) (gl_draws st) = map spec_view (sierpinski_spec (frame_model ui) (ui_recursion ui) 0)"
proof -
  let ?a = "env_app e" and ?ins = "env_frames e" and ?s0 = "(ui_init, fst (main_gl_setup e))"
  obtain ui0 st' where prev: "run_frames ?a (map ?ins [0..<k]) ?s0 = (ui0, st')" by fastforce
  have run: "run_frames ?a (map ?ins [0..<Suc k]) ?s0 = render_frame ?a (?ins k) (ui0, st')"
    by (simp add: run_frames_snoc prev)
  have loop: "render_loop ?a 1 ?ins (env_close e) 0 glfw_started ?s0 =
      Some (Suc k, glfwPollEvents 1 True (glfw_exec (GlfwMakeContextCurrent 1) glfw_started),
            run_frames ?a (map ?ins [0..<Suc k]) ?s0)"
    using render_loop_first_close [of glfw_started 1 "env_close e" k 0 ?a ?ins ?s0]
      glfw_started_state(1,2) assms(3,4) by simp
  have ui: "ui_widgets (?ins k) ui0 = fold ui_widgets (map ?ins [0..<Suc k]) ui_init"
    using run_frames_ui_fold [of ?a "map ?ins [0..<k]" ?s0] prev by simp
  have locs: "gl_uniform_locs st' p ''model'' = l"
    using run_frames_locs [of ?a "map ?ins [0..<k]" ?s0] prev main_gl_setup_locs [of e] assms(7)
    by simp
  have "\<exists>g gl. main_model e = Some \<lparr>exit_code = 0, res_glfw = g,
      res_frame = Some (render_frame ?a (?ins k) (ui0, st')), res_log = snd (main_gl_setup e),
      res_gl = gl\<rparr>"
    using assms(1,2) unfolding main_model_paths loop run by simp
  moreover have "render_frame ?a (?ins k) (ui0, st') =
      (ui_widgets (?ins k) ui0, snd (render_frame ?a (?ins k) (ui0, st')))"
    by (metis render_frame_ui prod.collapse)
  ultimately show ?thesis
    using render_frame_view [OF assms(5,6) locs assms(8), of "?ins k" ui0] ui by auto
qed

theorem main_last_frame_shows_spec_witness:
  "\<exists>r ui st. main_model \<lparr>env_window_ok = True, env_glad_ok = True, env_texture_ok = True,
       env_locs = (\<lambda>_ _. 0), env_app = \<lparr>app_shader = 1, app_texture = 2, app_vao = 3\<rparr>, env_vbo = 4,
       env_frames = (\<lambda>k. \<lparr>in_xAxis = Some (SliderDrag 40), in_yAxis = Some (SliderDrag 20), in_recursion = Some (SliderDrag (of_nat k + 1)),
         in_color = None, in_fb_size = (1280, 1280)\<rparr>), env_close = (\<lambda>k. k = 1)\<rparr> = Some r \<and> res_frame r = Some (ui, st) \<and>
     ui = fold ui_widgets (map (env_frames \<lparr>env_window_ok = True, env_glad_ok = True, env_texture_ok = True,
       env_locs = (\<lambda>_ _. 0), env_app = \<lparr>app_shader = 1, app_texture = 2, app_vao = 3\<rparr>, env_vbo = 4,
       env_frames = (\<lambda>k. \<lparr>in_xAxis = Some (SliderDrag 40), in_yAxis = Some (SliderDrag 20), in_recursion = Some (SliderDrag (of_nat k + 1)),
         in_color = None, in_fb_size = (1280, 1280)\<rparr>), env_close = (\<lambda>k. k = 1)\<rparr>) [0..<2]) ui_init \<and>
     map (draw_view 0) (gl_draws st) = map spec_view (sierpinski_spec (frame_model ui) (ui_recursion ui) 0)"
  using main_last_frame_shows_spec [of "\<lparr>env_window_ok = True, env_glad_ok = True, env_texture_ok = True,
       env_locs = (\<lambda>_ _. 0), env_app = \<lparr>app_shader = 1, app_texture = 2, app_vao = 3\<rparr>, env_vbo = 4,
       env_frames = (\<lambda>k. \<lparr>in_xAxis = Some (SliderDrag 40), in_yAxis = Some (SliderDrag 20), in_recursion = Some (SliderDrag (of_nat k + 1)),
         in_color = None, in_fb_size = (1280, 1280)\<rparr>), env_close = (\<lambda>k. k = 1)\<rparr>" 1 1 0]
  by (simp add: numeral_2_eq_2)

text \<open>
  C33. The four children of the root use four distinct corner offsets (testable
  property 5): under any frame rotation, the origins of any two children are at distance
  one half, half the side of the tetrahedron the offsets span.
\<close>

theorem frame_children_distinct:
  assumes "i < 4" "j < 4" "i \<noteq> j"
  shows "v4_dist2 (translation_col (child_model (frame_model ui) i))
     (translation_col (child_model (frame_model ui) j)) = 1 / 4"
  using corner_dist [OF assms]
  by (simp add: translation_col_child orthonormal_dist [OF frame_model_orthonormal] v3_dist2_smul
      power2_eq_square)

theorem frame_children_distinct_witness:
  "v4_dist2 (translation_col (child_model (frame_model ui_init) 0))
     (translation_col (child_model (frame_model ui_init) 2)) = 1 / 4"
  using frame_children_distinct [of 0 2 ui_init] by simp

end
